theory Spec2Isabelle
  imports Main "HOL-Library.Sublist" "HOL-Library.Multiset" "HOL-Library.Word"
begin

section \<open>Go library functions the provider relies on\<close>

text \<open>
  An \<open>error\<close> is modelled by its message (\<open>err.Error()\<close>): the provider only ever
  formats errors with \<open>%v\<close>, compares them with \<open>nil\<close>, or searches their text.
  A nil error is \<open>None\<close>.
\<close>

type_synonym error = string

text \<open>\<open>strings.Join\<close>, \<open>strings.HasPrefix\<close>, \<open>strings.TrimPrefix\<close>, \<open>strings.Contains\<close>.\<close>

fun strings_Join :: "string list \<Rightarrow> string \<Rightarrow> string" where
  "strings_Join [] sep = []"
| "strings_Join [x] sep = x"
| "strings_Join (x # y # ys) sep = x @ sep @ strings_Join (y # ys) sep"

definition strings_HasPrefix :: "string \<Rightarrow> string \<Rightarrow> bool" where
  "strings_HasPrefix s p = prefix p s"

definition strings_TrimPrefix :: "string \<Rightarrow> string \<Rightarrow> string" where
  "strings_TrimPrefix s p = (if strings_HasPrefix s p then drop (length p) s else s)"

definition strings_Contains :: "string \<Rightarrow> string \<Rightarrow> bool" where
  "strings_Contains s sub = sublist sub s"

text \<open>The verb \<open>%d\<close> of \<open>fmt\<close>: decimal digits, a minus sign for negative values.\<close>

fun fmt_nat :: "nat \<Rightarrow> string" where
  "fmt_nat n =
     (if n < 10 then [''0123456789'' ! n]
      else fmt_nat (n div 10) @ [''0123456789'' ! (n mod 10)])"

definition fmt_int :: "int \<Rightarrow> string" where
  "fmt_int i = (if i < 0 then CHR ''-'' # fmt_nat (nat (- i)) else fmt_nat (nat i))"

text \<open>
  The verb \<open>%q\<close> (\<open>strconv.Quote\<close>) on ASCII text: the string in double quotes, with
  the quote and the backslash escaped, the control characters written as Go escapes.
  On a string with a byte from \<open>0x80\<close> on, Go decodes UTF-8 and consults the Unicode
  tables of \<open>strconv.IsPrint\<close>; the model does not have them and leaves the result
  unspecified there, so a property of a quoted string holds for ASCII strings only.
\<close>

definition isASCII :: "string \<Rightarrow> bool" where
  "isASCII s = list_all (\<lambda>c. (of_char c :: nat) < 0x80) s"

definition quote_byte :: "char \<Rightarrow> string" where
  "quote_byte c =
     (let n = (of_char c :: nat) in
      if n = 0x22 then [CHR 0x5C, CHR 0x22]
      else if n = 0x5C then [CHR 0x5C, CHR 0x5C]
      else if n = 7 then [CHR 0x5C, CHR ''a'']
      else if n = 8 then [CHR 0x5C, CHR ''b'']
      else if n = 12 then [CHR 0x5C, CHR ''f'']
      else if n = 10 then [CHR 0x5C, CHR ''n'']
      else if n = 13 then [CHR 0x5C, CHR ''r'']
      else if n = 9 then [CHR 0x5C, CHR ''t'']
      else if n = 11 then [CHR 0x5C, CHR ''v'']
      else if n < 0x20 \<or> n = 0x7F then
        [CHR 0x5C, CHR ''x'', ''0123456789abcdef'' ! (n div 16), ''0123456789abcdef'' ! (n mod 16)]
      else [c])"

definition strconv_Quote :: "string \<Rightarrow> string" where
  "strconv_Quote s =
     (if isASCII s then [CHR 0x22] @ concat (map quote_byte s) @ [CHR 0x22] else undefined)"

text \<open>
  \<open>strconv.Atoi\<close> is \<open>ParseInt(s, 10, 0)\<close> converted to \<open>int\<close> (64 bits). \<open>ParseUint\<close>
  reads the digits left to right and stops at the first failure: a byte that is not a
  digit is a syntax error with value 0; a value that leaves the 64-bit range is a range
  error with the largest value, reported before the remaining bytes are looked at.
  \<open>ParseInt\<close> takes the sign off first and saturates at the bounds of \<open>int64\<close>.
\<close>

datatype NumError = ErrSyntax | ErrRange

definition isDigit :: "char \<Rightarrow> bool" where
  "isDigit c = (c \<in> set ''0123456789'')"

definition digitVal :: "char \<Rightarrow> nat" where
  "digitVal c = of_char c - 48"

fun ParseUint_loop :: "nat \<Rightarrow> string \<Rightarrow> nat \<times> NumError option" where
  "ParseUint_loop n [] = (n, None)"
| "ParseUint_loop n (c # cs) =
     (if \<not> isDigit c then (0, Some ErrSyntax)
      else if n \<ge> (2 ^ 64 - 1) div 10 + 1 then (2 ^ 64 - 1, Some ErrRange)
      else let n1 = n * 10 + digitVal c in
        if n1 > 2 ^ 64 - 1 then (2 ^ 64 - 1, Some ErrRange)
        else ParseUint_loop n1 cs)"

definition ParseUint :: "string \<Rightarrow> nat \<times> NumError option" where
  "ParseUint s = (if s = [] then (0, Some ErrSyntax) else ParseUint_loop 0 s)"

fun ParseInt :: "string \<Rightarrow> int \<times> NumError option" where
  "ParseInt [] = (0, Some ErrSyntax)"
| "ParseInt (c # cs) =
     (let neg = (c = CHR ''-'');
          body = (if c = CHR ''+'' \<or> c = CHR ''-'' then cs else c # cs)
      in case ParseUint body of
           (un, Some ErrSyntax) \<Rightarrow> (0, Some ErrSyntax)
         | (un, _) \<Rightarrow>
             if \<not> neg \<and> un \<ge> 2 ^ 63 then (2 ^ 63 - 1, Some ErrRange)
             else if neg \<and> un > 2 ^ 63 then (- (2 ^ 63), Some ErrRange)
             else (if neg then - int un else int un, None))"

definition Atoi :: "string \<Rightarrow> int \<times> NumError option" where
  "Atoi s = ParseInt s"

text \<open>
  Go's \<open>int\<close> is 64 bits wide here; \<open>int_add\<close> is its addition, which wraps around.
\<close>

definition int_add :: "int \<Rightarrow> int \<Rightarrow> int" where
  "int_add a b = (a + b + 2 ^ 63) mod 2 ^ 64 - 2 ^ 63"

text \<open>
  \<open>make(chan error, n)\<close>: \<open>runtime.makechan\<close> panics ("makechan: size out of range")
  when \<open>n\<close> is negative or when the buffer, \<open>n\<close> elements of 16 bytes (an interface
  value), does not fit in \<open>maxAlloc - hchanSize\<close>; on 64-bit Linux \<open>maxAlloc\<close> is
  \<open>2 ^ 48\<close> and \<open>hchanSize\<close> is 96 (in the Go releases of the time of this code; the
  bound is \<open>2 ^ 44 - 6\<close> elements). A function that panics returns nothing: its result
  is \<open>None\<close>, and so is the result of its callers, none of which recovers. A buffer the
  runtime accepts and the machine cannot hold ends the process; the model does not
  follow the memory of the machine.
\<close>

definition makechan_ok :: "int \<Rightarrow> bool" where
  "makechan_ok n = (0 \<le> n \<and> 16 * n \<le> 2 ^ 48 - 96)"

text \<open>
  A \<open>time.Time\<close> is modelled by its distance in nanoseconds from the zero time, a
  \<open>time.Duration\<close> by its nanoseconds. \<open>t.Sub(u)\<close> saturates at the bounds of
  \<open>Duration\<close> (an \<open>int64\<close>); \<open>time.Since(u)\<close> is \<open>time.Now().Sub(u)\<close>.
\<close>

definition time_Sub :: "int \<Rightarrow> int \<Rightarrow> int" where
  "time_Sub t u = max (- (2 ^ 63)) (min (2 ^ 63 - 1) (t - u))"

text \<open>Reading a key of a Go map: the zero value (the empty string) when the key is absent.\<close>

definition map_get :: "(string \<rightharpoonup> string) \<Rightarrow> string \<Rightarrow> string" where
  "map_get m k = (case m k of None \<Rightarrow> [] | Some v \<Rightarrow> v)"

section \<open>The CloudStack API as the provider sees it\<close>

record AutoScaleVmProfile =
  asp_Id :: string
  asp_Serviceofferingid :: string
  asp_Zoneid :: string
  asp_Templateid :: string
  asp_Projectid :: string
  asp_Otherdeployparams :: string

record ResourceDetail =
  rd_Key :: string
  rd_Value :: string

record VirtualMachine =
  vm_Id :: string
  vm_State :: string

record ServiceOffering =
  so_Name :: string
  so_Cpunumber :: int
  so_Memory :: int

record Zone =
  zone_Name :: string

record Project =
  pj_Id :: string

text \<open>
  \<open>vmProfile\<close> (cloudstack_vmprofile.go). \<open>aspMetadata\<close> is a Go map that may be nil:
  \<open>None\<close> is the nil map.
\<close>

record vmProfile =
  asp :: AutoScaleVmProfile
  aspMetadata :: "(string \<rightharpoonup> string) option"
  offering :: ServiceOffering
  zone :: Zone

text \<open>
  The request parameters. A deploy request is built by \<open>createDeployVMParams\<close> from the
  profile alone (its ids, and the entries of \<open>Otherdeployparams\<close> decoded by
  \<open>net/url\<close>) and then given a name: the model's request carries the name and the profile
  it was built from, so whatever the API does with the request it can do here. In the same
  way the listing of a group's instances carries the profile's \<open>asp\<close>, from which
  \<open>projectID()\<close> computes the project of the request, and the tag filter.
\<close>

record DeployVirtualMachineParams =
  dp_name :: string
  dp_profile :: vmProfile

record CreateTagsParams =
  ct_tags :: "string \<rightharpoonup> string"
  ct_resourceids :: "string list"
  ct_resourcetype :: string

record DestroyVirtualMachineParams =
  dv_id :: string
  dv_expunge :: bool

record ListVirtualMachinesParams =
  lv_asp :: AutoScaleVmProfile
  lv_tags :: "string \<rightharpoonup> string"

record ListResourceDetailsParams =
  ld_resourcetype :: string
  ld_resourceid :: string

text \<open>
  What \<open>DeployVirtualMachine\<close> returns: a response and no error, or an error together
  with a response that may be nil (\<open>None\<close>) or may carry the id of the instance (the
  asynchronous job can time out after the instance exists). The client library never
  returns a nil response with a nil error.
\<close>

datatype DeployResult = Deployed string | DeployFailed "string option" error

text \<open>
  The remote API is a state machine over a world \<open>'w\<close> of which nothing is assumed:
  every method takes the world and returns its answer with the next world.
\<close>

record 'w cloudstackClient =
  DestroyVirtualMachine :: "DestroyVirtualMachineParams \<Rightarrow> 'w \<Rightarrow> error option \<times> 'w"
  DeployVirtualMachine :: "DeployVirtualMachineParams \<Rightarrow> 'w \<Rightarrow> DeployResult \<times> 'w"
  CreateTags :: "CreateTagsParams \<Rightarrow> 'w \<Rightarrow> error option \<times> 'w"
  ListProjects :: "'w \<Rightarrow> (error + Project list) \<times> 'w"
  ListAutoScaleVmProfiles :: "string option \<Rightarrow> 'w \<Rightarrow> (error + AutoScaleVmProfile list) \<times> 'w"
  ListResourceDetails :: "ListResourceDetailsParams \<Rightarrow> 'w \<Rightarrow> (error + ResourceDetail list) \<times> 'w"
  ListVirtualMachines :: "ListVirtualMachinesParams \<Rightarrow> 'w \<Rightarrow> (error + VirtualMachine list) \<times> 'w"
  GetServiceOfferingByID :: "string \<Rightarrow> 'w \<Rightarrow> (error + ServiceOffering) \<times> 'w"
  GetZoneByID :: "string \<Rightarrow> 'w \<Rightarrow> (error + Zone) \<times> 'w"

text \<open>
  The process state around the provider: the remote world, the log of the API calls made
  so far (what the tests' mock records), the readings the clock will give to the next
  calls of \<open>time.Now()\<close>, and the values \<open>rand.Uint64()\<close> will return next.
\<close>

datatype apicall =
    DestroyCall DestroyVirtualMachineParams
  | DeployCall DeployVirtualMachineParams
  | CreateTagsCall CreateTagsParams
  | ListProjectsCall
  | ListAutoScaleVmProfilesCall "string option"
  | ListResourceDetailsCall ListResourceDetailsParams
  | ListVirtualMachinesCall ListVirtualMachinesParams
  | GetServiceOfferingByIDCall string
  | GetZoneByIDCall string

record 'w sys =
  world :: 'w
  calls :: "apicall list"
  clock :: "nat \<Rightarrow> int"
  rands :: "nat \<Rightarrow> 64 word"

definition invoke :: "apicall \<Rightarrow> ('w \<Rightarrow> 'r \<times> 'w) \<Rightarrow> 'w sys \<Rightarrow> 'r \<times> 'w sys" where
  "invoke c f s = (case f (world s) of (r, w') \<Rightarrow> (r, s\<lparr>world := w', calls := calls s @ [c]\<rparr>))"

definition time_Now :: "'w sys \<Rightarrow> int \<times> 'w sys" where
  "time_Now s = (clock s 0, s\<lparr>clock := (\<lambda>n. clock s (Suc n))\<rparr>)"

definition rand_Uint64 :: "'w sys \<Rightarrow> 64 word \<times> 'w sys" where
  "rand_Uint64 s = (rands s 0, s\<lparr>rands := (\<lambda>n. rands s (Suc n))\<rparr>)"

section \<open>Constants of cloudstack_manager.go\<close>

definition resourceTypeAutoScaleVmProfile :: string where
  "resourceTypeAutoScaleVmProfile = ''AutoScaleVmProfile''"

definition resourceTypeVirtualMachine :: string where
  "resourceTypeVirtualMachine = ''UserVm''"

definition autoScaleProfileMetadataName :: string where
  "autoScaleProfileMetadataName = ''nodeGroupName''"

definition autoScaleProfileMetadataMin :: string where
  "autoScaleProfileMetadataMin = ''minNodes''"

definition autoScaleProfileMetadataMax :: string where
  "autoScaleProfileMetadataMax = ''maxNodes''"

definition autoScaleProfileMetadataUserdata :: string where
  "autoScaleProfileMetadataUserdata = ''userdata''"

definition autoScaleProfileMetadataProviderIDPrefix :: string where
  "autoScaleProfileMetadataProviderIDPrefix = ''providerIDPrefix''"

definition autoScaleProfileMetadataNodeLabelPrefix :: string where
  "autoScaleProfileMetadataNodeLabelPrefix = ''label-''"

definition autoScaleProfileMetadataVMTagPrefix :: string where
  "autoScaleProfileMetadataVMTagPrefix = ''tag-''"

definition nodeGroupVMTag :: string where
  "nodeGroupVMTag = autoScaleProfileMetadataName"

definition requiredAutoScaleProfileMetadata :: "string list" where
  "requiredAutoScaleProfileMetadata =
     [autoScaleProfileMetadataName, autoScaleProfileMetadataMin, autoScaleProfileMetadataMax]"

section \<open>vmProfile (cloudstack_vmprofile.go)\<close>

text \<open>\<open>(p *vmProfile) Id()\<close>; the name \<open>Id\<close> itself is HOL's identity relation.\<close>

definition Id_vmProfile :: "vmProfile \<Rightarrow> string" where
  "Id_vmProfile p = (case aspMetadata p of None \<Rightarrow> [] | Some md \<Rightarrow> map_get md autoScaleProfileMetadataName)"

text \<open>\<open>max, _ := strconv.Atoi(...)\<close>: the error of \<open>Atoi\<close> is dropped, its value kept.\<close>

definition maxSize :: "vmProfile \<Rightarrow> int" where
  "maxSize p =
     (case aspMetadata p of None \<Rightarrow> 0
      | Some md \<Rightarrow> fst (Atoi (map_get md autoScaleProfileMetadataMax)))"

definition minSize :: "vmProfile \<Rightarrow> int" where
  "minSize p =
     (case aspMetadata p of None \<Rightarrow> 0
      | Some md \<Rightarrow> fst (Atoi (map_get md autoScaleProfileMetadataMin)))"

definition userdata :: "vmProfile \<Rightarrow> string \<times> bool" where
  "userdata p =
     (case aspMetadata p of None \<Rightarrow> ([], False)
      | Some md \<Rightarrow> (map_get md autoScaleProfileMetadataUserdata,
                     md autoScaleProfileMetadataUserdata \<noteq> None))"

definition providerIDPrefix :: "vmProfile \<Rightarrow> string" where
  "providerIDPrefix p =
     (case aspMetadata p of None \<Rightarrow> []
      | Some md \<Rightarrow> map_get md autoScaleProfileMetadataProviderIDPrefix)"

text \<open>
  \<open>toMap(prefix)\<close> copies every entry whose key starts with the prefix, under the key
  without the prefix: the entry of key \<open>k\<close> in the result is the entry of
  \<open>prefix + k\<close> in the metadata. Ranging over a nil map copies nothing.
\<close>

definition toMap :: "vmProfile \<Rightarrow> string \<Rightarrow> (string \<rightharpoonup> string)" where
  "toMap p pre = (case aspMetadata p of None \<Rightarrow> Map.empty | Some md \<Rightarrow> (\<lambda>k. md (pre @ k)))"

definition tags :: "vmProfile \<Rightarrow> (string \<rightharpoonup> string)" where
  "tags p = toMap p autoScaleProfileMetadataVMTagPrefix"

definition labels :: "vmProfile \<Rightarrow> (string \<rightharpoonup> string)" where
  "labels p = toMap p autoScaleProfileMetadataNodeLabelPrefix"

section \<open>csScaler (cloudstack_scaler.go)\<close>

record 'w csScaler =
  client :: "'w cloudstackClient"
  expunge :: bool

definition notFoundPattern :: "string \<Rightarrow> string" where
  "notFoundPattern vmID =
     ''Invalid parameter id value='' @ vmID @
     '' due to incorrect long value format, or entity does not exist''"

definition isCSErrorNotFound :: "error option \<Rightarrow> string \<Rightarrow> bool" where
  "isCSErrorNotFound err vmID =
     (case err of None \<Rightarrow> False | Some e \<Rightarrow> strings_Contains e (notFoundPattern vmID))"

definition destroyVM :: "'w csScaler \<Rightarrow> string \<Rightarrow> 'w sys \<Rightarrow> error option \<times> 'w sys" where
  "destroyVM sc vmID s =
     (let params = \<lparr>dv_id = vmID, dv_expunge = expunge sc\<rparr> in
      case invoke (DestroyCall params) (DestroyVirtualMachine (client sc) params) s of
        (err, s') \<Rightarrow> if isCSErrorNotFound err vmID then (None, s') else (err, s'))"

definition errAfterCreating :: "error \<Rightarrow> error \<Rightarrow> error" where
  "errAfterCreating destroyErr err =
     ''unable to destroy cloudstack VM after error creating: '' @ destroyErr @
     '' - original error: '' @ err"

definition errAfterTagging :: "error \<Rightarrow> error \<Rightarrow> error" where
  "errAfterTagging destroyErr err =
     ''unable to destroy cloudstack VM after tagging error: '' @ destroyErr @
     '' - original error: '' @ err"

text \<open>
  \<open>createVM\<close>. The deferred function runs when the function returns after a successful
  deploy: it is the \<open>Some tagErr\<close> branch below.
\<close>

definition createVM ::
  "'w csScaler \<Rightarrow> DeployVirtualMachineParams \<Rightarrow> CreateTagsParams \<Rightarrow> 'w sys \<Rightarrow> error option \<times> 'w sys"
where
  "createVM sc deploy tagsParams s =
     (case invoke (DeployCall deploy) (DeployVirtualMachine (client sc) deploy) s of
        (DeployFailed vm err, s1) \<Rightarrow>
          (case vm of
             None \<Rightarrow> (Some err, s1)
           | Some vmId \<Rightarrow>
               if vmId \<noteq> [] then
                 (case destroyVM sc vmId s1 of
                    (None, s2) \<Rightarrow> (Some err, s2)
                  | (Some destroyErr, s2) \<Rightarrow> (Some (errAfterCreating destroyErr err), s2))
               else (Some err, s1))
      | (Deployed vmId, s1) \<Rightarrow>
          (let tagsParams' = tagsParams\<lparr>ct_resourceids := [vmId],
                                        ct_resourcetype := resourceTypeVirtualMachine\<rparr> in
           case invoke (CreateTagsCall tagsParams') (CreateTags (client sc) tagsParams') s1 of
             (None, s2) \<Rightarrow> (None, s2)
           | (Some tagErr, s2) \<Rightarrow>
               (case destroyVM sc vmId s2 of
                  (None, s3) \<Rightarrow> (Some tagErr, s3)
                | (Some destroyErr, s3) \<Rightarrow> (Some (errAfterTagging destroyErr tagErr), s3))))"

definition randomName :: "string \<Rightarrow> 'w sys \<Rightarrow> string \<times> 'w sys" where
  "randomName base s =
     (case rand_Uint64 s of
        (r, s') \<Rightarrow>
          (let nodeName = base @ ''-'' @ fmt_nat (unat r) in
           (if length nodeName > 63 then take 63 nodeName else nodeName, s')))"

definition createDeployVMParams :: "vmProfile \<Rightarrow> DeployVirtualMachineParams" where
  "createDeployVMParams vmp = \<lparr>dp_name = [], dp_profile = vmp\<rparr>"

definition createVMTagsParams :: "vmProfile \<Rightarrow> CreateTagsParams" where
  "createVMTagsParams vmp =
     \<lparr>ct_tags = (tags vmp)(nodeGroupVMTag \<mapsto> Id_vmProfile vmp),
      ct_resourceids = [], ct_resourcetype = []\<rparr>"

subsection \<open>The goroutines of scaleUp\<close>

text \<open>
  \<open>scaleUp\<close> starts one goroutine per instance; each runs \<open>createVM\<close> and sends its
  result on \<open>errCh\<close>. The goroutines share the remote API, so what matters of an
  interleaving is the order of their API calls and of their sends. A goroutine is
  modelled by where it stands in \<open>createVM\<close>: before the deploy call, before the destroy
  that follows a failed deploy, before the tag call, before the destroy that follows a
  failed tag call, about to send the result \<open>createVM\<close> returned, or done
  (\<open>wg.Done()\<close>). One step of a goroutine is one API call, or the send.
\<close>

datatype task =
    T_Deploy DeployVirtualMachineParams CreateTagsParams
  | T_DestroyAfterCreate string error
  | T_Tag string CreateTagsParams
  | T_DestroyAfterTag string error
  | T_Send "error option"
  | T_Exit "error option"

fun task_step :: "'w csScaler \<Rightarrow> task \<Rightarrow> 'w sys \<Rightarrow> task \<times> 'w sys" where
  "task_step sc (T_Deploy deploy tagsParams) s =
     (case invoke (DeployCall deploy) (DeployVirtualMachine (client sc) deploy) s of
        (DeployFailed vm err, s1) \<Rightarrow>
          (case vm of
             None \<Rightarrow> (T_Send (Some err), s1)
           | Some vmId \<Rightarrow>
               if vmId \<noteq> [] then (T_DestroyAfterCreate vmId err, s1)
               else (T_Send (Some err), s1))
      | (Deployed vmId, s1) \<Rightarrow> (T_Tag vmId tagsParams, s1))"
| "task_step sc (T_DestroyAfterCreate vmId err) s =
     (case destroyVM sc vmId s of
        (None, s1) \<Rightarrow> (T_Send (Some err), s1)
      | (Some destroyErr, s1) \<Rightarrow> (T_Send (Some (errAfterCreating destroyErr err)), s1))"
| "task_step sc (T_Tag vmId tagsParams) s =
     (let tagsParams' = tagsParams\<lparr>ct_resourceids := [vmId],
                                   ct_resourcetype := resourceTypeVirtualMachine\<rparr> in
      case invoke (CreateTagsCall tagsParams') (CreateTags (client sc) tagsParams') s of
        (None, s1) \<Rightarrow> (T_Send None, s1)
      | (Some tagErr, s1) \<Rightarrow> (T_DestroyAfterTag vmId tagErr, s1))"
| "task_step sc (T_DestroyAfterTag vmId tagErr) s =
     (case destroyVM sc vmId s of
        (None, s1) \<Rightarrow> (T_Send (Some tagErr), s1)
      | (Some destroyErr, s1) \<Rightarrow> (T_Send (Some (errAfterTagging destroyErr tagErr)), s1))"
| "task_step sc (T_Send r) s = (T_Exit r, s)"
| "task_step sc (T_Exit r) s = (T_Exit r, s)"

text \<open>
  What the remote API answered to a call of \<open>createVM\<close>: the result of a deploy, or the
  error of a tag or destroy call. \<open>task_answer\<close> is the answer the next call of a
  goroutine gets in the world \<open>w\<close>.
\<close>

datatype answer = DeployAnswer DeployResult | ErrAnswer "error option"

fun task_answer :: "'w csScaler \<Rightarrow> task \<Rightarrow> 'w \<Rightarrow> answer list" where
  "task_answer sc (T_Deploy deploy tagsParams) w =
     [DeployAnswer (fst (DeployVirtualMachine (client sc) deploy w))]"
| "task_answer sc (T_DestroyAfterCreate vmId err) w =
     [ErrAnswer (fst (DestroyVirtualMachine (client sc) \<lparr>dv_id = vmId, dv_expunge = expunge sc\<rparr> w))]"
| "task_answer sc (T_Tag vmId tagsParams) w =
     [ErrAnswer (fst (CreateTags (client sc)
        (tagsParams\<lparr>ct_resourceids := [vmId], ct_resourcetype := resourceTypeVirtualMachine\<rparr>) w))]"
| "task_answer sc (T_DestroyAfterTag vmId tagErr) w =
     [ErrAnswer (fst (DestroyVirtualMachine (client sc) \<lparr>dv_id = vmId, dv_expunge = expunge sc\<rparr> w))]"
| "task_answer sc (T_Send r) w = []"
| "task_answer sc (T_Exit r) w = []"

text \<open>
  The pool of goroutines: their positions, the channel \<open>errCh\<close> (buffered with room
  for every result, so a send never blocks), the process state, and for each goroutine
  the API calls it has made and the answers it got (kept to state the properties, the
  program has no such lists). \<open>sched_step i\<close> lets goroutine \<open>i\<close> take its next step.
\<close>

record 'w pool =
  tasks :: "task list"
  errCh :: "error option list"
  hist :: "apicall list list"
  answers :: "answer list list"
  psys :: "'w sys"

definition sched_step :: "'w csScaler \<Rightarrow> 'w pool \<Rightarrow> nat \<Rightarrow> 'w pool" where
  "sched_step sc p i =
     (if i < length (tasks p) then
        (case tasks p ! i of
           T_Exit r \<Rightarrow> p
         | T_Send r \<Rightarrow> p\<lparr>tasks := (tasks p)[i := T_Exit r], errCh := errCh p @ [r]\<rparr>
         | t \<Rightarrow>
             (case task_step sc t (psys p) of
                (t', s') \<Rightarrow>
                  p\<lparr>tasks := (tasks p)[i := t'],
                    hist := (hist p)[i := hist p ! i @ drop (length (calls (psys p))) (calls s')],
                    answers := (answers p)[i := answers p ! i @ task_answer sc t (world (psys p))],
                    psys := s'\<rparr>))
      else p)"

text \<open>
  The loop of \<open>scaleUp\<close> that builds the requests and starts the goroutines. It draws
  the random names, which touches neither the remote API nor the call log, so the model
  starts every goroutine before any of them runs.
\<close>

fun spawn :: "vmProfile \<Rightarrow> nat \<Rightarrow> 'w sys \<Rightarrow> task list \<times> 'w sys" where
  "spawn vmp 0 s = ([], s)"
| "spawn vmp (Suc n) s =
     (let tagsParams = createVMTagsParams vmp;
          deployParams = createDeployVMParams vmp
      in case randomName (Id_vmProfile vmp) s of
           (name, s1) \<Rightarrow>
             (case spawn vmp n s1 of
                (ts, s2) \<Rightarrow> (T_Deploy (deployParams\<lparr>dp_name := name\<rparr>) tagsParams # ts, s2)))"

text \<open>
  \<open>wg.Wait()\<close> returns when every goroutine is done. The scheduler is the argument
  \<open>sched\<close>, the goroutine that steps next, in order; any interleaving is some \<open>sched\<close>.
  Go's scheduler lets every goroutine finish: after \<open>sched\<close> each goroutine is given
  the steps it may still need (at most four).
\<close>

definition completion :: "nat \<Rightarrow> nat list" where
  "completion n = concat (map (replicate 4) [0..<n])"

definition scaleUp_pool :: "'w csScaler \<Rightarrow> nat list \<Rightarrow> vmProfile \<Rightarrow> nat \<Rightarrow> 'w sys \<Rightarrow> 'w pool" where
  "scaleUp_pool sc sched vmp n s =
     (case spawn vmp n s of
        (ts, s0) \<Rightarrow>
          foldl (sched_step sc)
            \<lparr>tasks = ts, errCh = [], hist = replicate n [], answers = replicate n [], psys = s0\<rparr>
            (sched @ completion n))"

text \<open>
  \<open>scaleUp\<close>: the channel is made first, which panics when the count \<open>cnt\<close> is out of range;
  then the goroutines are started and joined, the channel is drained and the messages
  of the errors are joined.
\<close>

definition scaleUp ::
  "'w csScaler \<Rightarrow> nat list \<Rightarrow> vmProfile \<Rightarrow> int \<Rightarrow> 'w sys \<Rightarrow> (error option \<times> 'w sys) option"
where
  "scaleUp sc sched vmp cnt s =
     (if \<not> makechan_ok cnt then None
      else
        (let p = scaleUp_pool sc sched vmp (nat cnt) s;
             errorMsgs = List.map_filter (\<lambda>err. err) (errCh p)
         in Some (if length errorMsgs > 0
                  then Some (''error creating VMs: '' @ strings_Join errorMsgs '' - '')
                  else None,
                  psys p)))"

section \<open>projectCache (cloudstack_project.go)\<close>

record projectCache =
  projects :: "Project list"
  maxAge :: int
  lastUpdated :: int
  useProjects :: bool

definition newProjectCache :: "bool \<Rightarrow> int \<Rightarrow> error + projectCache" where
  "newProjectCache useP age =
     (if age \<le> 0 then Inl ''max projects age cannot be <= 0''
      else Inr \<lparr>projects = [], maxAge = age, lastUpdated = 0, useProjects = useP\<rparr>)"

text \<open>
  \<open>refresh\<close>. The condition is evaluated left to right: a disabled cache does not read
  the clock. The clock is read a second time after the listing has returned.
\<close>

definition refresh ::
  "'w cloudstackClient \<Rightarrow> projectCache \<Rightarrow> 'w sys \<Rightarrow> error option \<times> projectCache \<times> 'w sys"
where
  "refresh cl pc s =
     (if \<not> useProjects pc then (None, pc, s)
      else case time_Now s of
        (now, s0) \<Rightarrow>
          if time_Sub now (lastUpdated pc) \<le> maxAge pc then (None, pc, s0)
          else (case invoke ListProjectsCall (ListProjects cl) s0 of
                  (Inl err, s1) \<Rightarrow> (Some err, pc, s1)
                | (Inr ps, s1) \<Rightarrow>
                    (case time_Now s1 of
                       (now', s2) \<Rightarrow> (None, pc\<lparr>lastUpdated := now', projects := ps\<rparr>, s2))))"



section \<open>cloudstackManager (cloudstack_manager.go)\<close>

text \<open>
  A node group holds a pointer to its manager; the model passes the manager to the
  operations of the group instead.
\<close>

record csNodeGroup =
  vmProfile :: vmProfile
  vms :: "VirtualMachine list"

text \<open>The selector of a discovery spec is a Go map; the model keeps its entries as a list.\<close>

record labelAutoDiscoveryConfig =
  Selector :: "(string \<times> string) list"

record 'w cloudstackManager =
  m_client :: "'w cloudstackClient"
  nodeGroups :: "csNodeGroup list"
  m_projects :: projectCache
  labelConfig :: "labelAutoDiscoveryConfig list"
  scaler :: "'w csScaler"

definition Id_csNodeGroup :: "csNodeGroup \<Rightarrow> string" where
  "Id_csNodeGroup g = Id_vmProfile (vmProfile g)"

definition resourceDetailsToMetadata :: "ResourceDetail list \<Rightarrow> (string \<rightharpoonup> string)" where
  "resourceDetailsToMetadata details = foldl (\<lambda>md item. md(rd_Key item \<mapsto> rd_Value item)) Map.empty details"

definition matchesSelector :: "(string \<rightharpoonup> string) \<Rightarrow> (string \<times> string) list \<Rightarrow> bool" where
  "matchesSelector existing wanted =
     list_all (\<lambda>(wantedKey, wantedValue).
        case existing wantedKey of
          None \<Rightarrow> False
        | Some existingValue \<Rightarrow> \<not> (wantedValue \<noteq> [] \<and> existingValue \<noteq> wantedValue)) wanted"

definition matchesLabelConfigs :: "(string \<rightharpoonup> string) \<Rightarrow> labelAutoDiscoveryConfig list \<Rightarrow> bool" where
  "matchesLabelConfigs md ls = list_ex (\<lambda>labelSet. matchesSelector md (Selector labelSet)) ls"

definition validASP :: "'w cloudstackManager \<Rightarrow> (string \<rightharpoonup> string) \<Rightarrow> bool" where
  "validASP m md =
     (if list_ex (\<lambda>requiredKey. md requiredKey = None) requiredAutoScaleProfileMetadata then False
      else matchesLabelConfigs md (labelConfig m))"

text \<open>
  \<open>refreshNodeGroupVms\<close> writes through the pointer \<open>ng\<close> as it goes: when a later call
  fails the group keeps what the earlier calls stored.
\<close>

definition refreshNodeGroupVms ::
  "'w cloudstackManager \<Rightarrow> csNodeGroup \<Rightarrow> 'w sys \<Rightarrow> error option \<times> csNodeGroup \<times> 'w sys"
where
  "refreshNodeGroupVms m ng s =
     (let params = \<lparr>lv_asp = asp (vmProfile ng),
                    lv_tags = [nodeGroupVMTag \<mapsto> Id_csNodeGroup ng]\<rparr> in
      case invoke (ListVirtualMachinesCall params) (ListVirtualMachines (m_client m) params) s of
        (Inl err, s1) \<Rightarrow> (Some err, ng, s1)
      | (Inr vs, s1) \<Rightarrow>
          (let ng1 = ng\<lparr>vms := vs\<rparr>;
               oid = asp_Serviceofferingid (asp (vmProfile ng1)) in
           case invoke (GetServiceOfferingByIDCall oid) (GetServiceOfferingByID (m_client m) oid) s1 of
             (Inl err, s2) \<Rightarrow> (Some err, ng1, s2)
           | (Inr off, s2) \<Rightarrow>
               (let ng2 = ng1\<lparr>vmProfile := (vmProfile ng1)\<lparr>offering := off\<rparr>\<rparr>;
                    zid = asp_Zoneid (asp (vmProfile ng2)) in
                case invoke (GetZoneByIDCall zid) (GetZoneByID (m_client m) zid) s2 of
                  (Inl err, s3) \<Rightarrow> (Some err, ng2, s3)
                | (Inr z, s3) \<Rightarrow> (None, ng2\<lparr>vmProfile := (vmProfile ng2)\<lparr>zone := z\<rparr>\<rparr>, s3))))"

text \<open>\<open>(m *cloudstackManager) scaleUp\<close>.\<close>

definition manager_scaleUp ::
  "'w cloudstackManager \<Rightarrow> nat list \<Rightarrow> csNodeGroup \<Rightarrow> int \<Rightarrow> 'w sys
     \<Rightarrow> (error option \<times> csNodeGroup \<times> 'w sys) option"
where
  "manager_scaleUp m sched nodeGroup toAddCount s =
     (case scaleUp (scaler m) sched (vmProfile nodeGroup) toAddCount s of
        None \<Rightarrow> None
      | Some (Some err, s1) \<Rightarrow> Some (Some err, nodeGroup, s1)
      | Some (None, s1) \<Rightarrow> Some (refreshNodeGroupVms m nodeGroup s1))"

subsection \<open>Refresh\<close>

text \<open>
  The closure passed to \<open>forEach\<close> updates two variables of \<open>Refresh\<close>: the map
  \<open>registeredIds\<close> and the slice \<open>nodeGroups\<close>. They are the accumulator here.
\<close>

type_synonym discovery = "(string \<rightharpoonup> string) \<times> csNodeGroup list"

definition errConflict :: "string \<Rightarrow> string \<Rightarrow> string \<Rightarrow> error" where
  "errConflict name aspId existingASPID =
     ''more than one AutoScaleVMProfile with the nodeGroupName '' @ strconv_Quote name @
     '', ids: '' @ aspId @ '' and '' @ existingASPID"

text \<open>The group built for an accepted definition, before its instances are listed.\<close>

definition newGroup :: "AutoScaleVmProfile \<Rightarrow> (string \<rightharpoonup> string) \<Rightarrow> csNodeGroup" where
  "newGroup a md =
     \<lparr>vmProfile = \<lparr>asp = a, aspMetadata = Some md,
                   offering = \<lparr>so_Name = [], so_Cpunumber = 0, so_Memory = 0\<rparr>,
                   zone = \<lparr>zone_Name = []\<rparr>\<rparr>,
      vms = []\<rparr>"

fun Refresh_asps ::
  "'w cloudstackManager \<Rightarrow> AutoScaleVmProfile list \<Rightarrow> discovery \<Rightarrow> 'w sys
     \<Rightarrow> error option \<times> discovery \<times> 'w sys"
where
  "Refresh_asps m [] d s = (None, d, s)"
| "Refresh_asps m (a # rest) (registeredIds, ngs) s =
     (let metaParams = \<lparr>ld_resourcetype = resourceTypeAutoScaleVmProfile, ld_resourceid = asp_Id a\<rparr> in
      case invoke (ListResourceDetailsCall metaParams) (ListResourceDetails (m_client m) metaParams) s of
        (Inl err, s1) \<Rightarrow> (Some err, (registeredIds, ngs), s1)
      | (Inr details, s1) \<Rightarrow>
          (let md = resourceDetailsToMetadata details in
           if validASP m md then
             (let ng = newGroup a md in
              case registeredIds (Id_csNodeGroup ng) of
                Some existingASPID \<Rightarrow>
                  (Some (errConflict (Id_csNodeGroup ng) (asp_Id a) existingASPID), (registeredIds, ngs), s1)
              | None \<Rightarrow>
                  (let registeredIds' = registeredIds(Id_csNodeGroup ng \<mapsto> asp_Id a) in
                   case refreshNodeGroupVms m ng s1 of
                     (Some err, ng', s2) \<Rightarrow> (Some err, (registeredIds', ngs), s2)
                   | (None, ng', s2) \<Rightarrow> Refresh_asps m rest (registeredIds', ngs @ [ng']) s2))
           else Refresh_asps m rest (registeredIds, ngs) s1))"

definition Refresh_project ::
  "'w cloudstackManager \<Rightarrow> string \<Rightarrow> discovery \<Rightarrow> 'w sys \<Rightarrow> error option \<times> discovery \<times> 'w sys"
where
  "Refresh_project m projectID d s =
     (let params = (if projectID \<noteq> [] then Some projectID else None) in
      case invoke (ListAutoScaleVmProfilesCall params) (ListAutoScaleVmProfiles (m_client m) params) s of
        (Inl err, s1) \<Rightarrow> (Some err, d, s1)
      | (Inr asps, s1) \<Rightarrow> Refresh_asps m asps d s1)"


section \<open>csNodeGroup (cloudstack_scaler.go)\<close>

definition MaxSize :: "csNodeGroup \<Rightarrow> int" where
  "MaxSize g = maxSize (vmProfile g)"

definition MinSize :: "csNodeGroup \<Rightarrow> int" where
  "MinSize g = minSize (vmProfile g)"

text \<open>
  \<open>TargetSize\<close>: the error of the scale-up is logged and dropped; the second component
  of the result is the error \<open>TargetSize\<close> returns. The result is \<open>None\<close> when the
  scale-up panics.
\<close>

definition TargetSize ::
  "'w cloudstackManager \<Rightarrow> nat list \<Rightarrow> csNodeGroup \<Rightarrow> 'w sys
     \<Rightarrow> ((int \<times> error option) \<times> csNodeGroup \<times> 'w sys) option"
where
  "TargetSize m sched g s =
     (let targetSize = int (length (vms g));
          minSz = MinSize g
      in if targetSize < minSz then
           (case manager_scaleUp m sched g (minSz - targetSize) s of
              None \<Rightarrow> None
            | Some (err, g', s') \<Rightarrow> Some ((int (length (vms g')), None), g', s'))
         else Some ((targetSize, None), g, s))"

definition errDelta :: "int \<Rightarrow> error" where
  "errDelta delta = ''delta must be positive, have: '' @ fmt_int delta"

definition errTooLarge :: "int \<Rightarrow> int \<Rightarrow> int \<Rightarrow> error" where
  "errTooLarge currentSize targetSize maxSz =
     ''size increase is too large. current: '' @ fmt_int currentSize @
     '' desired: '' @ fmt_int targetSize @ '' max: '' @ fmt_int maxSz"

text \<open>
  \<open>IncreaseSize\<close>: \<open>sched\<close> schedules the scale-up \<open>TargetSize\<close> may start, \<open>sched'\<close>
  the scale-up by \<open>delta\<close>.
\<close>

definition IncreaseSize ::
  "'w cloudstackManager \<Rightarrow> nat list \<Rightarrow> nat list \<Rightarrow> csNodeGroup \<Rightarrow> int \<Rightarrow> 'w sys
     \<Rightarrow> (error option \<times> csNodeGroup \<times> 'w sys) option"
where
  "IncreaseSize m sched sched' g delta s =
     (if delta \<le> 0 then Some (Some (errDelta delta), g, s)
      else case TargetSize m sched g s of
        None \<Rightarrow> None
      | Some ((currentSize, Some err), g1, s1) \<Rightarrow> Some (Some err, g1, s1)
      | Some ((currentSize, None), g1, s1) \<Rightarrow>
          (let targetSize = int_add currentSize delta in
           if targetSize > MaxSize g1 then
             Some (Some (errTooLarge currentSize targetSize (MaxSize g1)), g1, s1)
           else manager_scaleUp m sched' g1 delta s1))"

record Node =
  node_Name :: string
  node_ProviderID :: string

definition errNodeNotFound :: "Node \<Rightarrow> string \<Rightarrow> error" where
  "errNodeNotFound node groupId =
     ''node ('' @ node_Name node @ '', '' @ node_ProviderID node @
     '') not found in nodeGroup '' @ groupId"

definition vmForNode :: "csNodeGroup \<Rightarrow> Node \<Rightarrow> error + VirtualMachine" where
  "vmForNode g node =
     (let vmID = strings_TrimPrefix (node_ProviderID node) (providerIDPrefix (vmProfile g)) in
      case find (\<lambda>vm. vm_Id vm = vmID) (vms g) of
        Some vm \<Rightarrow> Inr vm
      | None \<Rightarrow> Inl (errNodeNotFound node (Id_csNodeGroup g)))"

text \<open>
  \<open>removeVM\<close>: the loop over the indices; at the first instance with the id it moves
  the last instance into its place and cuts the slice by one.
\<close>

function removeVM_loop :: "nat \<Rightarrow> VirtualMachine list \<Rightarrow> string \<Rightarrow> VirtualMachine list" where
  "removeVM_loop i vs vmID =
     (if i < length vs then
        (if vm_Id (vs ! i) = vmID then butlast (vs[i := vs ! (length vs - 1)])
         else removeVM_loop (Suc i) vs vmID)
      else vs)"
  by pat_completeness auto
termination
  by (relation "measure (\<lambda>(i, vs, vmID). length vs - i)") auto

definition removeVM :: "csNodeGroup \<Rightarrow> string \<Rightarrow> csNodeGroup" where
  "removeVM g vmID = g\<lparr>vms := removeVM_loop 0 (vms g) vmID\<rparr>"

fun DeleteNodes ::
  "'w cloudstackManager \<Rightarrow> csNodeGroup \<Rightarrow> Node list \<Rightarrow> 'w sys \<Rightarrow> error option \<times> csNodeGroup \<times> 'w sys"
where
  "DeleteNodes m g [] s = (None, g, s)"
| "DeleteNodes m g (n # ns) s =
     (case vmForNode g n of
        Inl err \<Rightarrow> (Some err, g, s)
      | Inr vm \<Rightarrow>
          (case destroyVM (scaler m) (vm_Id vm) s of
             (Some err, s1) \<Rightarrow> (Some err, g, s1)
           | (None, s1) \<Rightarrow> DeleteNodes m (removeVM g (vm_Id vm)) ns s1))"

definition providerID :: "csNodeGroup \<Rightarrow> string \<Rightarrow> string" where
  "providerID g vmID = providerIDPrefix (vmProfile g) @ vmID"

text \<open>
  \<open>toInstanceStatus\<close>, with the types of the \<open>cloudprovider\<close> package it fills: the
  state of an instance (\<open>InstanceStateUnset\<close> is the zero value, which the function
  leaves where it sets an error) and the error information.
\<close>

datatype InstanceState = InstanceStateUnset | InstanceRunning | InstanceCreating | InstanceDeleting

datatype InstanceErrorClass = OutOfResourcesErrorClass | OtherErrorClass

record InstanceErrorInfo =
  ErrorClass :: InstanceErrorClass
  ErrorCode :: string
  ErrorMessage :: string

record InstanceStatus =
  State :: InstanceState
  ErrorInfo :: "InstanceErrorInfo option"

definition toInstanceStatus :: "string \<Rightarrow> InstanceStatus" where
  "toInstanceStatus csState =
     (if csState \<in> set [''Starting'', ''Migrating''] then
        \<lparr>State = InstanceCreating, ErrorInfo = None\<rparr>
      else if csState = ''Running'' then
        \<lparr>State = InstanceRunning, ErrorInfo = None\<rparr>
      else if csState \<in> set [''Stopping'', ''Stopped'', ''Destroyed'', ''Expunging'', ''Shutdowned''] then
        \<lparr>State = InstanceDeleting, ErrorInfo = None\<rparr>
      else
        \<lparr>State = InstanceStateUnset,
         ErrorInfo = Some \<lparr>ErrorClass = OtherErrorClass, ErrorCode = [],
                           ErrorMessage = ''unexpected vm state: '' @ csState\<rparr>\<rparr>)"

record Instance =
  inst_Id :: string
  inst_Status :: InstanceStatus

definition Nodes :: "csNodeGroup \<Rightarrow> Instance list" where
  "Nodes g = map (\<lambda>vm. \<lparr>inst_Id = providerID g (vm_Id vm), inst_Status = toInstanceStatus (vm_State vm)\<rparr>) (vms g)"

section \<open>Predicates of the properties, and test doubles\<close>

text \<open>
  The test doubles answer as the mock of the tests is told to: \<open>fakeClient\<close> succeeds on
  every call with a fixed answer, the scenarios override single methods. Their world is
  \<open>unit\<close>.
\<close>

definition fakeClient :: "unit cloudstackClient" where
  "fakeClient =
     \<lparr>DestroyVirtualMachine = (\<lambda>p w. (None, w)),
      DeployVirtualMachine = (\<lambda>p w. (Deployed ''vm1-id1'', w)),
      CreateTags = (\<lambda>p w. (None, w)),
      ListProjects = (\<lambda>w. (Inr [\<lparr>pj_Id = ''pj1''\<rparr>], w)),
      ListAutoScaleVmProfiles = (\<lambda>p w. (Inr [], w)),
      ListResourceDetails = (\<lambda>p w. (Inr [], w)),
      ListVirtualMachines = (\<lambda>p w. (Inr [], w)),
      GetServiceOfferingByID = (\<lambda>p w. (Inr \<lparr>so_Name = ''offering1name'', so_Cpunumber = 0, so_Memory = 0\<rparr>, w)),
      GetZoneByID = (\<lambda>p w. (Inr \<lparr>zone_Name = ''zone1name''\<rparr>, w))\<rparr>"

definition sys0 :: "unit sys" where
  "sys0 = \<lparr>world = (), calls = [], clock = (\<lambda>n. 0), rands = (\<lambda>n. 0)\<rparr>"

definition vm1Deploy :: DeployVirtualMachineParams where
  "vm1Deploy = \<lparr>dp_name = ''vm1'',
      dp_profile = \<lparr>asp = \<lparr>asp_Id = [], asp_Serviceofferingid = [], asp_Zoneid = [], asp_Templateid = [],
                            asp_Projectid = [], asp_Otherdeployparams = []\<rparr>,
                    aspMetadata = None,
                    offering = \<lparr>so_Name = [], so_Cpunumber = 0, so_Memory = 0\<rparr>,
                    zone = \<lparr>zone_Name = []\<rparr>\<rparr>\<rparr>"

definition abTags :: CreateTagsParams where
  "abTags = \<lparr>ct_tags = [''a'' \<mapsto> ''b''], ct_resourceids = [], ct_resourcetype = []\<rparr>"


definition fakeScaler :: "unit csScaler" where
  "fakeScaler = \<lparr>client = fakeClient, expunge = False\<rparr>"

definition fakeManager :: "unit cloudstackManager" where
  "fakeManager =
     \<lparr>m_client = fakeClient, nodeGroups = [],
      m_projects = \<lparr>projects = [], maxAge = 3600000000000, lastUpdated = 0, useProjects = False\<rparr>,
      labelConfig = [\<lparr>Selector = [(''a'', ''b'')]\<rparr>],
      scaler = fakeScaler\<rparr>"

definition asp1 :: AutoScaleVmProfile where
  "asp1 = \<lparr>asp_Id = ''asp1'', asp_Serviceofferingid = ''offering1'', asp_Zoneid = ''zone1'',
           asp_Templateid = [], asp_Projectid = [], asp_Otherdeployparams = []\<rparr>"

definition profileOf :: "AutoScaleVmProfile \<Rightarrow> (string \<rightharpoonup> string) \<Rightarrow> vmProfile" where
  "profileOf a md =
     \<lparr>asp = a, aspMetadata = Some md,
      offering = \<lparr>so_Name = [], so_Cpunumber = 0, so_Memory = 0\<rparr>,
      zone = \<lparr>zone_Name = []\<rparr>\<rparr>"

definition vmOf :: "string \<Rightarrow> VirtualMachine" where
  "vmOf vmId = \<lparr>vm_Id = vmId, vm_State = []\<rparr>"

definition groupPrefixed :: csNodeGroup where
  "groupPrefixed =
     \<lparr>vmProfile = profileOf asp1 [''maxNodes'' \<mapsto> ''10'', ''targetNodes'' \<mapsto> ''2'',
                                  ''providerIDPrefix'' \<mapsto> ''x://''],
      vms = [vmOf ''xyz'', vmOf ''abc'']\<rparr>"

definition groupNg1 :: csNodeGroup where
  "groupNg1 =
     \<lparr>vmProfile = profileOf asp1 [''nodeGroupName'' \<mapsto> ''ng1'', ''maxNodes'' \<mapsto> ''10'',
                                  ''targetNodes'' \<mapsto> ''2''],
      vms = [vmOf ''xyz'', vmOf ''abc'']\<rparr>"

definition failingDeploy :: "unit cloudstackClient" where
  "failingDeploy = fakeClient\<lparr>DeployVirtualMachine := (\<lambda>p w. (DeployFailed None ''deploy err'', w))\<rparr>"

definition pcTest :: projectCache where
  "pcTest = \<lparr>projects = [], maxAge = 300000000, lastUpdated = 0, useProjects = True\<rparr>"

definition sysAt :: "int \<Rightarrow> unit sys" where
  "sysAt t = \<lparr>world = (), calls = [], clock = (\<lambda>n. t), rands = (\<lambda>n. 0)\<rparr>"








text \<open>
  Predicates on calls and on the positions of a goroutine: \<open>outcome\<close> is the result a
  goroutine has sent or is about to send.
\<close>

fun is_DeployCall :: "apicall \<Rightarrow> bool" where
  "is_DeployCall (DeployCall d) = True"
| "is_DeployCall c = False"

fun is_DestroyCall :: "apicall \<Rightarrow> bool" where
  "is_DestroyCall (DestroyCall d) = True"
| "is_DestroyCall c = False"

fun started :: "task \<Rightarrow> bool" where
  "started (T_Deploy d tg) = False"
| "started t = True"

fun exited :: "task \<Rightarrow> bool" where
  "exited (T_Exit r) = True"
| "exited t = False"

fun outcome :: "task \<Rightarrow> error option" where
  "outcome (T_Send r) = r"
| "outcome (T_Exit r) = r"
| "outcome t = None"

fun failed :: "task \<Rightarrow> bool" where
  "failed (T_Send (Some e)) = True"
| "failed (T_Exit (Some e)) = True"
| "failed t = False"

fun rank :: "task \<Rightarrow> nat" where
  "rank (T_Deploy d tg) = 4"
| "rank (T_Tag v tg) = 3"
| "rank (T_DestroyAfterCreate v e) = 2"
| "rank (T_DestroyAfterTag v e) = 2"
| "rank (T_Send r) = 1"
| "rank (T_Exit r) = 0"

definition unit_inv :: "task \<Rightarrow> apicall list \<Rightarrow> bool" where
  "unit_inv t h =
     (length (filter is_DeployCall h) = (if started t then 1 else 0)
      \<and> (list_ex is_DestroyCall h \<longrightarrow> failed t))"

definition pool_inv :: "nat \<Rightarrow> apicall list \<Rightarrow> 'w pool \<Rightarrow> bool" where
  "pool_inv n base p =
     (length (tasks p) = n \<and> length (hist p) = n
      \<and> (\<forall>i<n. unit_inv (tasks p ! i) (hist p ! i))
      \<and> mset (calls (psys p)) = mset base + mset (concat (hist p))
      \<and> size (filter_mset is_DeployCall (mset (calls (psys p))))
          = size (filter_mset is_DeployCall (mset base)) + size (filter_mset started (mset (tasks p)))
      \<and> mset (errCh p) = image_mset outcome (filter_mset exited (mset (tasks p))))"

text \<open>
  A client that answers from a list: each deploy, tag or destroy call takes the next
  answer, which must be of its kind; a call that finds no such answer leaves the world
  \<open>None\<close>. It serves to say what \<open>createVM\<close> does with given answers: a run that ends
  in the world \<open>Some []\<close> has made one call for each answer, in their order.
\<close>

definition replayClient :: "answer list option cloudstackClient" where
  "replayClient =
     \<lparr>DestroyVirtualMachine =
        (\<lambda>p w. case w of Some (ErrAnswer e # rest) \<Rightarrow> (e, Some rest) | _ \<Rightarrow> (None, None)),
      DeployVirtualMachine =
        (\<lambda>p w. case w of Some (DeployAnswer r # rest) \<Rightarrow> (r, Some rest)
                | _ \<Rightarrow> (DeployFailed None [], None)),
      CreateTags =
        (\<lambda>p w. case w of Some (ErrAnswer e # rest) \<Rightarrow> (e, Some rest) | _ \<Rightarrow> (None, None)),
      ListProjects = (\<lambda>w. (Inr [], w)),
      ListAutoScaleVmProfiles = (\<lambda>p w. (Inr [], w)),
      ListResourceDetails = (\<lambda>p w. (Inr [], w)),
      ListVirtualMachines = (\<lambda>p w. (Inr [], w)),
      GetServiceOfferingByID = (\<lambda>p w. (Inr \<lparr>so_Name = [], so_Cpunumber = 0, so_Memory = 0\<rparr>, w)),
      GetZoneByID = (\<lambda>p w. (Inr \<lparr>zone_Name = []\<rparr>, w))\<rparr>"

definition replayScaler :: "bool \<Rightarrow> answer list option csScaler" where
  "replayScaler x = \<lparr>client = replayClient, expunge = x\<rparr>"

definition replaySys :: "answer list \<Rightarrow> answer list option sys" where
  "replaySys ans = \<lparr>world = Some ans, calls = [], clock = (\<lambda>n. 0), rands = (\<lambda>n. 0)\<rparr>"

text \<open>
  What holds of a goroutine of \<open>scaleUp\<close> at each of its positions: the calls it has
  made and the answers it got; once it has its result, the calls are those of
  \<open>createVM\<close> given these answers, and the result is the one \<open>createVM\<close> returns.
\<close>

fun unit_ok ::
  "bool \<Rightarrow> DeployVirtualMachineParams \<Rightarrow> CreateTagsParams \<Rightarrow> task \<Rightarrow> apicall list \<Rightarrow> answer list \<Rightarrow> bool"
where
  "unit_ok x d tg (T_Deploy d' tg') h a = (d' = d \<and> tg' = tg \<and> h = [] \<and> a = [])"
| "unit_ok x d tg (T_Tag v tg') h a =
     (tg' = tg \<and> h = [DeployCall d] \<and> a = [DeployAnswer (Deployed v)])"
| "unit_ok x d tg (T_DestroyAfterCreate v e) h a =
     (v \<noteq> [] \<and> h = [DeployCall d] \<and> a = [DeployAnswer (DeployFailed (Some v) e)])"
| "unit_ok x d tg (T_DestroyAfterTag v e) h a =
     (h = [DeployCall d,
           CreateTagsCall (tg\<lparr>ct_resourceids := [v], ct_resourcetype := resourceTypeVirtualMachine\<rparr>)]
      \<and> a = [DeployAnswer (Deployed v), ErrAnswer (Some e)])"
| "unit_ok x d tg (T_Send r) h a =
     (createVM (replayScaler x) d tg (replaySys a) = (r, (replaySys [])\<lparr>calls := h\<rparr>))"
| "unit_ok x d tg (T_Exit r) h a =
     (createVM (replayScaler x) d tg (replaySys a) = (r, (replaySys [])\<lparr>calls := h\<rparr>))"

definition replay_inv :: "bool \<Rightarrow> task list \<Rightarrow> 'w pool \<Rightarrow> bool" where
  "replay_inv x ts0 p =
     (length (tasks p) = length ts0 \<and> length (hist p) = length ts0 \<and> length (answers p) = length ts0
      \<and> (\<forall>j<length ts0. \<exists>d tg. ts0 ! j = T_Deploy d tg
             \<and> unit_ok x d tg (tasks p ! j) (hist p ! j) (answers p ! j)))"

definition isDecimal :: "string \<Rightarrow> bool" where
  "isDecimal v =
     (case v of
        [] \<Rightarrow> False
      | c # cs \<Rightarrow>
          (let body = (if c = CHR ''+'' \<or> c = CHR ''-'' then cs else c # cs)
           in body \<noteq> [] \<and> list_all isDigit body))"

definition ng1Profile :: vmProfile where
  "ng1Profile = profileOf asp1 [''minNodes'' \<mapsto> ''2'', ''nodeGroupName'' \<mapsto> ''ng1'']"

definition ng1Deploy :: "string \<Rightarrow> DeployVirtualMachineParams" where
  "ng1Deploy name = \<lparr>dp_name = name, dp_profile = ng1Profile\<rparr>"

definition ng1Tags :: CreateTagsParams where
  "ng1Tags = createVMTagsParams ng1Profile"

definition twoErrClient :: "nat cloudstackClient" where
  "twoErrClient =
     \<lparr>DestroyVirtualMachine = (\<lambda>p w. (None, w)),
      DeployVirtualMachine =
        (\<lambda>p w. (DeployFailed None (if w = 0 then ''first err'' else ''second err''), Suc w)),
      CreateTags = (\<lambda>p w. (None, w)),
      ListProjects = (\<lambda>w. (Inr [], w)),
      ListAutoScaleVmProfiles = (\<lambda>p w. (Inr [], w)),
      ListResourceDetails = (\<lambda>p w. (Inr [], w)),
      ListVirtualMachines = (\<lambda>p w. (Inr [], w)),
      GetServiceOfferingByID = (\<lambda>p w. (Inr \<lparr>so_Name = ''offering1name'', so_Cpunumber = 0, so_Memory = 0\<rparr>, w)),
      GetZoneByID = (\<lambda>p w. (Inr \<lparr>zone_Name = ''zone1name''\<rparr>, w))\<rparr>"

definition flakyClient :: "nat cloudstackClient" where
  "flakyClient =
     twoErrClient\<lparr>DeployVirtualMachine :=
        (\<lambda>p w. (if w = 0 then Deployed ''vm1-id1'' else DeployFailed None ''deploy err'', Suc w))\<rparr>"

definition sysN :: "nat sys" where
  "sysN = \<lparr>world = 0, calls = [], clock = (\<lambda>n. 0), rands = (\<lambda>n. 0)\<rparr>"

definition emptyNg1 :: csNodeGroup where
  "emptyNg1 = \<lparr>vmProfile = ng1Profile, vms = []\<rparr>"

definition simClient :: "VirtualMachine list cloudstackClient" where
  "simClient =
     \<lparr>DestroyVirtualMachine = (\<lambda>p w. (None, filter (\<lambda>vm. vm_Id vm \<noteq> dv_id p) w)),
      DeployVirtualMachine =
        (\<lambda>p w. (Deployed (dp_name p), w @ [\<lparr>vm_Id = dp_name p, vm_State = ''Running''\<rparr>])),
      CreateTags = (\<lambda>p w. (None, w)),
      ListProjects = (\<lambda>w. (Inr [], w)),
      ListAutoScaleVmProfiles = (\<lambda>p w. (Inr [], w)),
      ListResourceDetails = (\<lambda>p w. (Inr [], w)),
      ListVirtualMachines = (\<lambda>p w. (Inr w, w)),
      GetServiceOfferingByID = (\<lambda>p w. (Inr \<lparr>so_Name = ''offering1name'', so_Cpunumber = 0, so_Memory = 0\<rparr>, w)),
      GetZoneByID = (\<lambda>p w. (Inr \<lparr>zone_Name = ''zone1name''\<rparr>, w))\<rparr>"

definition simManager :: "VirtualMachine list cloudstackManager" where
  "simManager =
     \<lparr>m_client = simClient, nodeGroups = [],
      m_projects = \<lparr>projects = [], maxAge = 3600000000000, lastUpdated = 0, useProjects = False\<rparr>,
      labelConfig = [\<lparr>Selector = [(''a'', ''b'')]\<rparr>],
      scaler = \<lparr>client = simClient, expunge = False\<rparr>\<rparr>"

definition simSys :: "VirtualMachine list sys" where
  "simSys = \<lparr>world = [], calls = [], clock = (\<lambda>n. 0), rands = (\<lambda>n. if n = 0 then 7 else 9)\<rparr>"

definition failManager :: "unit cloudstackManager" where
  "failManager = fakeManager\<lparr>m_client := failingDeploy, scaler := \<lparr>client = failingDeploy, expunge = False\<rparr>\<rparr>"

definition halfClient :: "VirtualMachine list cloudstackClient" where
  "halfClient =
     simClient\<lparr>DeployVirtualMachine :=
        (\<lambda>p w. if dp_name p = ''ng1-9'' then (DeployFailed None ''deploy err'', w)
                else (Deployed (dp_name p), w @ [\<lparr>vm_Id = dp_name p, vm_State = ''Running''\<rparr>]))\<rparr>"

definition halfManager :: "VirtualMachine list cloudstackManager" where
  "halfManager = simManager\<lparr>m_client := halfClient, scaler := \<lparr>client = halfClient, expunge = False\<rparr>\<rparr>"

definition hugeMinMetadata :: "string \<rightharpoonup> string" where
  "hugeMinMetadata =
     [''a'' \<mapsto> ''b'', ''nodeGroupName'' \<mapsto> ''ng1'', ''minNodes'' \<mapsto> ''99999999999999999999'',
      ''maxNodes'' \<mapsto> ''10'']"

definition hugeMin :: csNodeGroup where
  "hugeMin = \<lparr>vmProfile = profileOf asp1 hugeMinMetadata, vms = []\<rparr>"

definition groupBadMax :: csNodeGroup where
  "groupBadMax =
     \<lparr>vmProfile = profileOf asp1 [''nodeGroupName'' \<mapsto> ''ng1'', ''maxNodes'' \<mapsto> ''abc'',
                                  ''minNodes'' \<mapsto> ''1x''],
      vms = []\<rparr>"

definition groupBigMax :: csNodeGroup where
  "groupBigMax =
     \<lparr>vmProfile = profileOf asp1 [''nodeGroupName'' \<mapsto> ''ng1'',
                                  ''maxNodes'' \<mapsto> ''99999999999999999999x''],
      vms = []\<rparr>"

definition groupNegMax :: csNodeGroup where
  "groupNegMax =
     \<lparr>vmProfile = profileOf asp1 [''nodeGroupName'' \<mapsto> ''ng1'',
                                  ''maxNodes'' \<mapsto> ''-9223372036854775809''],
      vms = []\<rparr>"

section \<open>Properties\<close>

text \<open>
  Claim C2. When the deploy call of \<open>createVM\<close> succeeds and the tag call that follows fails,
  \<open>createVM\<close> makes exactly three calls: the deploy, the tag call for the new id, and a
  destroy of the new id. When the destroy succeeds (the API returns no error, or the error
  that \<open>destroyVM\<close> reads as "not found") the error returned is the tagging error itself;
  when the destroy fails with \<open>destroyErr\<close> the error returned is
  "unable to destroy cloudstack VM after tagging error: destroyErr - original error: tagErr".
\<close>

theorem createVM_tag_failure:
  assumes deploy: "DeployVirtualMachine (client sc) deploy (world s) = (Deployed vmId, w1)"
    and tag: "CreateTags (client sc)
                (tagsParams\<lparr>ct_resourceids := [vmId], ct_resourcetype := resourceTypeVirtualMachine\<rparr>) w1
              = (Some tagErr, w2)"
    and destroy: "DestroyVirtualMachine (client sc) \<lparr>dv_id = vmId, dv_expunge = expunge sc\<rparr> w2
              = (destroyRes, w3)"
  shows "snd (createVM sc deploy tagsParams s) =
           s\<lparr>world := w3,
             calls := calls s @
               [DeployCall deploy,
                CreateTagsCall (tagsParams\<lparr>ct_resourceids := [vmId],
                                           ct_resourcetype := resourceTypeVirtualMachine\<rparr>),
                DestroyCall \<lparr>dv_id = vmId, dv_expunge = expunge sc\<rparr>]\<rparr>
       \<and> (destroyRes = None \<or> isCSErrorNotFound destroyRes vmId
            \<longrightarrow> fst (createVM sc deploy tagsParams s) = Some tagErr)
       \<and> (\<forall>destroyErr. destroyRes = Some destroyErr \<and> \<not> isCSErrorNotFound destroyRes vmId
            \<longrightarrow> fst (createVM sc deploy tagsParams s) =
                  Some (''unable to destroy cloudstack VM after tagging error: '' @ destroyErr @
                        '' - original error: '' @ tagErr))"
  using assms
  by (auto simp: createVM_def invoke_def destroyVM_def errAfterTagging_def Let_def
           split: option.splits prod.splits)

theorem createVM_tag_failure_witness:
  "fst (createVM \<lparr>client = fakeClient\<lparr>CreateTags := (\<lambda>p w. (Some ''tag err'', w)),
                                        DestroyVirtualMachine := (\<lambda>p w. (Some ''destroy err'', w))\<rparr>,
                  expunge = False\<rparr> vm1Deploy abTags sys0)
     = Some ''unable to destroy cloudstack VM after tagging error: destroy err - original error: tag err''
   \<and> fst (createVM \<lparr>client = fakeClient\<lparr>CreateTags := (\<lambda>p w. (Some ''my err'', w))\<rparr>,
                  expunge = False\<rparr> vm1Deploy abTags sys0)
     = Some ''my err''
   \<and> calls (snd (createVM \<lparr>client = fakeClient\<lparr>CreateTags := (\<lambda>p w. (Some ''my err'', w))\<rparr>,
                  expunge = False\<rparr> vm1Deploy abTags sys0))
     = [DeployCall vm1Deploy,
        CreateTagsCall (abTags\<lparr>ct_resourceids := [''vm1-id1''], ct_resourcetype := ''UserVm''\<rparr>),
        DestroyCall \<lparr>dv_id = ''vm1-id1'', dv_expunge = False\<rparr>]"
proof -
  let ?sc1 = "\<lparr>client = fakeClient\<lparr>CreateTags := (\<lambda>p w. (Some ''tag err'', w)),
                                        DestroyVirtualMachine := (\<lambda>p w. (Some ''destroy err'', w))\<rparr>,
                  expunge = False\<rparr>"
  let ?sc2 = "\<lparr>client = fakeClient\<lparr>CreateTags := (\<lambda>p w. (Some ''my err'', w))\<rparr>,
                  expunge = False\<rparr>"
  have nf: "\<not> isCSErrorNotFound (Some ''destroy err'') ''vm1-id1''"
    by (simp add: isCSErrorNotFound_def strings_Contains_def notFoundPattern_def sublist_code)
  have a: "fst (createVM ?sc1 vm1Deploy abTags sys0)
     = Some (''unable to destroy cloudstack VM after tagging error: '' @ ''destroy err'' @
                        '' - original error: '' @ ''tag err'')"
    using createVM_tag_failure [of ?sc1 vm1Deploy sys0 "''vm1-id1''" "()" abTags "''tag err''" "()"
               "Some ''destroy err''" "()"] nf
    by (simp add: fakeClient_def sys0_def)
  have b: "snd (createVM ?sc2 vm1Deploy abTags sys0) = sys0\<lparr>world := (),
             calls := calls sys0 @
               [DeployCall vm1Deploy,
                CreateTagsCall (abTags\<lparr>ct_resourceids := [''vm1-id1''],
                                           ct_resourcetype := resourceTypeVirtualMachine\<rparr>),
                DestroyCall \<lparr>dv_id = ''vm1-id1'', dv_expunge = expunge ?sc2\<rparr>]\<rparr>
      \<and> fst (createVM ?sc2 vm1Deploy abTags sys0) = Some ''my err''"
    using createVM_tag_failure [of ?sc2 vm1Deploy sys0 "''vm1-id1''" "()" abTags "''my err''" "()"
               "None" "()"]
    by (simp add: fakeClient_def sys0_def)
  from a b show ?thesis
    by (simp add: sys0_def resourceTypeVirtualMachine_def)
qed

text \<open>
  Claim C3. When the deploy call of \<open>createVM\<close> returns an error: with no response, or a
  response whose id is empty, no other call is made and the error is returned unchanged;
  with a non-empty id exactly one destroy of that id follows (and no tag call), and the
  error returned is the create error unchanged when the destroy succeeds, and
  "unable to destroy cloudstack VM after error creating: destroyErr - original error: err"
  when the destroy fails with \<open>destroyErr\<close>.
\<close>

theorem createVM_deploy_failure:
  assumes deploy: "DeployVirtualMachine (client sc) deploy (world s) = (DeployFailed vm err, w1)"
  shows "(vm = None \<or> vm = Some [] \<longrightarrow>
            createVM sc deploy tagsParams s =
              (Some err, s\<lparr>world := w1, calls := calls s @ [DeployCall deploy]\<rparr>))
       \<and> (\<forall>vmId destroyRes w2.
            vm = Some vmId \<and> vmId \<noteq> [] \<and>
            DestroyVirtualMachine (client sc) \<lparr>dv_id = vmId, dv_expunge = expunge sc\<rparr> w1
              = (destroyRes, w2) \<longrightarrow>
              snd (createVM sc deploy tagsParams s) =
                s\<lparr>world := w2,
                  calls := calls s @
                    [DeployCall deploy, DestroyCall \<lparr>dv_id = vmId, dv_expunge = expunge sc\<rparr>]\<rparr>
            \<and> (destroyRes = None \<or> isCSErrorNotFound destroyRes vmId
                 \<longrightarrow> fst (createVM sc deploy tagsParams s) = Some err)
            \<and> (\<forall>destroyErr. destroyRes = Some destroyErr \<and> \<not> isCSErrorNotFound destroyRes vmId
                 \<longrightarrow> fst (createVM sc deploy tagsParams s) =
                       Some (''unable to destroy cloudstack VM after error creating: '' @ destroyErr @
                             '' - original error: '' @ err)))"
  using assms
  by (auto simp: createVM_def invoke_def destroyVM_def errAfterCreating_def Let_def
           split: option.splits prod.splits)

text \<open>
  Claim C8. \<open>toInstanceStatus\<close> follows the table: "Starting" and "Migrating" are
  creating; "Running" is running; "Stopping", "Stopped", "Destroyed", "Expunging" and
  "Shutdowned" are deleting; every other label gives an error status whose message is
  "unexpected vm state: " followed by the label.
\<close>

theorem toInstanceStatus_table:
  "toInstanceStatus ''Starting'' = \<lparr>State = InstanceCreating, ErrorInfo = None\<rparr>
 \<and> toInstanceStatus ''Migrating'' = \<lparr>State = InstanceCreating, ErrorInfo = None\<rparr>
 \<and> toInstanceStatus ''Running'' = \<lparr>State = InstanceRunning, ErrorInfo = None\<rparr>
 \<and> toInstanceStatus ''Stopping'' = \<lparr>State = InstanceDeleting, ErrorInfo = None\<rparr>
 \<and> toInstanceStatus ''Stopped'' = \<lparr>State = InstanceDeleting, ErrorInfo = None\<rparr>
 \<and> toInstanceStatus ''Destroyed'' = \<lparr>State = InstanceDeleting, ErrorInfo = None\<rparr>
 \<and> toInstanceStatus ''Expunging'' = \<lparr>State = InstanceDeleting, ErrorInfo = None\<rparr>
 \<and> toInstanceStatus ''Shutdowned'' = \<lparr>State = InstanceDeleting, ErrorInfo = None\<rparr>
 \<and> (csState \<notin> {''Starting'', ''Migrating'', ''Running'', ''Stopping'', ''Stopped'', ''Destroyed'',
                  ''Expunging'', ''Shutdowned''} \<longrightarrow>
      toInstanceStatus csState =
        \<lparr>State = InstanceStateUnset,
         ErrorInfo = Some \<lparr>ErrorClass = OtherErrorClass, ErrorCode = [],
                           ErrorMessage = ''unexpected vm state: '' @ csState\<rparr>\<rparr>)"
  by (simp add: toInstanceStatus_def)

theorem toInstanceStatus_table_witness:
  "toInstanceStatus ''Unknown'' =
        \<lparr>State = InstanceStateUnset,
         ErrorInfo = Some \<lparr>ErrorClass = OtherErrorClass, ErrorCode = [],
                           ErrorMessage = ''unexpected vm state: Unknown''\<rparr>\<rparr>
   \<and> toInstanceStatus ''running'' =
        \<lparr>State = InstanceStateUnset,
         ErrorInfo = Some \<lparr>ErrorClass = OtherErrorClass, ErrorCode = [],
                           ErrorMessage = ''unexpected vm state: running''\<rparr>\<rparr>"
  using toInstanceStatus_table [of "''Unknown''"] toInstanceStatus_table [of "''running''"]
  by simp

lemma swap_remove_mset:
  assumes "i < length vs"
  shows "mset (butlast (vs[i := vs ! (length vs - 1)])) = mset vs - {#vs ! i#}"
proof (cases vs rule: rev_cases)
  case Nil
  with assms show ?thesis by simp
next
  case (snoc ys l)
  show ?thesis
  proof (cases "i = length ys")
    case True
    with snoc show ?thesis by simp
  next
    case False
    with assms snoc have lt: "i < length ys" by simp
    then have "ys ! i \<in># mset ys" by simp
    with lt snoc show ?thesis
      by (simp add: list_update_append nth_append mset_update)
  qed
qed

lemma removeVM_loop_mset:
  "i \<le> length vs \<Longrightarrow> find (\<lambda>vm. vm_Id vm = vmID) (drop i vs) = Some vm
     \<Longrightarrow> mset (removeVM_loop i vs vmID) = mset vs - {#vm#}"
proof (induction i vs vmID rule: removeVM_loop.induct)
  case (1 i vs vmID)
  show ?case
  proof (cases "i < length vs")
    case False
    with "1.prems" show ?thesis by simp
  next
    case True
    then have d: "drop i vs = vs ! i # drop (Suc i) vs"
      by (simp add: Cons_nth_drop_Suc)
    show ?thesis
    proof (cases "vm_Id (vs ! i) = vmID")
      case hit: True
      with "1.prems" d have "vm = vs ! i" by simp
      with True hit swap_remove_mset [OF True] show ?thesis
        by (subst removeVM_loop.simps) simp
    next
      case miss: False
      with "1.prems" d have f: "find (\<lambda>vm. vm_Id vm = vmID) (drop (Suc i) vs) = Some vm" by simp
      from True have "Suc i \<le> length vs" by simp
      from "1.IH" [OF True miss this f] True miss show ?thesis
        by (subst removeVM_loop.simps) simp
    qed
  qed
qed

lemma removeVM_found:
  assumes "find (\<lambda>vm. vm_Id vm = vmID) (vms g) = Some vm"
  shows "mset (vms (removeVM g vmID)) = mset (vms g) - {#vm#}"
    and "vmProfile (removeVM g vmID) = vmProfile g"
  using removeVM_loop_mset [of 0 "vms g" vmID vm] assms
  by (simp_all add: removeVM_def)

lemma find_Some_Id: "find (\<lambda>vm. vm_Id vm = vmID) vs = Some vm \<Longrightarrow> vm_Id vm = vmID \<and> vm \<in> set vs"
  by (auto simp: find_Some_iff)

text \<open>
  Claim C7. \<open>DeleteNodes\<close> looks each node up by its provider id without the group's
  prefix. When no bound instance has that id the call stops with the error
  "node (name, providerID) not found in nodeGroup group", the group and the process state
  as they were (no destroy is called). When an instance has it, that instance is destroyed
  through the scaler; on success it is taken out of the bound list, the other instances
  all staying (as a multiset: the order may change), and the loop goes on with the next
  node; when the destroy fails its error is returned and the instance stays bound.
\<close>

theorem DeleteNodes_step:
  "(find (\<lambda>vm. vm_Id vm = strings_TrimPrefix (node_ProviderID n) (providerIDPrefix (vmProfile g))) (vms g) = None
      \<longrightarrow> DeleteNodes m g (n # ns) s =
            (Some (''node ('' @ node_Name n @ '', '' @ node_ProviderID n @
                   '') not found in nodeGroup '' @ Id_csNodeGroup g), g, s))
 \<and> (\<forall>vm res w1.
       find (\<lambda>vm. vm_Id vm = strings_TrimPrefix (node_ProviderID n) (providerIDPrefix (vmProfile g))) (vms g) = Some vm
       \<and> DestroyVirtualMachine (client (scaler m)) \<lparr>dv_id = vm_Id vm, dv_expunge = expunge (scaler m)\<rparr> (world s)
           = (res, w1)
       \<longrightarrow> vm_Id vm = strings_TrimPrefix (node_ProviderID n) (providerIDPrefix (vmProfile g))
         \<and> (let s1 = s\<lparr>world := w1,
                        calls := calls s @ [DestroyCall \<lparr>dv_id = vm_Id vm, dv_expunge = expunge (scaler m)\<rparr>]\<rparr>
            in if res = None \<or> isCSErrorNotFound res (vm_Id vm)
               then DeleteNodes m g (n # ns) s = DeleteNodes m (removeVM g (vm_Id vm)) ns s1
                  \<and> mset (vms (removeVM g (vm_Id vm))) = mset (vms g) - {#vm#}
               else DeleteNodes m g (n # ns) s = (res, g, s1)))"
proof (intro conjI allI impI)
  assume "find (\<lambda>vm. vm_Id vm = strings_TrimPrefix (node_ProviderID n) (providerIDPrefix (vmProfile g))) (vms g) = None"
  then show "DeleteNodes m g (n # ns) s =
            (Some (''node ('' @ node_Name n @ '', '' @ node_ProviderID n @
                   '') not found in nodeGroup '' @ Id_csNodeGroup g), g, s)"
    by (simp add: vmForNode_def errNodeNotFound_def)
next
  fix vm res w1
  assume a: "find (\<lambda>vm. vm_Id vm = strings_TrimPrefix (node_ProviderID n) (providerIDPrefix (vmProfile g))) (vms g) = Some vm
       \<and> DestroyVirtualMachine (client (scaler m)) \<lparr>dv_id = vm_Id vm, dv_expunge = expunge (scaler m)\<rparr> (world s)
           = (res, w1)"
  from a show "vm_Id vm = strings_TrimPrefix (node_ProviderID n) (providerIDPrefix (vmProfile g))"
    using find_Some_Id by fastforce
  then have f: "find (\<lambda>v. vm_Id v = vm_Id vm) (vms g) = Some vm"
    using a by simp
  from a f show "let s1 = s\<lparr>world := w1,
                        calls := calls s @ [DestroyCall \<lparr>dv_id = vm_Id vm, dv_expunge = expunge (scaler m)\<rparr>]\<rparr>
            in if res = None \<or> isCSErrorNotFound res (vm_Id vm)
               then DeleteNodes m g (n # ns) s = DeleteNodes m (removeVM g (vm_Id vm)) ns s1
                  \<and> mset (vms (removeVM g (vm_Id vm))) = mset (vms g) - {#vm#}
               else DeleteNodes m g (n # ns) s = (res, g, s1)"
    using removeVM_found(1) [OF f]
    by (auto simp: vmForNode_def destroyVM_def invoke_def Let_def isCSErrorNotFound_def
             split: option.splits)
qed

text \<open>
  Claim C6. \<open>refresh\<close> of a disabled cache does nothing: no call, no clock reading. An
  enabled cache whose age \<open>time.Since(lastUpdated)\<close> is at most \<open>maxAge\<close> is left as it
  is and nothing is called. Past \<open>maxAge\<close> the listing is called once: when it fails its
  error is returned unchanged and the cache keeps its projects and its \<open>lastUpdated\<close>
  (so the next \<open>refresh\<close> calls again); when it succeeds the projects are replaced and
  \<open>lastUpdated\<close> is the next clock reading, after which a \<open>refresh\<close> within \<open>maxAge\<close>
  of that reading adds no call (one listing for the two) and a \<open>refresh\<close> past it calls
  the listing again. This holds for every \<open>maxAge\<close>, positive or not.
\<close>

theorem refresh_ttl:
  "(\<not> useProjects pc \<longrightarrow> refresh cl pc s = (None, pc, s))
 \<and> (useProjects pc \<and> time_Sub (clock s 0) (lastUpdated pc) \<le> maxAge pc \<longrightarrow>
      refresh cl pc s = (None, pc, s\<lparr>clock := (\<lambda>n. clock s (Suc n))\<rparr>))
 \<and> (\<forall>err w1.
      useProjects pc \<and> maxAge pc < time_Sub (clock s 0) (lastUpdated pc) \<and>
      ListProjects cl (world s) = (Inl err, w1) \<longrightarrow>
      refresh cl pc s =
        (Some err, pc,
         s\<lparr>world := w1, calls := calls s @ [ListProjectsCall], clock := (\<lambda>n. clock s (Suc n))\<rparr>))
 \<and> (\<forall>ps w1.
      useProjects pc \<and> maxAge pc < time_Sub (clock s 0) (lastUpdated pc) \<and>
      ListProjects cl (world s) = (Inr ps, w1) \<longrightarrow>
      refresh cl pc s =
        (None, pc\<lparr>lastUpdated := clock s (Suc 0), projects := ps\<rparr>,
         s\<lparr>world := w1, calls := calls s @ [ListProjectsCall],
           clock := (\<lambda>n. clock s (Suc (Suc n)))\<rparr>)
      \<and> (\<forall>s2. calls s2 = calls s @ [ListProjectsCall] \<longrightarrow>
            (time_Sub (clock s2 0) (clock s (Suc 0)) \<le> maxAge pc \<longrightarrow>
               calls (snd (snd (refresh cl (fst (snd (refresh cl pc s))) s2)))
                 = calls s @ [ListProjectsCall])
          \<and> (maxAge pc < time_Sub (clock s2 0) (clock s (Suc 0)) \<longrightarrow>
               calls (snd (snd (refresh cl (fst (snd (refresh cl pc s))) s2)))
                 = calls s @ [ListProjectsCall, ListProjectsCall])))"
  by (auto simp: refresh_def time_Now_def invoke_def split: prod.splits sum.splits)


lemma refreshNodeGroupVms_metadata:
  "refreshNodeGroupVms m ng s = (e, ng', s') \<Longrightarrow>
     aspMetadata (vmProfile ng') = aspMetadata (vmProfile ng) \<and> asp (vmProfile ng') = asp (vmProfile ng)"
  by (auto simp: refreshNodeGroupVms_def Let_def invoke_def
           split: prod.splits sum.splits)

lemma refreshNodeGroupVms_nodeGroups [simp]:
  "refreshNodeGroupVms (m\<lparr>nodeGroups := X\<rparr>) ng s = refreshNodeGroupVms m ng s"
  by (simp add: refreshNodeGroupVms_def Let_def split: prod.splits sum.splits)

lemma validASP_nodeGroups [simp]: "validASP (m\<lparr>nodeGroups := X\<rparr>) md = validASP m md"
  by (simp add: validASP_def)

lemma Refresh_asps_nodeGroups [simp]:
  "Refresh_asps (m\<lparr>nodeGroups := X\<rparr>) asps d s = Refresh_asps m asps d s"
proof (induction asps arbitrary: d s)
  case Nil
  then show ?case by simp
next
  case (Cons a rest)
  obtain reg ngs where d: "d = (reg, ngs)" by (cases d)
  show ?case
    unfolding d
    by (simp add: Cons.IH Let_def split: prod.splits sum.splits option.splits)
qed

lemma Refresh_project_nodeGroups [simp]:
  "Refresh_project (m\<lparr>nodeGroups := X\<rparr>) = Refresh_project m"
  by (intro ext) (simp add: Refresh_project_def Let_def split: prod.splits sum.splits)








theorem createVM_deploy_failure_witness:
  "createVM (fakeScaler\<lparr>client := failingDeploy\<rparr>) vm1Deploy abTags sys0
     = (Some ''deploy err'', sys0\<lparr>calls := [DeployCall vm1Deploy]\<rparr>)
 \<and> createVM (fakeScaler\<lparr>client := fakeClient\<lparr>DeployVirtualMachine :=
        (\<lambda>p w. (DeployFailed (Some ''vm1-id1'') ''deploy timeout err'', w))\<rparr>\<rparr>) vm1Deploy abTags sys0
     = (Some ''deploy timeout err'',
        sys0\<lparr>calls := [DeployCall vm1Deploy, DestroyCall \<lparr>dv_id = ''vm1-id1'', dv_expunge = False\<rparr>]\<rparr>)
 \<and> createVM (fakeScaler\<lparr>client := fakeClient\<lparr>DeployVirtualMachine :=
        (\<lambda>p w. (DeployFailed (Some ''vm1-id1'') ''deploy timeout err'', w)),
        DestroyVirtualMachine := (\<lambda>p w. (Some ''destroy err'', w))\<rparr>\<rparr>) vm1Deploy abTags sys0
     = (Some ''unable to destroy cloudstack VM after error creating: destroy err - original error: deploy timeout err'',
        sys0\<lparr>calls := [DeployCall vm1Deploy, DestroyCall \<lparr>dv_id = ''vm1-id1'', dv_expunge = False\<rparr>]\<rparr>)"
proof -
  let ?sc1 = "fakeScaler\<lparr>client := failingDeploy\<rparr>"
  let ?sc2 = "fakeScaler\<lparr>client := fakeClient\<lparr>DeployVirtualMachine :=
        (\<lambda>p w. (DeployFailed (Some ''vm1-id1'') ''deploy timeout err'', w))\<rparr>\<rparr>"
  let ?sc3 = "fakeScaler\<lparr>client := fakeClient\<lparr>DeployVirtualMachine :=
        (\<lambda>p w. (DeployFailed (Some ''vm1-id1'') ''deploy timeout err'', w)),
        DestroyVirtualMachine := (\<lambda>p w. (Some ''destroy err'', w))\<rparr>\<rparr>"
  have nf: "\<not> isCSErrorNotFound (Some ''destroy err'') ''vm1-id1''"
    by (simp add: isCSErrorNotFound_def strings_Contains_def notFoundPattern_def sublist_code)
  have a: "createVM ?sc1 vm1Deploy abTags sys0 = (Some ''deploy err'', sys0\<lparr>calls := [DeployCall vm1Deploy]\<rparr>)"
    using createVM_deploy_failure [of ?sc1 vm1Deploy sys0 None "''deploy err''" "()" abTags]
    by (simp add: fakeScaler_def failingDeploy_def fakeClient_def sys0_def)
  have b: "createVM ?sc2 vm1Deploy abTags sys0 = (Some ''deploy timeout err'',
        sys0\<lparr>calls := [DeployCall vm1Deploy, DestroyCall \<lparr>dv_id = ''vm1-id1'', dv_expunge = False\<rparr>]\<rparr>)"
    using createVM_deploy_failure [of ?sc2 vm1Deploy sys0 "Some ''vm1-id1''" "''deploy timeout err''" "()" abTags]
    by (simp add: fakeScaler_def fakeClient_def sys0_def prod_eq_iff)
  have c: "createVM ?sc3 vm1Deploy abTags sys0 = (Some (''unable to destroy cloudstack VM after error creating: '' @ ''destroy err'' @
                             '' - original error: '' @ ''deploy timeout err''),
        sys0\<lparr>calls := [DeployCall vm1Deploy, DestroyCall \<lparr>dv_id = ''vm1-id1'', dv_expunge = False\<rparr>]\<rparr>)"
    using createVM_deploy_failure [of ?sc3 vm1Deploy sys0 "Some ''vm1-id1''" "''deploy timeout err''" "()" abTags] nf
    by (simp add: fakeScaler_def fakeClient_def sys0_def prod_eq_iff)
  from a b c show ?thesis by simp
qed

theorem refresh_ttl_witness:
  "refresh fakeClient pcTest (sysAt 63900000000000000000)
     = (None, pcTest\<lparr>lastUpdated := 63900000000000000000, projects := [\<lparr>pj_Id = ''pj1''\<rparr>]\<rparr>,
        (sysAt 63900000000000000000)\<lparr>calls := [ListProjectsCall]\<rparr>)
 \<and> calls (snd (snd (refresh fakeClient
        (fst (snd (refresh fakeClient pcTest (sysAt 63900000000000000000))))
        ((sysAt 63900000000100000000)\<lparr>calls := [ListProjectsCall]\<rparr>)))) = [ListProjectsCall]
 \<and> calls (snd (snd (refresh fakeClient
        (fst (snd (refresh fakeClient pcTest (sysAt 63900000000000000000))))
        ((sysAt 63900000000310000000)\<lparr>calls := [ListProjectsCall]\<rparr>)))) = [ListProjectsCall, ListProjectsCall]
 \<and> refresh fakeClient (pcTest\<lparr>useProjects := False\<rparr>) (sysAt 63900000000000000000)
     = (None, pcTest\<lparr>useProjects := False\<rparr>, sysAt 63900000000000000000)
 \<and> refresh (fakeClient\<lparr>ListProjects := (\<lambda>w. (Inl ''list err'', w))\<rparr>) pcTest (sysAt 63900000000000000000)
     = (Some ''list err'', pcTest, (sysAt 63900000000000000000)\<lparr>calls := [ListProjectsCall]\<rparr>)"
proof -
  let ?t = "63900000000000000000 :: int"
  let ?fail = "fakeClient\<lparr>ListProjects := (\<lambda>w. (Inl ''list err'', w))\<rparr>"
  have e: "maxAge pcTest < time_Sub (clock (sysAt ?t) 0) (lastUpdated pcTest)"
    by (simp add: pcTest_def sysAt_def time_Sub_def)
  have l: "ListProjects fakeClient (world (sysAt ?t)) = (Inr [\<lparr>pj_Id = ''pj1''\<rparr>], ())"
    by (simp add: fakeClient_def)
  have lf: "ListProjects ?fail (world (sysAt ?t)) = (Inl ''list err'', ())"
    by (simp add: fakeClient_def)
  have u: "useProjects pcTest" by (simp add: pcTest_def)
  note T = refresh_ttl [of pcTest fakeClient "sysAt ?t"]
  from T u e l have first: "refresh fakeClient pcTest (sysAt ?t) =
        (None, pcTest\<lparr>lastUpdated := clock (sysAt ?t) (Suc 0), projects := [\<lparr>pj_Id = ''pj1''\<rparr>]\<rparr>,
         (sysAt ?t)\<lparr>world := (), calls := calls (sysAt ?t) @ [ListProjectsCall],
           clock := (\<lambda>n. clock (sysAt ?t) (Suc (Suc n)))\<rparr>)"
    by blast
  from T u e l have seq: "\<And>s2. calls s2 = calls (sysAt ?t) @ [ListProjectsCall] \<Longrightarrow>
            (time_Sub (clock s2 0) (clock (sysAt ?t) (Suc 0)) \<le> maxAge pcTest \<longrightarrow>
               calls (snd (snd (refresh fakeClient (fst (snd (refresh fakeClient pcTest (sysAt ?t)))) s2)))
                 = calls (sysAt ?t) @ [ListProjectsCall])
          \<and> (maxAge pcTest < time_Sub (clock s2 0) (clock (sysAt ?t) (Suc 0)) \<longrightarrow>
               calls (snd (snd (refresh fakeClient (fst (snd (refresh fakeClient pcTest (sysAt ?t)))) s2)))
                 = calls (sysAt ?t) @ [ListProjectsCall, ListProjectsCall])"
    by blast
  have second: "calls (snd (snd (refresh fakeClient (fst (snd (refresh fakeClient pcTest (sysAt ?t))))
        ((sysAt 63900000000100000000)\<lparr>calls := [ListProjectsCall]\<rparr>)))) = [ListProjectsCall]"
    using seq [of "(sysAt 63900000000100000000)\<lparr>calls := [ListProjectsCall]\<rparr>"]
    by (simp add: sysAt_def pcTest_def time_Sub_def)
  have third: "calls (snd (snd (refresh fakeClient (fst (snd (refresh fakeClient pcTest (sysAt ?t))))
        ((sysAt 63900000000310000000)\<lparr>calls := [ListProjectsCall]\<rparr>)))) = [ListProjectsCall, ListProjectsCall]"
    using seq [of "(sysAt 63900000000310000000)\<lparr>calls := [ListProjectsCall]\<rparr>"]
    by (simp add: sysAt_def pcTest_def time_Sub_def)
  have off: "refresh fakeClient (pcTest\<lparr>useProjects := False\<rparr>) (sysAt ?t)
     = (None, pcTest\<lparr>useProjects := False\<rparr>, sysAt ?t)"
    using refresh_ttl [of "pcTest\<lparr>useProjects := False\<rparr>" fakeClient "sysAt ?t"] by simp
  from refresh_ttl [of pcTest ?fail "sysAt ?t"] u e lf
  have failed: "refresh ?fail pcTest (sysAt ?t) =
        (Some ''list err'', pcTest,
         (sysAt ?t)\<lparr>world := (), calls := calls (sysAt ?t) @ [ListProjectsCall],
            clock := (\<lambda>n. clock (sysAt ?t) (Suc n))\<rparr>)"
    by blast
  from first second third off failed show ?thesis
    by (simp add: sysAt_def)
qed

theorem DeleteNodes_step_witness:
  "DeleteNodes fakeManager groupPrefixed [\<lparr>node_Name = [], node_ProviderID = ''x://abc''\<rparr>] sys0
     = (None, groupPrefixed\<lparr>vms := [vmOf ''xyz'']\<rparr>,
        sys0\<lparr>calls := [DestroyCall \<lparr>dv_id = ''abc'', dv_expunge = False\<rparr>]\<rparr>)
 \<and> DeleteNodes fakeManager groupNg1 [\<lparr>node_Name = ''n1'', node_ProviderID = ''qwerty''\<rparr>] sys0
     = (Some ''node (n1, qwerty) not found in nodeGroup ng1'', groupNg1, sys0)"
proof -
  let ?n = "\<lparr>node_Name = [], node_ProviderID = ''x://abc''\<rparr>"
  let ?q = "\<lparr>node_Name = ''n1'', node_ProviderID = ''qwerty''\<rparr>"
  have strip: "strings_TrimPrefix (node_ProviderID ?n) (providerIDPrefix (vmProfile groupPrefixed)) = ''abc''"
    by (simp add: strings_TrimPrefix_def strings_HasPrefix_def providerIDPrefix_def groupPrefixed_def
          profileOf_def map_get_def autoScaleProfileMetadataProviderIDPrefix_def)
  have f: "find (\<lambda>vm. vm_Id vm = ''abc'') (vms groupPrefixed) = Some (vmOf ''abc'')"
    by (simp add: groupPrefixed_def vmOf_def)
  have d: "DestroyVirtualMachine (client (scaler fakeManager))
             \<lparr>dv_id = vm_Id (vmOf ''abc''), dv_expunge = expunge (scaler fakeManager)\<rparr> (world sys0) = (None, ())"
    by (simp add: fakeManager_def fakeScaler_def fakeClient_def)
  have rm: "removeVM groupPrefixed ''abc'' = groupPrefixed\<lparr>vms := [vmOf ''xyz'']\<rparr>"
    by (simp add: removeVM_def groupPrefixed_def vmOf_def)
  have a: "DeleteNodes fakeManager groupPrefixed [?n] sys0 =
     (None, groupPrefixed\<lparr>vms := [vmOf ''xyz'']\<rparr>,
        sys0\<lparr>calls := [DestroyCall \<lparr>dv_id = ''abc'', dv_expunge = False\<rparr>]\<rparr>)"
    using DeleteNodes_step [of ?n groupPrefixed fakeManager "[]" sys0] f d
    unfolding strip
    by (simp add: Let_def rm vmOf_def fakeManager_def fakeScaler_def sys0_def)
  have strip2: "strings_TrimPrefix (node_ProviderID ?q) (providerIDPrefix (vmProfile groupNg1)) = ''qwerty''"
    by (simp add: strings_TrimPrefix_def strings_HasPrefix_def providerIDPrefix_def groupNg1_def
          profileOf_def map_get_def autoScaleProfileMetadataProviderIDPrefix_def)
  have f2: "find (\<lambda>vm. vm_Id vm = ''qwerty'') (vms groupNg1) = None"
    by (simp add: groupNg1_def vmOf_def)
  have i: "Id_csNodeGroup groupNg1 = ''ng1''"
    by (simp add: Id_csNodeGroup_def Id_vmProfile_def groupNg1_def profileOf_def map_get_def
          autoScaleProfileMetadataName_def)
  have b: "DeleteNodes fakeManager groupNg1 [?q] sys0
     = (Some ''node (n1, qwerty) not found in nodeGroup ng1'', groupNg1, sys0)"
    using DeleteNodes_step [of ?q groupNg1 fakeManager "[]" sys0] f2
    unfolding strip2 i
    by simp
  from a b show ?thesis by simp
qed

























lemma task_step_effect:
  assumes "unit_inv t h" and "task_step sc t s = (t', s')" and "\<not> exited t" and "\<forall>r. t \<noteq> T_Send r"
  shows "calls s' = calls s @ drop (length (calls s)) (calls s')
       \<and> unit_inv t' (h @ drop (length (calls s)) (calls s'))
       \<and> length (filter is_DeployCall (drop (length (calls s)) (calls s'))) = (if started t then 0 else 1)
       \<and> started t' \<and> \<not> exited t'"
  using assms
  by (cases t)
     (auto simp: unit_inv_def invoke_def destroyVM_def Let_def
           split: prod.splits option.splits DeployResult.splits if_splits)

lemma rank_step:
  "task_step sc t s = (t', s') \<Longrightarrow> rank t' \<le> rank t - 1"
  by (cases t)
     (auto simp: invoke_def destroyVM_def Let_def
           split: prod.splits option.splits DeployResult.splits if_splits)

lemma mset_concat_update:
  assumes "i < length hs"
  shows "mset (concat (hs[i := hs ! i @ new])) = mset (concat hs) + mset new"
proof -
  have "hs = take i hs @ hs ! i # drop (Suc i) hs"
    using assms by (simp add: id_take_nth_drop)
  then have a: "mset (concat hs) = mset (concat (take i hs)) + mset (hs ! i) + mset (concat (drop (Suc i) hs))"
    by (metis concat.simps(2) concat_append mset_append union_assoc)
  have "hs[i := hs ! i @ new] = take i hs @ (hs ! i @ new) # drop (Suc i) hs"
    using assms by (simp add: upd_conv_take_nth_drop)
  then have "mset (concat (hs[i := hs ! i @ new]))
      = mset (concat (take i hs)) + (mset (hs ! i) + mset new) + mset (concat (drop (Suc i) hs))"
    by (metis concat.simps(2) concat_append mset_append union_assoc)
  with a show ?thesis by simp
qed

lemma filter_mset_update:
  assumes "i < length xs"
  shows "filter_mset P (mset (xs[i := y])) + filter_mset P {#xs ! i#}
           = filter_mset P (mset xs) + filter_mset P {#y#}"
proof -
  have "xs ! i \<in># mset xs" using assms by simp
  then have "mset (xs[i := y]) + {#xs ! i#} = mset xs + {#y#}"
    using assms by (simp add: mset_update)
  then have "filter_mset P (mset (xs[i := y]) + {#xs ! i#}) = filter_mset P (mset xs + {#y#})"
    by simp
  then show ?thesis by (simp only: filter_union_mset)
qed

lemma sched_step_out: "\<not> i < length (tasks p) \<Longrightarrow> sched_step sc p i = p"
  by (simp add: sched_step_def)

lemma sched_step_exit: "i < length (tasks p) \<Longrightarrow> tasks p ! i = T_Exit r \<Longrightarrow> sched_step sc p i = p"
  by (simp add: sched_step_def)

lemma sched_step_send:
  "i < length (tasks p) \<Longrightarrow> tasks p ! i = T_Send r \<Longrightarrow>
     sched_step sc p i = p\<lparr>tasks := (tasks p)[i := T_Exit r], errCh := errCh p @ [r]\<rparr>"
  by (simp add: sched_step_def)

lemma sched_step_call:
  "i < length (tasks p) \<Longrightarrow> \<not> exited (tasks p ! i) \<Longrightarrow> \<forall>r. tasks p ! i \<noteq> T_Send r \<Longrightarrow>
     task_step sc (tasks p ! i) (psys p) = (t', s') \<Longrightarrow>
     sched_step sc p i =
       p\<lparr>tasks := (tasks p)[i := t'],
         hist := (hist p)[i := hist p ! i @ drop (length (calls (psys p))) (calls s')],
         answers := (answers p)[i := answers p ! i @ task_answer sc (tasks p ! i) (world (psys p))],
         psys := s'\<rparr>"
  by (cases "tasks p ! i") (simp_all add: sched_step_def)

lemma unit_inv_exit: "unit_inv (T_Send r) h \<Longrightarrow> unit_inv (T_Exit r) h"
  by (cases r) (simp_all add: unit_inv_def)

lemma pool_invI:
  assumes "length (tasks q) = n" and "length (hist q) = n"
    and "\<forall>j<n. unit_inv (tasks q ! j) (hist q ! j)"
    and "mset (calls (psys q)) = mset base + mset (concat (hist q))"
    and "size (filter_mset is_DeployCall (mset (calls (psys q))))
          = size (filter_mset is_DeployCall (mset base)) + size (filter_mset started (mset (tasks q)))"
    and "mset (errCh q) = image_mset outcome (filter_mset exited (mset (tasks q)))"
  shows "pool_inv n base q"
  unfolding pool_inv_def using assms by (intro conjI)

lemma pool_invD:
  assumes "pool_inv n base q"
  shows "length (tasks q) = n" and "length (hist q) = n"
    and "\<forall>j<n. unit_inv (tasks q ! j) (hist q ! j)"
    and "mset (calls (psys q)) = mset base + mset (concat (hist q))"
    and "size (filter_mset is_DeployCall (mset (calls (psys q))))
          = size (filter_mset is_DeployCall (mset base)) + size (filter_mset started (mset (tasks q)))"
    and "mset (errCh q) = image_mset outcome (filter_mset exited (mset (tasks q)))"
proof -
  note a = assms [unfolded pool_inv_def]
  show "length (tasks q) = n" using a by (elim conjE)
  show "length (hist q) = n" using a by (elim conjE)
  show "\<forall>j<n. unit_inv (tasks q ! j) (hist q ! j)" using a by (elim conjE)
  show "mset (calls (psys q)) = mset base + mset (concat (hist q))" using a by (elim conjE)
  show "size (filter_mset is_DeployCall (mset (calls (psys q))))
          = size (filter_mset is_DeployCall (mset base)) + size (filter_mset started (mset (tasks q)))"
    using a by (elim conjE)
  show "mset (errCh q) = image_mset outcome (filter_mset exited (mset (tasks q)))"
    using a by (elim conjE)
qed

lemma sched_step_inv:
  assumes inv: "pool_inv n base p"
  shows "pool_inv n base (sched_step sc p i)"
proof (cases "i < length (tasks p)")
  case False
  with inv show ?thesis by (simp add: sched_step_out)
next
  case True
  note len = pool_invD(1,2) [OF inv]
  note units = pool_invD(3) [OF inv]
  note log = pool_invD(4) [OF inv]
  note deps = pool_invD(5) [OF inv]
  note ch = pool_invD(6) [OF inv]
  from True len have i: "i < n" "i < length (hist p)" by simp_all
  note fs = filter_mset_update [OF True, where P = started]
  note fe = filter_mset_update [OF True, where P = exited]
  show ?thesis
  proof (cases "exited (tasks p ! i)")
    case True
    then obtain r where "tasks p ! i = T_Exit r" by (cases "tasks p ! i") simp_all
    with \<open>i < length (tasks p)\<close> inv show ?thesis by (simp add: sched_step_exit)
  next
    case notexit: False
    show ?thesis
    proof (cases "\<exists>r. tasks p ! i = T_Send r")
      case True
      then obtain r where r: "tasks p ! i = T_Send r" by blast
      let ?P = "p\<lparr>tasks := (tasks p)[i := T_Exit r], errCh := errCh p @ [r]\<rparr>"
      have st: "sched_step sc p i = ?P"
        using \<open>i < length (tasks p)\<close> r by (rule sched_step_send)
      have u: "\<forall>j<n. unit_inv ((tasks p)[i := T_Exit r] ! j) (hist p ! j)"
        using units r i len unit_inv_exit by (auto simp: nth_list_update)
      have s: "size (filter_mset started (mset ((tasks p)[i := T_Exit r]))) = size (filter_mset started (mset (tasks p)))"
      proof -
        from fs [of "T_Exit r"] r
        have "size (add_mset (T_Send r) (filter_mset started (mset ((tasks p)[i := T_Exit r]))))
               = size (add_mset (T_Exit r) (filter_mset started (mset (tasks p))))"
          by simp
        then show ?thesis by simp
      qed
      have e: "filter_mset exited (mset ((tasks p)[i := T_Exit r])) = add_mset (T_Exit r) (filter_mset exited (mset (tasks p)))"
        using fe [of "T_Exit r"] r by simp
      show ?thesis
        unfolding st
      proof (rule pool_invI)
        show "length (tasks ?P) = n" using len by simp
        show "length (hist ?P) = n" using len by simp
        show "\<forall>j<n. unit_inv (tasks ?P ! j) (hist ?P ! j)" using u by simp
        show "mset (calls (psys ?P)) = mset base + mset (concat (hist ?P))" using log by simp
        show "size (filter_mset is_DeployCall (mset (calls (psys ?P))))
          = size (filter_mset is_DeployCall (mset base)) + size (filter_mset started (mset (tasks ?P)))"
          using deps by (simp add: s)
        show "mset (errCh ?P) = image_mset outcome (filter_mset exited (mset (tasks ?P)))"
          using ch by (simp add: e)
      qed
    next
      case False
      then have ns: "\<forall>r. tasks p ! i \<noteq> T_Send r" by blast
      obtain t' s' where ts: "task_step sc (tasks p ! i) (psys p) = (t', s')"
        by (cases "task_step sc (tasks p ! i) (psys p)")
      let ?new = "drop (length (calls (psys p))) (calls s')"
      let ?P = "p\<lparr>tasks := (tasks p)[i := t'], hist := (hist p)[i := hist p ! i @ ?new],
                  answers := (answers p)[i := answers p ! i @ task_answer sc (tasks p ! i) (world (psys p))],
                  psys := s'\<rparr>"
      have st: "sched_step sc p i = ?P"
        using \<open>i < length (tasks p)\<close> notexit ns ts by (rule sched_step_call)
      from units i have ui: "unit_inv (tasks p ! i) (hist p ! i)" by simp
      note eff = task_step_effect [OF ui ts notexit ns]
      from eff have c: "calls s' = calls (psys p) @ ?new" by (elim conjE)
      from eff have u': "unit_inv t' (hist p ! i @ ?new)" by (elim conjE)
      from eff have d: "length (filter is_DeployCall ?new) = (if started (tasks p ! i) then 0 else 1)"
        by (elim conjE)
      from eff have st': "started t'" by (elim conjE)
      from eff have ne': "\<not> exited t'" by (elim conjE)
      have u: "\<forall>j<n. unit_inv ((tasks p)[i := t'] ! j) ((hist p)[i := hist p ! i @ ?new] ! j)"
        using units u' i len by (auto simp: nth_list_update)
      have c': "mset (calls s') = mset (calls (psys p)) + mset ?new"
        by (subst c) simp
      have l: "mset (calls s') = mset base + mset (concat ((hist p)[i := hist p ! i @ ?new]))"
        unfolding c' log mset_concat_update [OF i(2), of ?new] by simp
      have s: "size (filter_mset started (mset ((tasks p)[i := t'])))
                 = size (filter_mset started (mset (tasks p))) + (if started (tasks p ! i) then 0 else 1)"
      proof -
        from fs [of t'] st'
        have "size (filter_mset started (mset ((tasks p)[i := t'])) + filter_mset started {#tasks p ! i#})
               = size (filter_mset started (mset (tasks p)) + {#t'#})"
          by simp
        then show ?thesis by (simp split: if_splits)
      qed
      have dn: "size (filter_mset is_DeployCall (mset ?new)) = (if started (tasks p ! i) then 0 else 1)"
        using d by (simp only: mset_filter [symmetric] size_mset)
      have dd: "size (filter_mset is_DeployCall (mset (calls s')))
                 = size (filter_mset is_DeployCall (mset (calls (psys p)))) + (if started (tasks p ! i) then 0 else 1)"
        unfolding c' using dn by simp
      have e: "filter_mset exited (mset ((tasks p)[i := t'])) = filter_mset exited (mset (tasks p))"
        using fe [of t'] ne' notexit by simp
      show ?thesis
        unfolding st
      proof (rule pool_invI)
        show "length (tasks ?P) = n" using len by simp
        show "length (hist ?P) = n" using len by simp
        show "\<forall>j<n. unit_inv (tasks ?P ! j) (hist ?P ! j)" using u by simp
        show "mset (calls (psys ?P)) = mset base + mset (concat (hist ?P))" using l by simp
        show "size (filter_mset is_DeployCall (mset (calls (psys ?P))))
          = size (filter_mset is_DeployCall (mset base)) + size (filter_mset started (mset (tasks ?P)))"
          using deps dd s by simp
        show "mset (errCh ?P) = image_mset outcome (filter_mset exited (mset (tasks ?P)))"
          using ch by (simp add: e)
      qed
    qed
  qed
qed

lemma foldl_sched_inv:
  "pool_inv n base p \<Longrightarrow> pool_inv n base (foldl (sched_step sc) p sched)"
  by (induction sched arbitrary: p) (simp_all add: sched_step_inv)

lemma task_step_replay:
  assumes "unit_ok (expunge sc) d tg t h a" and "task_step sc t s = (t', s')"
    and "\<not> exited t" and "\<forall>r. t \<noteq> T_Send r"
  shows "unit_ok (expunge sc) d tg t' (h @ drop (length (calls s)) (calls s'))
           (a @ task_answer sc t (world s))"
  using assms
  by (cases t)
     (auto simp: invoke_def destroyVM_def createVM_def Let_def replayScaler_def replayClient_def
                 replaySys_def
           split: prod.splits option.splits DeployResult.splits if_splits)

lemma unit_ok_exit: "unit_ok x d tg (T_Send r) h a \<Longrightarrow> unit_ok x d tg (T_Exit r) h a"
  by simp

lemma sched_step_replay:
  assumes inv: "replay_inv (expunge sc) ts0 p"
  shows "replay_inv (expunge sc) ts0 (sched_step sc p i)"
proof (cases "i < length (tasks p)")
  case False
  with inv show ?thesis by (simp add: sched_step_out)
next
  case True
  note a = inv [unfolded replay_inv_def]
  from a have lt: "length (tasks p) = length ts0" by (elim conjE)
  from a have lh: "length (hist p) = length ts0" by (elim conjE)
  from a have la: "length (answers p) = length ts0" by (elim conjE)
  from a have units: "\<forall>j<length ts0. \<exists>d tg. ts0 ! j = T_Deploy d tg
             \<and> unit_ok (expunge sc) d tg (tasks p ! j) (hist p ! j) (answers p ! j)" by (elim conjE)
  from True lt have i: "i < length ts0" by simp
  from units i obtain d tg where t0: "ts0 ! i = T_Deploy d tg"
    and ui: "unit_ok (expunge sc) d tg (tasks p ! i) (hist p ! i) (answers p ! i)" by blast
  show ?thesis
  proof (cases "exited (tasks p ! i)")
    case True
    then obtain r where "tasks p ! i = T_Exit r" by (cases "tasks p ! i") simp_all
    with \<open>i < length (tasks p)\<close> inv show ?thesis by (simp add: sched_step_exit)
  next
    case notexit: False
    show ?thesis
    proof (cases "\<exists>r. tasks p ! i = T_Send r")
      case True
      then obtain r where r: "tasks p ! i = T_Send r" by blast
      have st: "sched_step sc p i = p\<lparr>tasks := (tasks p)[i := T_Exit r], errCh := errCh p @ [r]\<rparr>"
        using \<open>i < length (tasks p)\<close> r by (rule sched_step_send)
      have "\<forall>j<length ts0. \<exists>d tg. ts0 ! j = T_Deploy d tg
             \<and> unit_ok (expunge sc) d tg ((tasks p)[i := T_Exit r] ! j) (hist p ! j) (answers p ! j)"
      proof (intro allI impI)
        fix j assume j: "j < length ts0"
        show "\<exists>d tg. ts0 ! j = T_Deploy d tg
             \<and> unit_ok (expunge sc) d tg ((tasks p)[i := T_Exit r] ! j) (hist p ! j) (answers p ! j)"
        proof (cases "j = i")
          case True
          with t0 ui r lt i show ?thesis by simp
        next
          case False
          with units j show ?thesis by simp
        qed
      qed
      with lt lh la show ?thesis
        unfolding st replay_inv_def by simp
    next
      case False
      then have ns: "\<forall>r. tasks p ! i \<noteq> T_Send r" by blast
      obtain t' s' where ts: "task_step sc (tasks p ! i) (psys p) = (t', s')"
        by (cases "task_step sc (tasks p ! i) (psys p)")
      let ?new = "drop (length (calls (psys p))) (calls s')"
      let ?ans = "task_answer sc (tasks p ! i) (world (psys p))"
      have st: "sched_step sc p i =
          p\<lparr>tasks := (tasks p)[i := t'], hist := (hist p)[i := hist p ! i @ ?new],
            answers := (answers p)[i := answers p ! i @ ?ans], psys := s'\<rparr>"
        using \<open>i < length (tasks p)\<close> notexit ns ts by (rule sched_step_call)
      note u' = task_step_replay [OF ui ts notexit ns]
      have "\<forall>j<length ts0. \<exists>d tg. ts0 ! j = T_Deploy d tg
             \<and> unit_ok (expunge sc) d tg ((tasks p)[i := t'] ! j)
                 ((hist p)[i := hist p ! i @ ?new] ! j) ((answers p)[i := answers p ! i @ ?ans] ! j)"
      proof (intro allI impI)
        fix j assume j: "j < length ts0"
        show "\<exists>d tg. ts0 ! j = T_Deploy d tg
             \<and> unit_ok (expunge sc) d tg ((tasks p)[i := t'] ! j)
                 ((hist p)[i := hist p ! i @ ?new] ! j) ((answers p)[i := answers p ! i @ ?ans] ! j)"
        proof (cases "j = i")
          case True
          with t0 u' lt lh la i show ?thesis by simp
        next
          case False
          with units j show ?thesis by simp
        qed
      qed
      with lt lh la show ?thesis
        unfolding st replay_inv_def by simp
    qed
  qed
qed

lemma foldl_sched_replay:
  "replay_inv (expunge sc) ts0 p \<Longrightarrow> replay_inv (expunge sc) ts0 (foldl (sched_step sc) p sched)"
  by (induction sched arbitrary: p) (simp_all add: sched_step_replay)

lemma spawn_props:
  "spawn vmp n s = (ts, s0) \<Longrightarrow>
     length ts = n \<and> (\<forall>t\<in>set ts. \<not> started t \<and> \<not> exited t) \<and> calls s0 = calls s \<and> world s0 = world s
     \<and> clock s0 = clock s"
proof (induction n arbitrary: s ts s0)
  case 0
  then show ?case by simp
next
  case (Suc n)
  obtain name s1 where r: "randomName (Id_vmProfile vmp) s = (name, s1)"
    by (cases "randomName (Id_vmProfile vmp) s")
  obtain ts' s2 where sp: "spawn vmp n s1 = (ts', s2)"
    by (cases "spawn vmp n s1")
  from r have s1: "calls s1 = calls s" "world s1 = world s" "clock s1 = clock s"
    by (auto simp: randomName_def rand_Uint64_def Let_def split: prod.splits)
  from Suc.prems r sp have "ts = T_Deploy ((createDeployVMParams vmp)\<lparr>dp_name := name\<rparr>) (createVMTagsParams vmp) # ts'"
    and "s0 = s2"
    by (simp_all add: Let_def)
  with Suc.IH [OF sp] s1 show ?case by simp
qed

lemma pool_inv_init:
  assumes "spawn vmp n s = (ts, s0)"
  shows "pool_inv n (calls s) \<lparr>tasks = ts, errCh = [], hist = replicate n [], answers = replicate n [], psys = s0\<rparr>"
proof -
  from spawn_props [OF assms]
  have len: "length ts = n" and ns: "\<forall>t\<in>set ts. \<not> started t \<and> \<not> exited t" and c: "calls s0 = calls s"
    by simp_all
  from ns have fs: "filter_mset started (mset ts) = {#}" and fe: "filter_mset exited (mset ts) = {#}"
    by simp_all
  show ?thesis
  proof (rule pool_invI)
    show "\<forall>j<n. unit_inv (tasks \<lparr>tasks = ts, errCh = [], hist = replicate n [], answers = replicate n [], psys = s0\<rparr> ! j)
                         (hist \<lparr>tasks = ts, errCh = [], hist = replicate n [], answers = replicate n [], psys = s0\<rparr> ! j)"
      using len ns by (simp add: unit_inv_def)
  qed (use len c fs fe in simp_all)
qed

lemma sched_step_length [simp]: "length (tasks (sched_step sc p i)) = length (tasks p)"
  by (simp add: sched_step_def split: task.splits prod.splits)

lemma sched_step_other: "j \<noteq> i \<Longrightarrow> tasks (sched_step sc p i) ! j = tasks p ! j"
  by (simp add: sched_step_def split: task.splits prod.splits)

lemma sched_step_rank:
  assumes i: "i < length (tasks p)"
  shows "rank (tasks (sched_step sc p i) ! i) \<le> rank (tasks p ! i) - 1"
proof (cases "exited (tasks p ! i) \<or> (\<exists>r. tasks p ! i = T_Send r)")
  case True
  then show ?thesis
  proof
    assume "exited (tasks p ! i)"
    then obtain r where "tasks p ! i = T_Exit r" by (cases "tasks p ! i") simp_all
    with i show ?thesis by (simp add: sched_step_exit)
  next
    assume "\<exists>r. tasks p ! i = T_Send r"
    then obtain r where "tasks p ! i = T_Send r" by blast
    with i show ?thesis by (simp add: sched_step_send)
  qed
next
  case False
  obtain t' s' where ts: "task_step sc (tasks p ! i) (psys p) = (t', s')"
    by (cases "task_step sc (tasks p ! i) (psys p)")
  from False have "\<not> exited (tasks p ! i)" and "\<forall>r. tasks p ! i \<noteq> T_Send r" by blast+
  from sched_step_call [OF i this ts] i rank_step [OF ts] show ?thesis by simp
qed

lemma exited_rank: "exited t \<longleftrightarrow> rank t = 0"
  by (cases t) simp_all

lemma rank_le: "rank t \<le> 4"
  by (cases t) simp_all

lemma foldl_length [simp]: "length (tasks (foldl (sched_step sc) p sched)) = length (tasks p)"
  by (induction sched arbitrary: p) simp_all

lemma exited_stable:
  "j < length (tasks p) \<Longrightarrow> exited (tasks p ! j) \<Longrightarrow> exited (tasks (foldl (sched_step sc) p sched) ! j)"
proof (induction sched arbitrary: p)
  case Nil
  then show ?case by simp
next
  case (Cons i sched)
  have "exited (tasks (sched_step sc p i) ! j)"
  proof (cases "j = i")
    case True
    with Cons.prems sched_step_rank [of i p sc] show ?thesis by (simp add: exited_rank)
  next
    case False
    with Cons.prems show ?thesis by (simp add: sched_step_other)
  qed
  with Cons.IH [of "sched_step sc p i"] Cons.prems(1) show ?case by simp
qed

lemma repeat_rank:
  "i < length (tasks p) \<Longrightarrow>
     rank (tasks (foldl (sched_step sc) p (replicate k i)) ! i) \<le> rank (tasks p ! i) - k"
proof (induction k arbitrary: p)
  case 0
  then show ?case by simp
next
  case (Suc k)
  from Suc.prems have "i < length (tasks (sched_step sc p i))" by simp
  from Suc.IH [OF this] sched_step_rank [OF Suc.prems, of sc] show ?case by simp
qed

lemma completion_exited:
  "k \<le> length (tasks p) \<Longrightarrow>
     \<forall>j<k. exited (tasks (foldl (sched_step sc) p (concat (map (replicate 4) [0..<k]))) ! j)"
proof (induction k)
  case 0
  then show ?case by simp
next
  case (Suc k)
  let ?q = "foldl (sched_step sc) p (concat (map (replicate 4) [0..<k]))"
  have f: "foldl (sched_step sc) p (concat (map (replicate 4) [0..<Suc k]))
             = foldl (sched_step sc) ?q (replicate 4 k)"
    by simp
  from Suc.prems have k: "k < length (tasks ?q)" by simp
  have last: "exited (tasks (foldl (sched_step sc) ?q (replicate 4 k)) ! k)"
    using repeat_rank [OF k, of sc 4] rank_le [of "tasks ?q ! k"] by (simp add: exited_rank)
  show ?case
  proof (intro allI impI)
    fix j assume "j < Suc k"
    show "exited (tasks (foldl (sched_step sc) p (concat (map (replicate 4) [0..<Suc k]))) ! j)"
    proof (cases "j = k")
      case True
      with last f show ?thesis by simp
    next
      case False
      with \<open>j < Suc k\<close> have jk: "j < k" by simp
      with Suc.IH Suc.prems have "exited (tasks ?q ! j)" by simp
      moreover from jk Suc.prems have "j < length (tasks ?q)" by simp
      ultimately show ?thesis unfolding f by (rule exited_stable [rotated])
    qed
  qed
qed

lemma scaleUp_pool_inv:
  "pool_inv n (calls s) (scaleUp_pool sc sched vmp n s)"
  by (auto simp: scaleUp_pool_def split: prod.splits intro: foldl_sched_inv pool_inv_init)

lemma scaleUp_pool_exited:
  "\<forall>j<n. exited (tasks (scaleUp_pool sc sched vmp n s) ! j)"
proof -
  obtain ts s0 where sp: "spawn vmp n s = (ts, s0)" by (cases "spawn vmp n s")
  let ?p0 = "\<lparr>tasks = ts, errCh = [], hist = replicate n [], answers = replicate n [], psys = s0\<rparr>"
  let ?q = "foldl (sched_step sc) ?p0 sched"
  from spawn_props [OF sp] have "n \<le> length (tasks ?q)" by simp
  from completion_exited [OF this, of sc]
  show ?thesis
    using sp by (simp add: scaleUp_pool_def completion_def)
qed

lemma spawn_shape:
  "spawn vmp n s = (ts, s0) \<Longrightarrow>
     \<forall>t\<in>set ts. \<exists>name. t = T_Deploy ((createDeployVMParams vmp)\<lparr>dp_name := name\<rparr>) (createVMTagsParams vmp)"
proof (induction n arbitrary: s ts s0)
  case 0
  then show ?case by simp
next
  case (Suc n)
  obtain name s1 where r: "randomName (Id_vmProfile vmp) s = (name, s1)"
    by (cases "randomName (Id_vmProfile vmp) s")
  obtain ts' s2 where sp: "spawn vmp n s1 = (ts', s2)"
    by (cases "spawn vmp n s1")
  from Suc.prems r sp have "ts = T_Deploy ((createDeployVMParams vmp)\<lparr>dp_name := name\<rparr>) (createVMTagsParams vmp) # ts'"
    by (simp add: Let_def)
  with Suc.IH [OF sp] show ?case by auto
qed

lemma replay_inv_init:
  assumes "spawn vmp n s = (ts, s0)"
  shows "replay_inv x ts \<lparr>tasks = ts, errCh = [], hist = replicate n [], answers = replicate n [], psys = s0\<rparr>"
proof -
  from spawn_props [OF assms] have len: "length ts = n" by simp
  have "\<exists>d tg. ts ! j = T_Deploy d tg \<and> unit_ok x d tg (ts ! j) [] []" if "j < length ts" for j
  proof -
    from that have "ts ! j \<in> set ts" by simp
    with spawn_shape [OF assms] obtain name where
      "ts ! j = T_Deploy ((createDeployVMParams vmp)\<lparr>dp_name := name\<rparr>) (createVMTagsParams vmp)"
      by blast
    then show ?thesis by simp
  qed
  with len show ?thesis by (simp add: replay_inv_def)
qed

lemma scaleUp_pool_replay:
  "replay_inv (expunge sc) (fst (spawn vmp n s)) (scaleUp_pool sc sched vmp n s)"
proof -
  obtain ts s0 where sp: "spawn vmp n s = (ts, s0)" by (cases "spawn vmp n s")
  show ?thesis
    using foldl_sched_replay [OF replay_inv_init [OF sp, of "expunge sc"], of "sched @ completion n"]
    by (simp add: scaleUp_pool_def sp)
qed

lemma createVM_task:
  "(case task_step sc (T_Deploy d tg) s of (t1, s1) \<Rightarrow>
      case task_step sc t1 s1 of (t2, s2) \<Rightarrow>
        case task_step sc t2 s2 of (t3, s3) \<Rightarrow> task_step sc t3 s3)
   = (T_Exit (fst (createVM sc d tg s)), snd (createVM sc d tg s))"
  by (auto simp: createVM_def Let_def split: prod.splits option.splits DeployResult.splits)

lemma map_filter_mset:
  "mset xs = mset ys \<Longrightarrow> mset (List.map_filter f xs) = mset (List.map_filter f ys)"
proof -
  assume a: "mset xs = mset ys"
  have "mset (List.map_filter f zs) = image_mset (the \<circ> f) (filter_mset (\<lambda>x. f x \<noteq> None) (mset zs))" for zs
    by (simp add: List.map_filter_def mset_filter [symmetric] del: mset_filter)
  with a show ?thesis by simp
qed

lemma map_filter_Nil: "List.map_filter (\<lambda>x. x) xs = [] \<longleftrightarrow> (\<forall>x\<in>set xs. x = None)"
  by (induction xs) (auto simp: List.map_filter_def)

lemma map_filter_outcome: "List.map_filter (\<lambda>x. x) (map outcome ts) = List.map_filter outcome ts"
  by (simp add: List.map_filter_def filter_map comp_def)

lemma scaleUp_None: "scaleUp sc sched vmp cnt s = None \<longleftrightarrow> \<not> makechan_ok cnt"
  by (simp add: scaleUp_def Let_def)

lemma scaleUp_Some:
  "scaleUp sc sched vmp cnt s = Some (r, s') \<longleftrightarrow>
     makechan_ok cnt
     \<and> r = (if List.map_filter (\<lambda>err. err) (errCh (scaleUp_pool sc sched vmp (nat cnt) s)) = [] then None
            else Some (''error creating VMs: '' @
                  strings_Join (List.map_filter (\<lambda>err. err) (errCh (scaleUp_pool sc sched vmp (nat cnt) s))) '' - ''))
     \<and> s' = psys (scaleUp_pool sc sched vmp (nat cnt) s)"
  by (auto simp: scaleUp_def Let_def)

lemma scaleUp_pool_all_exited: "\<forall>t\<in>set (tasks (scaleUp_pool sc sched vmp n s)). exited t"
  using scaleUp_pool_exited [of n sc sched vmp s] pool_invD(1) [OF scaleUp_pool_inv [of n s sc sched vmp]]
  by (simp add: all_set_conv_all_nth)

lemma scaleUp_deploy_count:
  "length (filter is_DeployCall (calls (psys (scaleUp_pool sc sched vmp n s))))
     = length (filter is_DeployCall (calls s)) + n"
proof -
  let ?p = "scaleUp_pool sc sched vmp n s"
  note inv = scaleUp_pool_inv [of n s sc sched vmp]
  have "\<forall>t\<in>set (tasks ?p). started t"
    using scaleUp_pool_all_exited [of sc sched vmp n s] by (metis exited.elims(2) started.simps(6))
  then have fs: "filter_mset started (mset (tasks ?p)) = mset (tasks ?p)"
    by (simp add: filter_mset_eq_conv)
  have "size (filter_mset is_DeployCall (mset (calls (psys ?p))))
          = size (filter_mset is_DeployCall (mset (calls s))) + n"
    using pool_invD(5) [OF inv] pool_invD(1) [OF inv] by (simp add: fs)
  then show ?thesis
    by (simp only: mset_filter [symmetric] size_mset)
qed

lemma scaleUp_pool_units:
  assumes i: "i < n"
  shows "\<exists>name. fst (spawn vmp n s) ! i
               = T_Deploy ((createDeployVMParams vmp)\<lparr>dp_name := name\<rparr>) (createVMTagsParams vmp)
          \<and> createVM (replayScaler (expunge sc)) ((createDeployVMParams vmp)\<lparr>dp_name := name\<rparr>)
               (createVMTagsParams vmp) (replaySys (answers (scaleUp_pool sc sched vmp n s) ! i))
             = (outcome (tasks (scaleUp_pool sc sched vmp n s) ! i),
                (replaySys [])\<lparr>calls := hist (scaleUp_pool sc sched vmp n s) ! i\<rparr>)"
proof -
  let ?p = "scaleUp_pool sc sched vmp n s"
  obtain ts s0 where sp: "spawn vmp n s = (ts, s0)" by (cases "spawn vmp n s")
  from spawn_props [OF sp] have len: "length ts = n" by simp
  with i have "ts ! i \<in> set ts" by simp
  with spawn_shape [OF sp] obtain name where
    t0: "ts ! i = T_Deploy ((createDeployVMParams vmp)\<lparr>dp_name := name\<rparr>) (createVMTagsParams vmp)"
    by blast
  note a = scaleUp_pool_replay [of sc vmp n s sched, unfolded replay_inv_def sp fst_conv]
  from a have "\<forall>j<length ts. \<exists>d tg. ts ! j = T_Deploy d tg
             \<and> unit_ok (expunge sc) d tg (tasks ?p ! j) (hist ?p ! j) (answers ?p ! j)"
    by (elim conjE)
  with i len t0 have u: "unit_ok (expunge sc) ((createDeployVMParams vmp)\<lparr>dp_name := name\<rparr>)
      (createVMTagsParams vmp) (tasks ?p ! i) (hist ?p ! i) (answers ?p ! i)"
    by auto
  from scaleUp_pool_exited [of n sc sched vmp s] i have "exited (tasks ?p ! i)" by simp
  then obtain r where r: "tasks ?p ! i = T_Exit r" by (cases "tasks ?p ! i") simp_all
  from u have "createVM (replayScaler (expunge sc)) ((createDeployVMParams vmp)\<lparr>dp_name := name\<rparr>)
               (createVMTagsParams vmp) (replaySys (answers ?p ! i))
             = (outcome (tasks ?p ! i), (replaySys [])\<lparr>calls := hist ?p ! i\<rparr>)"
    unfolding r by simp
  with t0 sp show ?thesis by auto
qed

lemma createVM_replay_None:
  assumes "createVM (replayScaler x) d tg (replaySys a) = (r, (replaySys [])\<lparr>calls := h\<rparr>)"
  shows "r = None \<longleftrightarrow> (\<exists>v. a = [DeployAnswer (Deployed v), ErrAnswer None])"
  using assms
  by (auto simp: createVM_def destroyVM_def invoke_def Let_def replayScaler_def replayClient_def
                 replaySys_def
           split: list.splits answer.splits DeployResult.splits option.splits if_splits prod.splits)

lemma single_foldl:
  "length (tasks p) = 1 \<Longrightarrow>
     foldl (sched_step sc) p sched = ((\<lambda>q. sched_step sc q 0) ^^ length (filter (\<lambda>i. i = 0) sched)) p"
proof (induction sched arbitrary: p)
  case Nil
  then show ?case by simp
next
  case (Cons i sched)
  show ?case
  proof (cases "i = 0")
    case True
    from Cons.prems have "length (tasks (sched_step sc p 0)) = 1" by simp
    from Cons.IH [OF this] True funpow_swap1 [of "\<lambda>q. sched_step sc q 0" _ p]
    show ?thesis by simp
  next
    case False
    with Cons.prems have "sched_step sc p i = p" by (simp add: sched_step_out)
    with Cons.IH [OF Cons.prems] False show ?thesis by simp
  qed
qed

lemma single_step:
  assumes "tasks p = [t]" and "psys p = s" and "errCh p = (if exited t then [outcome t] else [])"
    and "task_step sc t s = (t', s')"
  shows "tasks (sched_step sc p 0) = [t'] \<and> psys (sched_step sc p 0) = s'
       \<and> errCh (sched_step sc p 0) = (if exited t' then [outcome t'] else [])"
  using assms
  by (cases t)
     (auto simp: sched_step_def invoke_def destroyVM_def Let_def
           split: prod.splits option.splits DeployResult.splits if_splits)

lemma single_fix:
  "tasks p = [T_Exit r] \<Longrightarrow> ((\<lambda>q. sched_step sc q 0) ^^ k) p = p"
  by (induction k) (simp_all add: sched_step_def)

lemma single_four:
  assumes p: "tasks p = [T_Deploy d tg]" "psys p = s0" "errCh p = []"
  shows "tasks (((\<lambda>q. sched_step sc q 0) ^^ 4) p) = [T_Exit (fst (createVM sc d tg s0))]
       \<and> psys (((\<lambda>q. sched_step sc q 0) ^^ 4) p) = snd (createVM sc d tg s0)
       \<and> errCh (((\<lambda>q. sched_step sc q 0) ^^ 4) p) = [fst (createVM sc d tg s0)]"
proof -
  let ?F = "\<lambda>q. sched_step sc q 0"
  obtain t1 s1 where a1: "task_step sc (T_Deploy d tg) s0 = (t1, s1)"
    by (cases "task_step sc (T_Deploy d tg) s0")
  obtain t2 s2 where a2: "task_step sc t1 s1 = (t2, s2)" by (cases "task_step sc t1 s1")
  obtain t3 s3 where a3: "task_step sc t2 s2 = (t3, s3)" by (cases "task_step sc t2 s2")
  obtain t4 s4 where a4: "task_step sc t3 s3 = (t4, s4)" by (cases "task_step sc t3 s3")
  from createVM_task [of sc d tg s0]
  have e: "t4 = T_Exit (fst (createVM sc d tg s0))" "s4 = snd (createVM sc d tg s0)"
    by (simp_all only: a1 a2 a3 a4 prod.case prod.inject)
  have i0: "errCh p = (if exited (T_Deploy d tg) then [outcome (T_Deploy d tg)] else [])"
    using p(3) by simp
  note b1 = single_step [OF p(1) p(2) i0 a1]
  note b2 = single_step [OF b1 [THEN conjunct1] b1 [THEN conjunct2, THEN conjunct1]
                            b1 [THEN conjunct2, THEN conjunct2] a2]
  note b3 = single_step [OF b2 [THEN conjunct1] b2 [THEN conjunct2, THEN conjunct1]
                            b2 [THEN conjunct2, THEN conjunct2] a3]
  note b4 = single_step [OF b3 [THEN conjunct1] b3 [THEN conjunct2, THEN conjunct1]
                            b3 [THEN conjunct2, THEN conjunct2] a4]
  have f4: "(?F ^^ 4) p = ?F (?F (?F (?F p)))"
    by (simp add: numeral_eq_Suc)
  from b4 show ?thesis
    unfolding f4 e by simp
qed

lemma scaleUp_single:
  "scaleUp sc sched vmp 1 s =
     (case randomName (Id_vmProfile vmp) s of
        (name, s0) \<Rightarrow>
          (case createVM sc ((createDeployVMParams vmp)\<lparr>dp_name := name\<rparr>) (createVMTagsParams vmp) s0 of
             (None, s1) \<Rightarrow> Some (None, s1)
           | (Some e, s1) \<Rightarrow> Some (Some (''error creating VMs: '' @ e), s1)))"
proof -
  obtain name s0 where rn: "randomName (Id_vmProfile vmp) s = (name, s0)"
    by (cases "randomName (Id_vmProfile vmp) s")
  let ?d = "(createDeployVMParams vmp)\<lparr>dp_name := name\<rparr>"
  let ?tg = "createVMTagsParams vmp"
  let ?F = "\<lambda>q. sched_step sc q 0"
  obtain r s1 where cv: "createVM sc ?d ?tg s0 = (r, s1)" by (cases "createVM sc ?d ?tg s0")
  let ?p0 = "\<lparr>tasks = [T_Deploy ?d ?tg], errCh = [], hist = replicate 1 [],
              answers = replicate 1 [], psys = s0\<rparr>"
  let ?k = "length (filter (\<lambda>i. i = 0) sched)"
  have four: "tasks ((?F ^^ 4) ?p0) = [T_Exit r] \<and> psys ((?F ^^ 4) ?p0) = s1 \<and> errCh ((?F ^^ 4) ?p0) = [r]"
    using single_four [of ?p0 ?d ?tg s0 sc] by (simp add: cv)
  have sp: "spawn vmp 1 s = ([T_Deploy ?d ?tg], s0)" using rn by (simp add: Let_def)
  have c: "length (filter (\<lambda>i. i = 0) (sched @ completion 1)) = ?k + 4"
    by (simp add: completion_def)
  have "scaleUp_pool sc sched vmp 1 s = (?F ^^ (?k + 4)) ?p0"
    unfolding scaleUp_pool_def sp prod.case
    using single_foldl [of ?p0 sc "sched @ completion 1"] unfolding c by simp
  also have "\<dots> = (?F ^^ ?k) ((?F ^^ 4) ?p0)"
    by (simp only: funpow_add o_apply)
  also have "\<dots> = (?F ^^ 4) ?p0"
    using four by (intro single_fix) blast
  finally have pool: "scaleUp_pool sc sched vmp 1 s = (?F ^^ 4) ?p0" .
  have n1: "nat 1 = 1" by simp
  have pe: "errCh (scaleUp_pool sc sched vmp (nat 1) s) = [r]"
    and ps: "psys (scaleUp_pool sc sched vmp (nat 1) s) = s1"
    unfolding n1 pool using four by blast+
  have ok: "makechan_ok 1" by (simp add: makechan_ok_def)
  have "scaleUp sc sched vmp 1 s =
          Some (case r of None \<Rightarrow> None | Some e \<Rightarrow> Some (''error creating VMs: '' @ e), s1)"
    apply (simp only: scaleUp_def Let_def ok pe ps not_True_eq_False if_False)
    apply (cases r)
     apply (simp_all add: List.map_filter_def)
    done
  then show ?thesis
    unfolding rn prod.case cv by (cases r) simp_all
qed

text \<open>
  Claim C4, as the code has it. \<open>scaleUp\<close> panics, and returns nothing, exactly when the
  channel cannot be made for the count (a negative count, or one above \<open>2 ^ 44 - 6\<close>).
  With the count 1 it is \<open>createVM\<close> on the remote API: nil when \<open>createVM\<close> returns nil,
  "error creating VMs: " followed by its message otherwise. When it returns, under any
  schedule of the goroutines: as many units as the count were started and all have
  finished; exactly that many deploy calls were added to the log; the channel holds that
  many results, those of the units (as a multiset: the order is the scheduler's). Every
  unit is a run of \<open>createVM\<close>: given the request of the profile with the name drawn for
  the unit, and answered what the remote API answered this unit, \<open>createVM\<close> makes exactly
  the calls of the unit, uses up exactly its answers and returns its result; the result
  of a unit is nil exactly when its deploy call was answered with an instance and its tag
  call with nil. The result
  of \<open>scaleUp\<close> is nil exactly when the result of every unit is nil; otherwise it is
  "error creating VMs: " followed by the messages read from the channel joined by " - ",
  and these messages are the errors of the failed units, each once. A unit that ended
  without error issued no destroy call, and the calls of the batch are those of the
  units: a failure of one unit destroys nothing of another.
\<close>

theorem scaleUp_batch:
  "(scaleUp sc sched vmp cnt s = None \<longleftrightarrow> \<not> makechan_ok cnt)
 \<and> (cnt = 1 \<longrightarrow>
      scaleUp sc sched vmp cnt s =
        (case randomName (Id_vmProfile vmp) s of
           (name, s0) \<Rightarrow>
             (case createVM sc ((createDeployVMParams vmp)\<lparr>dp_name := name\<rparr>) (createVMTagsParams vmp) s0 of
                (None, s1) \<Rightarrow> Some (None, s1)
              | (Some e, s1) \<Rightarrow> Some (Some (''error creating VMs: '' @ e), s1))))
 \<and> (\<forall>r s'. scaleUp sc sched vmp cnt s = Some (r, s') \<longrightarrow>
     length (tasks (scaleUp_pool sc sched vmp (nat cnt) s)) = nat cnt
   \<and> list_all exited (tasks (scaleUp_pool sc sched vmp (nat cnt) s))
   \<and> length (filter is_DeployCall (calls s')) = length (filter is_DeployCall (calls s)) + nat cnt
   \<and> length (errCh (scaleUp_pool sc sched vmp (nat cnt) s)) = nat cnt
   \<and> mset (errCh (scaleUp_pool sc sched vmp (nat cnt) s))
        = mset (map outcome (tasks (scaleUp_pool sc sched vmp (nat cnt) s)))
   \<and> (\<forall>i<nat cnt. \<exists>name.
          fst (spawn vmp (nat cnt) s) ! i
            = T_Deploy ((createDeployVMParams vmp)\<lparr>dp_name := name\<rparr>) (createVMTagsParams vmp)
        \<and> createVM (replayScaler (expunge sc)) ((createDeployVMParams vmp)\<lparr>dp_name := name\<rparr>)
             (createVMTagsParams vmp) (replaySys (answers (scaleUp_pool sc sched vmp (nat cnt) s) ! i))
           = (outcome (tasks (scaleUp_pool sc sched vmp (nat cnt) s) ! i),
              (replaySys [])\<lparr>calls := hist (scaleUp_pool sc sched vmp (nat cnt) s) ! i\<rparr>))
   \<and> (\<forall>i<nat cnt.
          outcome (tasks (scaleUp_pool sc sched vmp (nat cnt) s) ! i) = None
            \<longleftrightarrow> (\<exists>v. answers (scaleUp_pool sc sched vmp (nat cnt) s) ! i
                        = [DeployAnswer (Deployed v), ErrAnswer None]))
   \<and> (r = None \<longleftrightarrow> (\<forall>i<nat cnt. outcome (tasks (scaleUp_pool sc sched vmp (nat cnt) s) ! i) = None))
   \<and> r = (if List.map_filter (\<lambda>err. err) (errCh (scaleUp_pool sc sched vmp (nat cnt) s)) = [] then None
          else Some (''error creating VMs: '' @
                 strings_Join (List.map_filter (\<lambda>err. err) (errCh (scaleUp_pool sc sched vmp (nat cnt) s))) '' - ''))
   \<and> mset (List.map_filter (\<lambda>err. err) (errCh (scaleUp_pool sc sched vmp (nat cnt) s)))
        = mset (List.map_filter outcome (tasks (scaleUp_pool sc sched vmp (nat cnt) s)))
   \<and> (\<forall>i<nat cnt. outcome (tasks (scaleUp_pool sc sched vmp (nat cnt) s) ! i) = None
          \<longrightarrow> \<not> list_ex is_DestroyCall (hist (scaleUp_pool sc sched vmp (nat cnt) s) ! i))
   \<and> mset (calls s') = mset (calls s) + mset (concat (hist (scaleUp_pool sc sched vmp (nat cnt) s))))"
proof (intro conjI allI impI)
  show "scaleUp sc sched vmp cnt s = None \<longleftrightarrow> \<not> makechan_ok cnt" by (rule scaleUp_None)
next
  assume "cnt = 1"
  then show "scaleUp sc sched vmp cnt s =
        (case randomName (Id_vmProfile vmp) s of
           (name, s0) \<Rightarrow>
             (case createVM sc ((createDeployVMParams vmp)\<lparr>dp_name := name\<rparr>) (createVMTagsParams vmp) s0 of
                (None, s1) \<Rightarrow> Some (None, s1)
              | (Some e, s1) \<Rightarrow> Some (Some (''error creating VMs: '' @ e), s1)))"
    by (simp only: scaleUp_single)
next
  fix r s'
  assume ret: "scaleUp sc sched vmp cnt s = Some (r, s')"
  let ?n = "nat cnt"
  let ?p = "scaleUp_pool sc sched vmp ?n s"
  note inv = scaleUp_pool_inv [of ?n s sc sched vmp]
  note len = pool_invD(1,2) [OF inv]
  note units = pool_invD(3) [OF inv]
  note log = pool_invD(4) [OF inv]
  note ch = pool_invD(6) [OF inv]
  note ex = scaleUp_pool_exited [of ?n sc sched vmp s]
  from ret have sys: "s' = psys ?p" by (simp only: scaleUp_Some)
  from ret have res: "r =
      (if List.map_filter (\<lambda>err. err) (errCh ?p) = [] then None
       else Some (''error creating VMs: '' @ strings_Join (List.map_filter (\<lambda>err. err) (errCh ?p)) '' - ''))"
    by (simp only: scaleUp_Some)
  have all_ex: "\<forall>t\<in>set (tasks ?p). exited t"
    using ex len by (simp add: all_set_conv_all_nth)
  from all_ex have fe: "filter_mset exited (mset (tasks ?p)) = mset (tasks ?p)"
    by (simp add: filter_mset_eq_conv)
  show c1: "length (tasks ?p) = ?n" by (rule len)
  show "list_all exited (tasks ?p)" using all_ex by (simp add: list_all_iff)
  show "length (filter is_DeployCall (calls s')) = length (filter is_DeployCall (calls s)) + ?n"
    unfolding sys by (rule scaleUp_deploy_count)
  show c5: "mset (errCh ?p) = mset (map outcome (tasks ?p))"
    using ch by (simp add: fe)
  then have "size (mset (errCh ?p)) = size (mset (map outcome (tasks ?p)))" by simp
  then show "length (errCh ?p) = ?n" using len by simp
  from c5 have seteq: "set (errCh ?p) = set (map outcome (tasks ?p))"
    by (rule mset_eq_setD)
  show "\<exists>name. fst (spawn vmp ?n s) ! i
               = T_Deploy ((createDeployVMParams vmp)\<lparr>dp_name := name\<rparr>) (createVMTagsParams vmp)
          \<and> createVM (replayScaler (expunge sc)) ((createDeployVMParams vmp)\<lparr>dp_name := name\<rparr>)
               (createVMTagsParams vmp) (replaySys (answers ?p ! i))
             = (outcome (tasks ?p ! i), (replaySys [])\<lparr>calls := hist ?p ! i\<rparr>)"
    if "i < ?n" for i
    using that by (rule scaleUp_pool_units)
  show "outcome (tasks ?p ! i) = None
            \<longleftrightarrow> (\<exists>v. answers ?p ! i = [DeployAnswer (Deployed v), ErrAnswer None])"
    if "i < ?n" for i
  proof -
    from scaleUp_pool_units [OF that, of vmp s sc sched] obtain name where
      "createVM (replayScaler (expunge sc)) ((createDeployVMParams vmp)\<lparr>dp_name := name\<rparr>)
               (createVMTagsParams vmp) (replaySys (answers ?p ! i))
             = (outcome (tasks ?p ! i), (replaySys [])\<lparr>calls := hist ?p ! i\<rparr>)"
      by blast
    then show ?thesis by (rule createVM_replay_None)
  qed
  show "r = None \<longleftrightarrow> (\<forall>i<?n. outcome (tasks ?p ! i) = None)"
  proof -
    have "r = None \<longleftrightarrow> (\<forall>x\<in>set (errCh ?p). x = None)"
      by (simp add: res map_filter_Nil)
    also have "\<dots> \<longleftrightarrow> (\<forall>t\<in>set (tasks ?p). outcome t = None)"
      by (simp add: seteq)
    also have "\<dots> \<longleftrightarrow> (\<forall>i<?n. outcome (tasks ?p ! i) = None)"
      using len by (simp add: all_set_conv_all_nth)
    finally show ?thesis .
  qed
  show "r = (if List.map_filter (\<lambda>err. err) (errCh ?p) = [] then None
       else Some (''error creating VMs: '' @ strings_Join (List.map_filter (\<lambda>err. err) (errCh ?p)) '' - ''))"
    by (rule res)
  show "mset (List.map_filter (\<lambda>err. err) (errCh ?p)) = mset (List.map_filter outcome (tasks ?p))"
    using map_filter_mset [OF c5, of "\<lambda>err. err"] by (simp add: map_filter_outcome)
  show "\<not> list_ex is_DestroyCall (hist ?p ! i)"
    if i: "i < ?n" and o: "outcome (tasks ?p ! i) = None" for i
  proof -
    from ex i have "exited (tasks ?p ! i)" by simp
    with o have "\<not> failed (tasks ?p ! i)" by (cases "tasks ?p ! i") simp_all
    with units i show "\<not> list_ex is_DestroyCall (hist ?p ! i)"
      by (auto simp: unit_inv_def)
  qed
  show "mset (calls s') = mset (calls s) + mset (concat (hist ?p))"
    unfolding sys by (rule log)
qed

lemma refreshNodeGroupVms_deploys:
  "length (filter is_DeployCall (calls (snd (snd (refreshNodeGroupVms m g s)))))
     = length (filter is_DeployCall (calls s))"
  by (auto simp: refreshNodeGroupVms_def Let_def invoke_def split: prod.splits sum.splits)

lemma manager_scaleUp_None:
  "manager_scaleUp m sched g cnt s = None \<longleftrightarrow> \<not> makechan_ok cnt"
  using scaleUp_None [of "scaler m" sched "vmProfile g" cnt s]
  by (auto simp: manager_scaleUp_def split: option.splits prod.splits)

lemma manager_scaleUp_deploys:
  assumes "manager_scaleUp m sched g cnt s = Some (e, g', s')"
  shows "length (filter is_DeployCall (calls s')) = length (filter is_DeployCall (calls s)) + nat cnt"
proof -
  from assms obtain r s1 where su: "scaleUp (scaler m) sched (vmProfile g) cnt s = Some (r, s1)"
    by (auto simp: manager_scaleUp_def split: option.splits)
  then have s1: "s1 = psys (scaleUp_pool (scaler m) sched (vmProfile g) (nat cnt) s)"
    by (simp only: scaleUp_Some)
  have d: "length (filter is_DeployCall (calls s1)) = length (filter is_DeployCall (calls s)) + nat cnt"
    unfolding s1 by (rule scaleUp_deploy_count)
  show ?thesis
  proof (cases r)
    case None
    with assms su have "s' = snd (snd (refreshNodeGroupVms m g s1))"
      by (simp add: manager_scaleUp_def)
    with d refreshNodeGroupVms_deploys [of m g s1] show ?thesis by simp
  next
    case (Some err)
    with assms su d show ?thesis by (simp add: manager_scaleUp_def)
  qed
qed

lemma TargetSize_below:
  "int (length (vms g)) < MinSize g \<Longrightarrow>
     TargetSize m sched g s =
       (case manager_scaleUp m sched g (MinSize g - int (length (vms g))) s of
          None \<Rightarrow> None
        | Some (err, g', s') \<Rightarrow> Some ((int (length (vms g')), None), g', s'))"
  by (simp add: TargetSize_def Let_def)

lemma TargetSize_None:
  "TargetSize m sched g s = None \<longleftrightarrow>
     int (length (vms g)) < MinSize g \<and> \<not> makechan_ok (MinSize g - int (length (vms g)))"
  using manager_scaleUp_None [of m sched g "MinSize g - int (length (vms g))" s]
  by (auto simp: TargetSize_def Let_def split: option.splits)

text \<open>
  Claim C5, as the code has it. A group at or above its minimum: \<open>TargetSize\<close> returns the
  number of bound instances and calls nothing. A group below its minimum by a number the
  channel of \<open>scaleUp\<close> cannot be made for: \<open>TargetSize\<close> panics. A group below its minimum
  otherwise: \<open>TargetSize\<close> returns, with a nil error, after exactly
  \<open>MinSize - length vms\<close> deploy calls, and the size returned is the number of instances
  bound to the group as it is returned. When the scale-up returns an error that is the
  old number and the group is unchanged, whatever the units of the batch created; when
  the scale-up succeeds and the instances are listed, it is the number of instances
  listed; when that listing fails it is the old number.
\<close>

theorem TargetSize_self_heal:
  "(MinSize g \<le> int (length (vms g)) \<longrightarrow>
      TargetSize m sched g s = Some ((int (length (vms g)), None), g, s))
 \<and> (int (length (vms g)) < MinSize g \<and> \<not> makechan_ok (MinSize g - int (length (vms g))) \<longrightarrow>
      TargetSize m sched g s = None)
 \<and> (int (length (vms g)) < MinSize g \<and> makechan_ok (MinSize g - int (length (vms g))) \<longrightarrow>
      (\<exists>g' s'. TargetSize m sched g s = Some ((int (length (vms g')), None), g', s')
         \<and> length (filter is_DeployCall (calls s'))
             = length (filter is_DeployCall (calls s)) + nat (MinSize g - int (length (vms g))))
    \<and> (\<forall>e s1. scaleUp (scaler m) sched (vmProfile g) (MinSize g - int (length (vms g))) s = Some (Some e, s1)
          \<longrightarrow> TargetSize m sched g s = Some ((int (length (vms g)), None), g, s1))
    \<and> (\<forall>s1 vs w2.
          scaleUp (scaler m) sched (vmProfile g) (MinSize g - int (length (vms g))) s = Some (None, s1)
          \<and> ListVirtualMachines (m_client m)
               \<lparr>lv_asp = asp (vmProfile g), lv_tags = [nodeGroupVMTag \<mapsto> Id_csNodeGroup g]\<rparr> (world s1)
              = (Inr vs, w2)
          \<longrightarrow> (\<exists>g' s'. TargetSize m sched g s = Some ((int (length vs), None), g', s') \<and> vms g' = vs))
    \<and> (\<forall>s1 err w2.
          scaleUp (scaler m) sched (vmProfile g) (MinSize g - int (length (vms g))) s = Some (None, s1)
          \<and> ListVirtualMachines (m_client m)
               \<lparr>lv_asp = asp (vmProfile g), lv_tags = [nodeGroupVMTag \<mapsto> Id_csNodeGroup g]\<rparr> (world s1)
              = (Inl err, w2)
          \<longrightarrow> TargetSize m sched g s =
                Some ((int (length (vms g)), None), g,
                      s1\<lparr>world := w2,
                         calls := calls s1 @
                           [ListVirtualMachinesCall
                              \<lparr>lv_asp = asp (vmProfile g),
                               lv_tags = [nodeGroupVMTag \<mapsto> Id_csNodeGroup g]\<rparr>]\<rparr>)))"
proof (intro conjI impI allI)
  assume "MinSize g \<le> int (length (vms g))"
  then show "TargetSize m sched g s = Some ((int (length (vms g)), None), g, s)"
    by (simp add: TargetSize_def Let_def)
next
  assume "int (length (vms g)) < MinSize g \<and> \<not> makechan_ok (MinSize g - int (length (vms g)))"
  then show "TargetSize m sched g s = None" by (simp add: TargetSize_None)
next
  let ?c = "MinSize g - int (length (vms g))"
  assume a: "int (length (vms g)) < MinSize g \<and> makechan_ok ?c"
  then have lt: "int (length (vms g)) < MinSize g" and ok: "makechan_ok ?c" by simp_all
  note T = TargetSize_below [OF lt, of m sched s]
  from ok manager_scaleUp_None [of m sched g ?c s]
  obtain e g' s' where ms: "manager_scaleUp m sched g ?c s = Some (e, g', s')"
    by (cases "manager_scaleUp m sched g ?c s") auto
  from manager_scaleUp_deploys [OF ms] ms
  show "\<exists>g' s'. TargetSize m sched g s = Some ((int (length (vms g')), None), g', s')
         \<and> length (filter is_DeployCall (calls s'))
             = length (filter is_DeployCall (calls s)) + nat ?c"
    by (simp add: T)
next
  let ?c = "MinSize g - int (length (vms g))"
  fix e s1
  assume a: "int (length (vms g)) < MinSize g \<and> makechan_ok ?c"
    and su: "scaleUp (scaler m) sched (vmProfile g) ?c s = Some (Some e, s1)"
  from a have lt: "int (length (vms g)) < MinSize g" by simp
  show "TargetSize m sched g s = Some ((int (length (vms g)), None), g, s1)"
    by (simp add: TargetSize_below [OF lt] manager_scaleUp_def su)
next
  let ?c = "MinSize g - int (length (vms g))"
  fix s1 vs w2
  assume a: "int (length (vms g)) < MinSize g \<and> makechan_ok ?c"
    and su: "scaleUp (scaler m) sched (vmProfile g) ?c s = Some (None, s1)
          \<and> ListVirtualMachines (m_client m)
               \<lparr>lv_asp = asp (vmProfile g), lv_tags = [nodeGroupVMTag \<mapsto> Id_csNodeGroup g]\<rparr> (world s1)
              = (Inr vs, w2)"
  from a have lt: "int (length (vms g)) < MinSize g" by simp
  from su show "\<exists>g' s'. TargetSize m sched g s = Some ((int (length vs), None), g', s') \<and> vms g' = vs"
    by (auto simp: TargetSize_below [OF lt] manager_scaleUp_def refreshNodeGroupVms_def Let_def invoke_def
             split: prod.splits sum.splits)
next
  let ?c = "MinSize g - int (length (vms g))"
  fix s1 err w2
  assume a: "int (length (vms g)) < MinSize g \<and> makechan_ok ?c"
    and su: "scaleUp (scaler m) sched (vmProfile g) ?c s = Some (None, s1)
          \<and> ListVirtualMachines (m_client m)
               \<lparr>lv_asp = asp (vmProfile g), lv_tags = [nodeGroupVMTag \<mapsto> Id_csNodeGroup g]\<rparr> (world s1)
              = (Inl err, w2)"
  from a have lt: "int (length (vms g)) < MinSize g" by simp
  from su show "TargetSize m sched g s =
                Some ((int (length (vms g)), None), g,
                      s1\<lparr>world := w2,
                         calls := calls s1 @
                           [ListVirtualMachinesCall
                              \<lparr>lv_asp = asp (vmProfile g),
                               lv_tags = [nodeGroupVMTag \<mapsto> Id_csNodeGroup g]\<rparr>]\<rparr>)"
    by (auto simp: TargetSize_below [OF lt] manager_scaleUp_def refreshNodeGroupVms_def Let_def invoke_def
             split: prod.splits sum.splits)
qed

text \<open>
  Claim C10, as the code has it. Whenever \<open>TargetSize\<close> returns, the error it returns is
  nil, also when the scale-up it started failed. It does not return (it panics) exactly
  when the group is below its minimum by a number the channel of \<open>scaleUp\<close> cannot be
  made for.
\<close>

theorem TargetSize_error_nil:
  "(\<forall>sz e g' s'. TargetSize m sched g s = Some ((sz, e), g', s') \<longrightarrow> e = None)
 \<and> (TargetSize m sched g s = None \<longleftrightarrow>
      int (length (vms g)) < MinSize g \<and> \<not> makechan_ok (MinSize g - int (length (vms g))))"
proof (intro conjI allI impI)
  fix sz e g' s'
  assume "TargetSize m sched g s = Some ((sz, e), g', s')"
  then show "e = None"
    by (auto simp: TargetSize_def Let_def split: if_splits option.splits prod.splits)
next
  show "TargetSize m sched g s = None \<longleftrightarrow>
      int (length (vms g)) < MinSize g \<and> \<not> makechan_ok (MinSize g - int (length (vms g)))"
    by (rule TargetSize_None)
qed

lemma digitVal_le: "isDigit c \<Longrightarrow> digitVal c \<le> 9"
  by (auto simp: isDigit_def digitVal_def)

lemma ParseUint_loop_syntax:
  "snd (ParseUint_loop n cs) = Some ErrSyntax \<Longrightarrow> fst (ParseUint_loop n cs) = 0"
  by (induction cs arbitrary: n) (auto simp: Let_def split: if_splits)

lemma ParseUint_loop_range:
  "snd (ParseUint_loop n cs) = Some ErrRange \<Longrightarrow> fst (ParseUint_loop n cs) = 2 ^ 64 - 1"
  by (induction cs arbitrary: n) (auto simp: Let_def split: if_splits)

lemma ParseUint_loop_short:
  "n < 10 ^ k \<Longrightarrow> k + length cs \<le> 19 \<Longrightarrow> \<not> list_all isDigit cs
     \<Longrightarrow> ParseUint_loop n cs = (0, Some ErrSyntax)"
proof (induction cs arbitrary: n k)
  case Nil
  then show ?case by simp
next
  case (Cons c cs)
  show ?case
  proof (cases "isDigit c")
    case False
    then show ?thesis by simp
  next
    case True
    from Cons.prems(2) have k: "k \<le> 18" by simp
    then have "(10::nat) ^ k \<le> 10 ^ 18" by (intro power_increasing) simp_all
    with Cons.prems(1) have n: "n < 10 ^ 18" by simp
    have "n * 10 + digitVal c < 10 ^ Suc k"
      using Cons.prems(1) digitVal_le [OF True] by simp
    moreover from k have "(10::nat) ^ Suc k \<le> 10 ^ 19" by (intro power_increasing) simp_all
    ultimately have n1: "n * 10 + digitVal c < 10 ^ Suc k" "n * 10 + digitVal c < 10 ^ 19"
      by simp_all
    from Cons.prems(3) True have rest: "\<not> list_all isDigit cs" by simp
    from Cons.prems(2) have "Suc k + length cs \<le> 19" by simp
    from Cons.IH [OF n1(1) this rest] True n n1(2) show ?thesis
      by (simp add: Let_def)
  qed
qed

lemma Atoi_syntax: "snd (Atoi v) = Some ErrSyntax \<Longrightarrow> fst (Atoi v) = 0"
  by (cases v) (auto simp: Atoi_def Let_def split: prod.splits option.splits NumError.splits if_splits)

lemma Atoi_range:
  "snd (Atoi v) = Some ErrRange \<Longrightarrow> fst (Atoi v) = 2 ^ 63 - 1 \<or> fst (Atoi v) = - (2 ^ 63)"
  by (cases v) (auto simp: Atoi_def Let_def split: prod.splits option.splits NumError.splits if_splits)

lemma Atoi_short_malformed:
  assumes "length v \<le> 19" and "\<not> isDecimal v"
  shows "Atoi v = (0, Some ErrSyntax)"
proof (cases v)
  case Nil
  then show ?thesis by (simp add: Atoi_def)
next
  case (Cons c cs)
  let ?body = "if c = CHR ''+'' \<or> c = CHR ''-'' then cs else c # cs"
  from assms(2) Cons have b: "?body = [] \<or> \<not> list_all isDigit ?body"
    by (simp add: isDecimal_def Let_def)
  from assms(1) Cons have l: "0 + length ?body \<le> 19" by simp
  have "ParseUint ?body = (0, Some ErrSyntax)"
  proof (cases "?body = []")
    case True
    then show ?thesis by (simp add: ParseUint_def)
  next
    case False
    with b have "\<not> list_all isDigit ?body" by blast
    from ParseUint_loop_short [of 0 0, OF _ l this] False show ?thesis
      by (simp add: ParseUint_def)
  qed
  with Cons show ?thesis by (simp add: Atoi_def Let_def)
qed

lemma Atoi_range_sign:
  "snd (Atoi v) = Some ErrRange \<Longrightarrow>
     fst (Atoi v) = (if take 1 v = ''-'' then - (2 ^ 63) else 2 ^ 63 - 1)"
  by (cases v) (auto simp: Atoi_def Let_def split: prod.splits option.splits NumError.splits if_splits)

lemma manager_scaleUp_metadata:
  "manager_scaleUp m sched g n s = Some (e, g', s') \<Longrightarrow>
     aspMetadata (vmProfile g') = aspMetadata (vmProfile g)"
  by (auto simp: manager_scaleUp_def split: prod.splits option.splits dest: refreshNodeGroupVms_metadata)

lemma TargetSize_props:
  "TargetSize m sched g s = Some ((cur, e), g', s') \<Longrightarrow>
     aspMetadata (vmProfile g') = aspMetadata (vmProfile g) \<and> 0 \<le> cur \<and> e = None"
  by (auto simp: TargetSize_def Let_def split: prod.splits if_splits option.splits
           dest: manager_scaleUp_metadata)

lemma int_add_small: "0 \<le> a + b \<Longrightarrow> a + b < 2 ^ 63 \<Longrightarrow> int_add a b = a + b"
  by (simp add: int_add_def)

lemma int_add_le: "int_add a b \<le> 2 ^ 63 - 1"
proof -
  have "(a + b + 2 ^ 63) mod 2 ^ 64 < (2 ^ 64 :: int)" by simp
  then show ?thesis by (simp add: int_add_def)
qed

text \<open>
  Claim C9, as the code has it. \<open>maxSize\<close> and \<open>minSize\<close> are 0 when the profile has no
  metadata, when the key is absent, and when \<open>strconv.Atoi\<close> reports a syntax error; a
  value of at most 19 bytes that is not an optional sign followed by decimal digits is
  always a syntax error. When \<open>Atoi\<close> reports a range error the error is dropped all the
  same and the saturated value is returned: the smallest \<open>int\<close> when the value starts
  with a minus sign, the largest otherwise. \<open>IncreaseSize\<close> by a positive delta panics
  when \<open>TargetSize\<close> does. When \<open>TargetSize\<close> returns the size \<open>c\<close> and \<open>c + delta\<close> does
  not overflow, a group whose \<open>MaxSize\<close> is 0 or less is refused with "size increase is
  too large. current: c desired: c+delta max: MaxSize", and nothing is scaled up. A group
  whose \<open>MaxSize\<close> is the largest \<open>int\<close> is never refused as too large: \<open>IncreaseSize\<close> goes
  on to the scale-up by \<open>delta\<close>.
\<close>

theorem maxSize_minSize_parse:
  "(aspMetadata p = None \<longrightarrow> maxSize p = 0 \<and> minSize p = 0)
 \<and> (\<forall>md. aspMetadata p = Some md \<and> md ''maxNodes'' = None \<longrightarrow> maxSize p = 0)
 \<and> (\<forall>md. aspMetadata p = Some md \<and> md ''minNodes'' = None \<longrightarrow> minSize p = 0)
 \<and> (\<forall>md. aspMetadata p = Some md \<and> snd (Atoi (map_get md ''maxNodes'')) = Some ErrSyntax
        \<longrightarrow> maxSize p = 0)
 \<and> (\<forall>md. aspMetadata p = Some md \<and> snd (Atoi (map_get md ''minNodes'')) = Some ErrSyntax
        \<longrightarrow> minSize p = 0)
 \<and> (\<forall>v. length v \<le> 19 \<and> \<not> isDecimal v \<longrightarrow> Atoi v = (0, Some ErrSyntax))
 \<and> (\<forall>md. aspMetadata p = Some md \<and> snd (Atoi (map_get md ''maxNodes'')) = Some ErrRange
        \<longrightarrow> maxSize p = (if take 1 (map_get md ''maxNodes'') = ''-'' then - (2 ^ 63) else 2 ^ 63 - 1))
 \<and> (\<forall>md. aspMetadata p = Some md \<and> snd (Atoi (map_get md ''minNodes'')) = Some ErrRange
        \<longrightarrow> minSize p = (if take 1 (map_get md ''minNodes'') = ''-'' then - (2 ^ 63) else 2 ^ 63 - 1))
 \<and> (0 < delta \<and> TargetSize m sched g s = None \<longrightarrow> IncreaseSize m sched sched' g delta s = None)
 \<and> (\<forall>cur e g1 s1.
        0 < delta \<and> MaxSize g \<le> 0 \<and> TargetSize m sched g s = Some ((cur, e), g1, s1) \<and> cur + delta < 2 ^ 63
        \<longrightarrow> IncreaseSize m sched sched' g delta s =
              Some (Some (''size increase is too large. current: '' @ fmt_int cur @
                          '' desired: '' @ fmt_int (cur + delta) @ '' max: '' @ fmt_int (MaxSize g)),
                    g1, s1))
 \<and> (\<forall>cur e g1 s1.
        0 < delta \<and> MaxSize g = 2 ^ 63 - 1 \<and> TargetSize m sched g s = Some ((cur, e), g1, s1)
        \<longrightarrow> IncreaseSize m sched sched' g delta s = manager_scaleUp m sched' g1 delta s1)"
proof (intro conjI allI impI)
  show "maxSize p = 0" if "aspMetadata p = None" using that by (simp add: maxSize_def)
  show "minSize p = 0" if "aspMetadata p = None" using that by (simp add: minSize_def)
  show "maxSize p = 0" if "aspMetadata p = Some md \<and> md ''maxNodes'' = None" for md
    using that by (simp add: maxSize_def map_get_def autoScaleProfileMetadataMax_def Atoi_def)
  show "minSize p = 0" if "aspMetadata p = Some md \<and> md ''minNodes'' = None" for md
    using that by (simp add: minSize_def map_get_def autoScaleProfileMetadataMin_def Atoi_def)
  show "maxSize p = 0"
    if "aspMetadata p = Some md \<and> snd (Atoi (map_get md ''maxNodes'')) = Some ErrSyntax" for md
    using that Atoi_syntax by (simp add: maxSize_def autoScaleProfileMetadataMax_def)
  show "minSize p = 0"
    if "aspMetadata p = Some md \<and> snd (Atoi (map_get md ''minNodes'')) = Some ErrSyntax" for md
    using that Atoi_syntax by (simp add: minSize_def autoScaleProfileMetadataMin_def)
  show "Atoi v = (0, Some ErrSyntax)" if "length v \<le> 19 \<and> \<not> isDecimal v" for v
    using that Atoi_short_malformed by blast
  show "maxSize p = (if take 1 (map_get md ''maxNodes'') = ''-'' then - (2 ^ 63) else 2 ^ 63 - 1)"
    if "aspMetadata p = Some md \<and> snd (Atoi (map_get md ''maxNodes'')) = Some ErrRange" for md
    using that Atoi_range_sign [of "map_get md ''maxNodes''"]
    by (simp add: maxSize_def autoScaleProfileMetadataMax_def)
  show "minSize p = (if take 1 (map_get md ''minNodes'') = ''-'' then - (2 ^ 63) else 2 ^ 63 - 1)"
    if "aspMetadata p = Some md \<and> snd (Atoi (map_get md ''minNodes'')) = Some ErrRange" for md
    using that Atoi_range_sign [of "map_get md ''minNodes''"]
    by (simp add: minSize_def autoScaleProfileMetadataMin_def)
  show "IncreaseSize m sched sched' g delta s = None"
    if "0 < delta \<and> TargetSize m sched g s = None"
    using that by (simp add: IncreaseSize_def)
  show "IncreaseSize m sched sched' g delta s =
              Some (Some (''size increase is too large. current: '' @ fmt_int cur @
                          '' desired: '' @ fmt_int (cur + delta) @ '' max: '' @ fmt_int (MaxSize g)),
                    g1, s1)"
    if a: "0 < delta \<and> MaxSize g \<le> 0 \<and> TargetSize m sched g s = Some ((cur, e), g1, s1)
           \<and> cur + delta < 2 ^ 63"
    for cur e g1 s1
  proof -
    from a TargetSize_props [of m sched g s cur e g1 s1]
    have md: "aspMetadata (vmProfile g1) = aspMetadata (vmProfile g)" and c: "0 \<le> cur" and e: "e = None"
      by simp_all
    from md have mx: "MaxSize g1 = MaxSize g" by (simp add: MaxSize_def maxSize_def)
    from a c have ia: "int_add cur delta = cur + delta" by (intro int_add_small) simp_all
    from a c e mx ia show ?thesis
      by (simp add: IncreaseSize_def Let_def errTooLarge_def)
  qed
  show "IncreaseSize m sched sched' g delta s = manager_scaleUp m sched' g1 delta s1"
    if a: "0 < delta \<and> MaxSize g = 2 ^ 63 - 1 \<and> TargetSize m sched g s = Some ((cur, e), g1, s1)"
    for cur e g1 s1
  proof -
    from a TargetSize_props [of m sched g s cur e g1 s1]
    have md: "aspMetadata (vmProfile g1) = aspMetadata (vmProfile g)" and e: "e = None"
      by simp_all
    from md a have mx: "MaxSize g1 = 2 ^ 63 - 1" by (simp add: MaxSize_def maxSize_def)
    from int_add_le [of cur delta] have "\<not> int_add cur delta > 2 ^ 63 - 1" by simp
    with a e mx show ?thesis
      by (simp add: IncreaseSize_def Let_def)
  qed
qed

lemma Id_ng1Profile: "Id_vmProfile ng1Profile = ''ng1''"
  by (simp add: Id_vmProfile_def ng1Profile_def profileOf_def map_get_def autoScaleProfileMetadataName_def)

lemma randomName_const:
  "rands s = (\<lambda>n. 0) \<Longrightarrow> randomName ''ng1'' s = (''ng1-0'', s)"
  by (simp add: randomName_def rand_Uint64_def)

lemma spawn2_const:
  assumes "rands s = (\<lambda>n. 0)"
  shows "spawn ng1Profile 2 s = ([T_Deploy (ng1Deploy ''ng1-0'') ng1Tags, T_Deploy (ng1Deploy ''ng1-0'') ng1Tags], s)"
  using assms
  by (simp add: numeral_2_eq_2 Id_ng1Profile randomName_const createDeployVMParams_def ng1Deploy_def ng1Tags_def)

lemma spawn1_const:
  assumes "rands s = (\<lambda>n. 0)"
  shows "spawn ng1Profile 1 s = ([T_Deploy (ng1Deploy ''ng1-0'') ng1Tags], s)"
  using assms
  by (simp add: Id_ng1Profile randomName_const createDeployVMParams_def ng1Deploy_def ng1Tags_def)

lemma completion_2: "completion 2 = [0, 0, 0, 0, 1, 1, 1, 1]"
  by (simp add: completion_def numeral_2_eq_2 numeral_Bit0)

lemma completion_1: "completion 1 = [0, 0, 0, 0]"
  by (simp add: completion_def numeral_Bit0)

lemma replicate_2: "replicate 2 x = [x, x]"
  by (simp add: numeral_2_eq_2)

lemma pool_twoErr:
  "scaleUp_pool \<lparr>client = twoErrClient, expunge = False\<rparr> [] ng1Profile 2 sysN =
     \<lparr>tasks = [T_Exit (Some ''first err''), T_Exit (Some ''second err'')],
      errCh = [Some ''first err'', Some ''second err''],
      hist = [[DeployCall (ng1Deploy ''ng1-0'')], [DeployCall (ng1Deploy ''ng1-0'')]],
      answers = [[DeployAnswer (DeployFailed None ''first err'')],
                 [DeployAnswer (DeployFailed None ''second err'')]],
      psys = sysN\<lparr>world := 2, calls := [DeployCall (ng1Deploy ''ng1-0''), DeployCall (ng1Deploy ''ng1-0'')]\<rparr>\<rparr>"
proof -
  have r: "rands sysN = (\<lambda>n. 0)" by (simp add: sysN_def)
  show ?thesis
    apply (simp only: scaleUp_pool_def spawn2_const [OF r] completion_2 replicate_2 prod.case append_Nil)
    apply (simp add: sched_step_def invoke_def twoErrClient_def sysN_def)
    done
qed

lemma pool_twoErr':
  "scaleUp_pool \<lparr>client = twoErrClient, expunge = False\<rparr> [1, 0, 0, 1] ng1Profile 2 sysN =
     \<lparr>tasks = [T_Exit (Some ''second err''), T_Exit (Some ''first err'')],
      errCh = [Some ''second err'', Some ''first err''],
      hist = [[DeployCall (ng1Deploy ''ng1-0'')], [DeployCall (ng1Deploy ''ng1-0'')]],
      answers = [[DeployAnswer (DeployFailed None ''second err'')],
                 [DeployAnswer (DeployFailed None ''first err'')]],
      psys = sysN\<lparr>world := 2, calls := [DeployCall (ng1Deploy ''ng1-0''), DeployCall (ng1Deploy ''ng1-0'')]\<rparr>\<rparr>"
proof -
  have r: "rands sysN = (\<lambda>n. 0)" by (simp add: sysN_def)
  show ?thesis
    apply (simp only: scaleUp_pool_def spawn2_const [OF r] completion_2 replicate_2 prod.case append.simps)
    apply (simp add: sched_step_def invoke_def twoErrClient_def sysN_def)
    done
qed

lemma pool_flaky:
  "scaleUp_pool \<lparr>client = flakyClient, expunge = False\<rparr> [] ng1Profile 2 sysN =
     \<lparr>tasks = [T_Exit None, T_Exit (Some ''deploy err'')],
      errCh = [None, Some ''deploy err''],
      hist = [[DeployCall (ng1Deploy ''ng1-0''),
               CreateTagsCall (ng1Tags\<lparr>ct_resourceids := [''vm1-id1''], ct_resourcetype := ''UserVm''\<rparr>)],
              [DeployCall (ng1Deploy ''ng1-0'')]],
      answers = [[DeployAnswer (Deployed ''vm1-id1''), ErrAnswer None],
                 [DeployAnswer (DeployFailed None ''deploy err'')]],
      psys = sysN\<lparr>world := 2,
                  calls := [DeployCall (ng1Deploy ''ng1-0''),
                            CreateTagsCall (ng1Tags\<lparr>ct_resourceids := [''vm1-id1''], ct_resourcetype := ''UserVm''\<rparr>),
                            DeployCall (ng1Deploy ''ng1-0'')]\<rparr>\<rparr>"
proof -
  have r: "rands sysN = (\<lambda>n. 0)" by (simp add: sysN_def)
  show ?thesis
    apply (simp only: scaleUp_pool_def spawn2_const [OF r] completion_2 replicate_2 prod.case append_Nil)
    apply (simp add: sched_step_def invoke_def flakyClient_def twoErrClient_def sysN_def
             resourceTypeVirtualMachine_def)
    done
qed

lemma spawn2_sim:
  "spawn ng1Profile 2 simSys =
     ([T_Deploy (ng1Deploy ''ng1-7'') ng1Tags, T_Deploy (ng1Deploy ''ng1-9'') ng1Tags],
      simSys\<lparr>rands := (\<lambda>n. 9)\<rparr>)"
proof -
  have a: "randomName ''ng1'' simSys = (''ng1-7'', simSys\<lparr>rands := (\<lambda>n. 9)\<rparr>)"
    by (simp add: randomName_def rand_Uint64_def simSys_def)
  have b: "randomName ''ng1'' (simSys\<lparr>rands := (\<lambda>n. 9)\<rparr>) = (''ng1-9'', simSys\<lparr>rands := (\<lambda>n. 9)\<rparr>)"
    by (simp add: randomName_def rand_Uint64_def simSys_def)
  show ?thesis
    by (simp add: numeral_2_eq_2 Id_ng1Profile a b createDeployVMParams_def ng1Deploy_def ng1Tags_def)
qed

lemma makechan_ok_2: "makechan_ok 2"
  by (simp add: makechan_ok_def)

lemma nat_2: "nat 2 = 2"
  by simp

lemma scaleUp_sim:
  "scaleUp (scaler simManager) [] ng1Profile 2 simSys =
     Some (None,
      simSys\<lparr>rands := (\<lambda>n. 9),
             world := [\<lparr>vm_Id = ''ng1-7'', vm_State = ''Running''\<rparr>, \<lparr>vm_Id = ''ng1-9'', vm_State = ''Running''\<rparr>],
             calls := [DeployCall (ng1Deploy ''ng1-7''),
                       CreateTagsCall (ng1Tags\<lparr>ct_resourceids := [''ng1-7''], ct_resourcetype := ''UserVm''\<rparr>),
                       DeployCall (ng1Deploy ''ng1-9''),
                       CreateTagsCall (ng1Tags\<lparr>ct_resourceids := [''ng1-9''], ct_resourcetype := ''UserVm''\<rparr>)]\<rparr>)"
  apply (simp only: scaleUp_def makechan_ok_2 nat_2 not_True_eq_False if_False scaleUp_pool_def spawn2_sim
           completion_2 replicate_2 prod.case append_Nil)
  apply (simp add: sched_step_def invoke_def simManager_def simClient_def simSys_def
           resourceTypeVirtualMachine_def List.map_filter_def ng1Deploy_def)
  done

lemma scaleUp_half:
  "scaleUp (scaler halfManager) [] ng1Profile 2 simSys =
     Some (Some ''error creating VMs: deploy err'',
      simSys\<lparr>rands := (\<lambda>n. 9),
             world := [\<lparr>vm_Id = ''ng1-7'', vm_State = ''Running''\<rparr>],
             calls := [DeployCall (ng1Deploy ''ng1-7''),
                       CreateTagsCall (ng1Tags\<lparr>ct_resourceids := [''ng1-7''], ct_resourcetype := ''UserVm''\<rparr>),
                       DeployCall (ng1Deploy ''ng1-9'')]\<rparr>)"
  apply (simp only: scaleUp_def makechan_ok_2 nat_2 not_True_eq_False if_False scaleUp_pool_def spawn2_sim
           completion_2 replicate_2 prod.case append_Nil)
  apply (simp add: sched_step_def invoke_def halfManager_def halfClient_def simManager_def simClient_def
           simSys_def resourceTypeVirtualMachine_def List.map_filter_def ng1Deploy_def)
  done

lemma scaleUp_fail:
  "scaleUp (scaler failManager) [] ng1Profile 2 sys0 =
     Some (Some ''error creating VMs: deploy err - deploy err'',
      sys0\<lparr>calls := [DeployCall (ng1Deploy ''ng1-0''), DeployCall (ng1Deploy ''ng1-0'')]\<rparr>)"
proof -
  have r: "rands sys0 = (\<lambda>n. 0)" by (simp add: sys0_def)
  show ?thesis
    apply (simp only: scaleUp_def makechan_ok_2 nat_2 not_True_eq_False if_False scaleUp_pool_def
             spawn2_const [OF r] completion_2 replicate_2 prod.case append_Nil)
    apply (simp add: sched_step_def invoke_def failManager_def failingDeploy_def fakeClient_def sys0_def
             List.map_filter_def)
    done
qed

lemma MinSize_emptyNg1: "MinSize emptyNg1 = 2"
  by (simp add: MinSize_def minSize_def emptyNg1_def ng1Profile_def profileOf_def map_get_def
        autoScaleProfileMetadataMin_def Atoi_def ParseUint_def isDigit_def digitVal_def)

lemma scaleUp_flaky:
  "scaleUp \<lparr>client = flakyClient, expunge = False\<rparr> [] ng1Profile 2 sysN =
     Some (Some ''error creating VMs: deploy err'',
           sysN\<lparr>world := 2,
                calls := [DeployCall (ng1Deploy ''ng1-0''),
                          CreateTagsCall (ng1Tags\<lparr>ct_resourceids := [''vm1-id1''], ct_resourcetype := ''UserVm''\<rparr>),
                          DeployCall (ng1Deploy ''ng1-0'')]\<rparr>)"
  apply (simp only: scaleUp_def Let_def makechan_ok_2 nat_2 not_True_eq_False if_False pool_flaky)
  apply (simp add: List.map_filter_def)
  done

theorem scaleUp_batch_witness:
  "scaleUp \<lparr>client = flakyClient, expunge = False\<rparr> [] ng1Profile 2 sysN =
     Some (Some ''error creating VMs: deploy err'',
           sysN\<lparr>world := 2,
                calls := [DeployCall (ng1Deploy ''ng1-0''),
                          CreateTagsCall (ng1Tags\<lparr>ct_resourceids := [''vm1-id1''], ct_resourcetype := ''UserVm''\<rparr>),
                          DeployCall (ng1Deploy ''ng1-0'')]\<rparr>)
 \<and> length (filter is_DeployCall
      [DeployCall (ng1Deploy ''ng1-0''),
       CreateTagsCall (ng1Tags\<lparr>ct_resourceids := [''vm1-id1''], ct_resourcetype := ''UserVm''\<rparr>),
       DeployCall (ng1Deploy ''ng1-0'')]) = 2
 \<and> createVM (replayScaler False) (ng1Deploy ''ng1-0'') ng1Tags
      (replaySys [DeployAnswer (Deployed ''vm1-id1''), ErrAnswer None])
     = (None,
        (replaySys [])\<lparr>calls :=
          [DeployCall (ng1Deploy ''ng1-0''),
           CreateTagsCall (ng1Tags\<lparr>ct_resourceids := [''vm1-id1''], ct_resourcetype := ''UserVm''\<rparr>)]\<rparr>)
 \<and> createVM (replayScaler False) (ng1Deploy ''ng1-0'') ng1Tags
      (replaySys [DeployAnswer (DeployFailed None ''deploy err'')])
     = (Some ''deploy err'', (replaySys [])\<lparr>calls := [DeployCall (ng1Deploy ''ng1-0'')]\<rparr>)
 \<and> map_option fst (scaleUp \<lparr>client = twoErrClient, expunge = False\<rparr> [] ng1Profile 2 sysN)
     = Some (Some ''error creating VMs: first err - second err'')
 \<and> map_option fst (scaleUp \<lparr>client = twoErrClient, expunge = False\<rparr> [1, 0, 0, 1] ng1Profile 2 sysN)
     = Some (Some ''error creating VMs: second err - first err'')
 \<and> scaleUp \<lparr>client = flakyClient, expunge = False\<rparr> [] ng1Profile 17592186044411 sysN = None"
proof -
  let ?sc = "\<lparr>client = flakyClient, expunge = False\<rparr>"
  let ?calls = "[DeployCall (ng1Deploy ''ng1-0''),
       CreateTagsCall (ng1Tags\<lparr>ct_resourceids := [''vm1-id1''], ct_resourcetype := ''UserVm''\<rparr>),
       DeployCall (ng1Deploy ''ng1-0'')]"
  let ?p = "scaleUp_pool ?sc [] ng1Profile 2 sysN"
  have c: "calls sysN = []" by (simp add: sysN_def)
  have r: "rands sysN = (\<lambda>n. 0)" by (simp add: sysN_def)
  have x: "expunge ?sc = False" by simp
  note T = scaleUp_batch [of ?sc "[]" ng1Profile 2 sysN]
  note U = T [THEN conjunct2, THEN conjunct2, rule_format, OF scaleUp_flaky, unfolded nat_2 x]
  have "length (filter is_DeployCall (calls (sysN\<lparr>world := 2, calls := ?calls\<rparr>)))
          = length (filter is_DeployCall (calls sysN)) + 2"
    by (rule U [THEN conjunct2, THEN conjunct2, THEN conjunct1])
  then have a: "length (filter is_DeployCall ?calls) = 2"
    by (simp only: c filter.simps list.size) simp
  note R = U [THEN conjunct2, THEN conjunct2, THEN conjunct2, THEN conjunct2, THEN conjunct2,
              THEN conjunct1]
  have sp: "fst (spawn ng1Profile 2 sysN) = [T_Deploy (ng1Deploy ''ng1-0'') ng1Tags, T_Deploy (ng1Deploy ''ng1-0'') ng1Tags]"
    by (simp only: spawn2_const [OF r] fst_conv)
  have p0: "answers ?p ! 0 = [DeployAnswer (Deployed ''vm1-id1''), ErrAnswer None]"
    and h0: "hist ?p ! 0 = [DeployCall (ng1Deploy ''ng1-0''),
           CreateTagsCall (ng1Tags\<lparr>ct_resourceids := [''vm1-id1''], ct_resourcetype := ''UserVm''\<rparr>)]"
    and o0: "outcome (tasks ?p ! 0) = None"
    and p1: "answers ?p ! 1 = [DeployAnswer (DeployFailed None ''deploy err'')]"
    and h1: "hist ?p ! 1 = [DeployCall (ng1Deploy ''ng1-0'')]"
    and o1: "outcome (tasks ?p ! 1) = Some ''deploy err''"
    by (simp_all only: pool_flaky) simp_all
  from R [THEN spec, of 0] obtain name0 where
    n0: "fst (spawn ng1Profile 2 sysN) ! 0
           = T_Deploy ((createDeployVMParams ng1Profile)\<lparr>dp_name := name0\<rparr>) (createVMTagsParams ng1Profile)"
    and c0: "createVM (replayScaler False) ((createDeployVMParams ng1Profile)\<lparr>dp_name := name0\<rparr>)
               (createVMTagsParams ng1Profile) (replaySys (answers ?p ! 0))
             = (outcome (tasks ?p ! 0), (replaySys [])\<lparr>calls := hist ?p ! 0\<rparr>)"
    by auto
  from n0 have d0: "(createDeployVMParams ng1Profile)\<lparr>dp_name := name0\<rparr> = ng1Deploy ''ng1-0''"
    and t0: "createVMTagsParams ng1Profile = ng1Tags"
    unfolding sp by simp_all
  from c0 have b0: "createVM (replayScaler False) (ng1Deploy ''ng1-0'') ng1Tags
      (replaySys [DeployAnswer (Deployed ''vm1-id1''), ErrAnswer None])
     = (None,
        (replaySys [])\<lparr>calls :=
          [DeployCall (ng1Deploy ''ng1-0''),
           CreateTagsCall (ng1Tags\<lparr>ct_resourceids := [''vm1-id1''], ct_resourcetype := ''UserVm''\<rparr>)]\<rparr>)"
    by (simp only: d0 t0 p0 h0 o0)
  from R [THEN spec, of 1] obtain name1 where
    n1: "fst (spawn ng1Profile 2 sysN) ! 1
           = T_Deploy ((createDeployVMParams ng1Profile)\<lparr>dp_name := name1\<rparr>) (createVMTagsParams ng1Profile)"
    and c1: "createVM (replayScaler False) ((createDeployVMParams ng1Profile)\<lparr>dp_name := name1\<rparr>)
               (createVMTagsParams ng1Profile) (replaySys (answers ?p ! 1))
             = (outcome (tasks ?p ! 1), (replaySys [])\<lparr>calls := hist ?p ! 1\<rparr>)"
    by auto
  from n1 have d1: "(createDeployVMParams ng1Profile)\<lparr>dp_name := name1\<rparr> = ng1Deploy ''ng1-0''"
    unfolding sp by simp
  from c1 have b1: "createVM (replayScaler False) (ng1Deploy ''ng1-0'') ng1Tags
      (replaySys [DeployAnswer (DeployFailed None ''deploy err'')])
     = (Some ''deploy err'', (replaySys [])\<lparr>calls := [DeployCall (ng1Deploy ''ng1-0'')]\<rparr>)"
    by (simp only: d1 t0 p1 h1 o1)
  have d: "map_option fst (scaleUp \<lparr>client = twoErrClient, expunge = False\<rparr> [] ng1Profile 2 sysN)
     = Some (Some ''error creating VMs: first err - second err'')"
    apply (simp only: scaleUp_def Let_def makechan_ok_2 nat_2 not_True_eq_False if_False pool_twoErr)
    apply (simp add: List.map_filter_def)
    done
  have e: "map_option fst (scaleUp \<lparr>client = twoErrClient, expunge = False\<rparr> [1, 0, 0, 1] ng1Profile 2 sysN)
     = Some (Some ''error creating VMs: second err - first err'')"
    apply (simp only: scaleUp_def Let_def makechan_ok_2 nat_2 not_True_eq_False if_False pool_twoErr')
    apply (simp add: List.map_filter_def)
    done
  have big: "\<not> makechan_ok 17592186044411" by (simp add: makechan_ok_def)
  have f: "scaleUp ?sc [] ng1Profile 17592186044411 sysN = None"
    using scaleUp_batch [of ?sc "[]" ng1Profile 17592186044411 sysN, THEN conjunct1] big by blast
  show ?thesis
    by (intro conjI) (rule scaleUp_flaky, rule a, rule b0, rule b1, rule d, rule e, rule f)
qed

theorem scaleUp_count_counterexample:
  "(0 :: int) < 9223372036854775807
 \<and> scaleUp \<lparr>client = flakyClient, expunge = False\<rparr> [] ng1Profile 9223372036854775807 sysN = None"
  by (simp add: scaleUp_def makechan_ok_def)

lemma emptyNg1_sel: "vmProfile emptyNg1 = ng1Profile" "vms emptyNg1 = []"
  by (simp_all add: emptyNg1_def)

lemma emptyNg1_deficit: "MinSize emptyNg1 - int (length (vms emptyNg1)) = 2"
  by (simp add: MinSize_emptyNg1 emptyNg1_sel)

lemma emptyNg1_below: "int (length (vms emptyNg1)) < MinSize emptyNg1"
  by (simp add: MinSize_emptyNg1 emptyNg1_sel)

lemma emptyNg1_ok:
  "int (length (vms emptyNg1)) < MinSize emptyNg1
     \<and> makechan_ok (MinSize emptyNg1 - int (length (vms emptyNg1)))"
  by (simp add: MinSize_emptyNg1 emptyNg1_sel makechan_ok_def)

lemma MinSize_hugeMin: "MinSize hugeMin = 9223372036854775807"
  by (simp add: MinSize_def minSize_def hugeMin_def hugeMinMetadata_def profileOf_def map_get_def
        autoScaleProfileMetadataMin_def Atoi_def ParseUint_def isDigit_def digitVal_def Let_def)

lemma hugeMin_panics:
  "int (length (vms hugeMin)) < MinSize hugeMin
     \<and> \<not> makechan_ok (MinSize hugeMin - int (length (vms hugeMin)))"
  by (simp add: MinSize_hugeMin) (simp add: hugeMin_def makechan_ok_def)

lemma valid_hugeMin: "validASP fakeManager hugeMinMetadata"
  by (simp add: validASP_def hugeMinMetadata_def
        requiredAutoScaleProfileMetadata_def autoScaleProfileMetadataName_def
        autoScaleProfileMetadataMin_def autoScaleProfileMetadataMax_def
        matchesLabelConfigs_def matchesSelector_def fakeManager_def)

lemma scaleUp_fail':
  "scaleUp (scaler failManager) [] (vmProfile emptyNg1)
     (MinSize emptyNg1 - int (length (vms emptyNg1))) sys0 =
     Some (Some ''error creating VMs: deploy err - deploy err'',
      sys0\<lparr>calls := [DeployCall (ng1Deploy ''ng1-0''), DeployCall (ng1Deploy ''ng1-0'')]\<rparr>)"
  by (simp only: emptyNg1_deficit) (simp only: emptyNg1_sel scaleUp_fail)

lemma scaleUp_sim':
  "scaleUp (scaler simManager) [] (vmProfile emptyNg1)
     (MinSize emptyNg1 - int (length (vms emptyNg1))) simSys =
     Some (None,
      simSys\<lparr>rands := (\<lambda>n. 9),
             world := [\<lparr>vm_Id = ''ng1-7'', vm_State = ''Running''\<rparr>, \<lparr>vm_Id = ''ng1-9'', vm_State = ''Running''\<rparr>],
             calls := [DeployCall (ng1Deploy ''ng1-7''),
                       CreateTagsCall (ng1Tags\<lparr>ct_resourceids := [''ng1-7''], ct_resourcetype := ''UserVm''\<rparr>),
                       DeployCall (ng1Deploy ''ng1-9''),
                       CreateTagsCall (ng1Tags\<lparr>ct_resourceids := [''ng1-9''], ct_resourcetype := ''UserVm''\<rparr>)]\<rparr>)"
  by (simp only: emptyNg1_deficit) (simp only: emptyNg1_sel scaleUp_sim)

lemma scaleUp_half':
  "scaleUp (scaler halfManager) [] (vmProfile emptyNg1)
     (MinSize emptyNg1 - int (length (vms emptyNg1))) simSys =
     Some (Some ''error creating VMs: deploy err'',
      simSys\<lparr>rands := (\<lambda>n. 9),
             world := [\<lparr>vm_Id = ''ng1-7'', vm_State = ''Running''\<rparr>],
             calls := [DeployCall (ng1Deploy ''ng1-7''),
                       CreateTagsCall (ng1Tags\<lparr>ct_resourceids := [''ng1-7''], ct_resourcetype := ''UserVm''\<rparr>),
                       DeployCall (ng1Deploy ''ng1-9'')]\<rparr>)"
  by (simp only: emptyNg1_deficit) (simp only: emptyNg1_sel scaleUp_half)

theorem TargetSize_self_heal_witness:
  "map_option fst (TargetSize simManager [] emptyNg1 simSys) = Some (2, None)
 \<and> TargetSize simManager [] (emptyNg1\<lparr>vms := [vmOf ''xyz'', vmOf ''abc'', vmOf ''efg'']\<rparr>) simSys
     = Some ((3, None), emptyNg1\<lparr>vms := [vmOf ''xyz'', vmOf ''abc'', vmOf ''efg'']\<rparr>, simSys)
 \<and> TargetSize failManager [] emptyNg1 sys0
     = Some ((0, None), emptyNg1,
             sys0\<lparr>calls := [DeployCall (ng1Deploy ''ng1-0''), DeployCall (ng1Deploy ''ng1-0'')]\<rparr>)
 \<and> TargetSize fakeManager [] hugeMin sys0 = None"
proof -
  let ?g3 = "emptyNg1\<lparr>vms := [vmOf ''xyz'', vmOf ''abc'', vmOf ''efg'']\<rparr>"
  let ?vs = "[\<lparr>vm_Id = ''ng1-7'', vm_State = ''Running''\<rparr>, \<lparr>vm_Id = ''ng1-9'', vm_State = ''Running''\<rparr>]"
  let ?s1 = "simSys\<lparr>rands := (\<lambda>n. 9), world := ?vs,
             calls := [DeployCall (ng1Deploy ''ng1-7''),
                       CreateTagsCall (ng1Tags\<lparr>ct_resourceids := [''ng1-7''], ct_resourcetype := ''UserVm''\<rparr>),
                       DeployCall (ng1Deploy ''ng1-9''),
                       CreateTagsCall (ng1Tags\<lparr>ct_resourceids := [''ng1-9''], ct_resourcetype := ''UserVm''\<rparr>)]\<rparr>"
  have m3: "MinSize ?g3 \<le> int (length (vms ?g3))"
    using MinSize_emptyNg1 by (simp add: MinSize_def emptyNg1_sel)
  have l: "ListVirtualMachines (m_client simManager)
               \<lparr>lv_asp = asp (vmProfile emptyNg1), lv_tags = [nodeGroupVMTag \<mapsto> Id_csNodeGroup emptyNg1]\<rparr>
               (world ?s1)
          = (Inr ?vs, ?vs)"
    by (simp add: simManager_def simClient_def)
  note S = TargetSize_self_heal [of emptyNg1 simManager "[]" simSys, THEN conjunct2, THEN conjunct2,
             THEN mp, OF emptyNg1_ok]
  from S [THEN conjunct2, THEN conjunct2, THEN conjunct1, rule_format, OF conjI [OF scaleUp_sim' l]]
  obtain g' s' where "TargetSize simManager [] emptyNg1 simSys = Some ((int (length ?vs), None), g', s')"
    by blast
  then have a: "map_option fst (TargetSize simManager [] emptyNg1 simSys) = Some (2, None)"
    by simp
  have "TargetSize simManager [] ?g3 simSys = Some ((int (length (vms ?g3)), None), ?g3, simSys)"
    by (rule TargetSize_self_heal [of ?g3 simManager "[]" simSys, THEN conjunct1, THEN mp, OF m3])
  then have b: "TargetSize simManager [] ?g3 simSys = Some ((3, None), ?g3, simSys)"
    by simp
  note F = TargetSize_self_heal [of emptyNg1 failManager "[]" sys0, THEN conjunct2, THEN conjunct2,
             THEN mp, OF emptyNg1_ok]
  have "TargetSize failManager [] emptyNg1 sys0
     = Some ((int (length (vms emptyNg1)), None), emptyNg1,
             sys0\<lparr>calls := [DeployCall (ng1Deploy ''ng1-0''), DeployCall (ng1Deploy ''ng1-0'')]\<rparr>)"
    by (rule F [THEN conjunct2, THEN conjunct1, rule_format, OF scaleUp_fail'])
  then have c: "TargetSize failManager [] emptyNg1 sys0
     = Some ((0, None), emptyNg1,
             sys0\<lparr>calls := [DeployCall (ng1Deploy ''ng1-0''), DeployCall (ng1Deploy ''ng1-0'')]\<rparr>)"
    by (simp add: emptyNg1_sel)
  have d: "TargetSize fakeManager [] hugeMin sys0 = None"
    by (rule TargetSize_self_heal [of hugeMin fakeManager "[]" sys0, THEN conjunct2, THEN conjunct1,
               THEN mp, OF hugeMin_panics])
  show ?thesis
    by (intro conjI) (rule a, rule b, rule c, rule d)
qed

theorem TargetSize_stale_counterexample:
  "TargetSize halfManager [] emptyNg1 simSys
     = Some ((0, None), emptyNg1,
             simSys\<lparr>rands := (\<lambda>n. 9),
                    world := [\<lparr>vm_Id = ''ng1-7'', vm_State = ''Running''\<rparr>],
                    calls := [DeployCall (ng1Deploy ''ng1-7''),
                              CreateTagsCall (ng1Tags\<lparr>ct_resourceids := [''ng1-7''], ct_resourcetype := ''UserVm''\<rparr>),
                              DeployCall (ng1Deploy ''ng1-9'')]\<rparr>)
 \<and> fst (ListVirtualMachines (m_client halfManager)
           \<lparr>lv_asp = asp (vmProfile emptyNg1), lv_tags = [nodeGroupVMTag \<mapsto> Id_csNodeGroup emptyNg1]\<rparr>
           [\<lparr>vm_Id = ''ng1-7'', vm_State = ''Running''\<rparr>])
     = Inr [\<lparr>vm_Id = ''ng1-7'', vm_State = ''Running''\<rparr>]"
proof -
  have a: "TargetSize halfManager [] emptyNg1 simSys
     = Some ((0, None), emptyNg1,
             simSys\<lparr>rands := (\<lambda>n. 9),
                    world := [\<lparr>vm_Id = ''ng1-7'', vm_State = ''Running''\<rparr>],
                    calls := [DeployCall (ng1Deploy ''ng1-7''),
                              CreateTagsCall (ng1Tags\<lparr>ct_resourceids := [''ng1-7''], ct_resourcetype := ''UserVm''\<rparr>),
                              DeployCall (ng1Deploy ''ng1-9'')]\<rparr>)"
    apply (simp only: TargetSize_below [OF emptyNg1_below] manager_scaleUp_def scaleUp_half')
    apply (simp add: emptyNg1_sel)
    done
  have b: "fst (ListVirtualMachines (m_client halfManager)
           \<lparr>lv_asp = asp (vmProfile emptyNg1), lv_tags = [nodeGroupVMTag \<mapsto> Id_csNodeGroup emptyNg1]\<rparr>
           [\<lparr>vm_Id = ''ng1-7'', vm_State = ''Running''\<rparr>])
     = Inr [\<lparr>vm_Id = ''ng1-7'', vm_State = ''Running''\<rparr>]"
    by (simp add: halfManager_def halfClient_def simManager_def simClient_def)
  show ?thesis by (intro conjI) (rule a, rule b)
qed

theorem TargetSize_error_nil_witness:
  "TargetSize failManager [] emptyNg1 sys0
     = Some ((0, None), emptyNg1,
             sys0\<lparr>calls := [DeployCall (ng1Deploy ''ng1-0''), DeployCall (ng1Deploy ''ng1-0'')]\<rparr>)
 \<and> manager_scaleUp failManager [] emptyNg1 2 sys0
     = Some (Some ''error creating VMs: deploy err - deploy err'', emptyNg1,
             sys0\<lparr>calls := [DeployCall (ng1Deploy ''ng1-0''), DeployCall (ng1Deploy ''ng1-0'')]\<rparr>)
 \<and> TargetSize failManager [] emptyNg1 sys0 \<noteq> None
 \<and> TargetSize fakeManager [] hugeMin sys0 = None"
proof -
  let ?s1 = "sys0\<lparr>calls := [DeployCall (ng1Deploy ''ng1-0''), DeployCall (ng1Deploy ''ng1-0'')]\<rparr>"
  have ms: "manager_scaleUp failManager [] emptyNg1 2 sys0
     = Some (Some ''error creating VMs: deploy err - deploy err'', emptyNg1, ?s1)"
    apply (simp only: manager_scaleUp_def emptyNg1_sel scaleUp_fail)
    apply simp
    done
  have ts: "TargetSize failManager [] emptyNg1 sys0 = Some ((0, None), emptyNg1, ?s1)"
    apply (simp only: TargetSize_below [OF emptyNg1_below] emptyNg1_deficit ms)
    apply (simp add: emptyNg1_sel)
    done
  note T = TargetSize_error_nil [of failManager "[]" emptyNg1 sys0]
  have e: "TargetSize failManager [] emptyNg1 sys0 \<noteq> None"
    using T [THEN conjunct2] emptyNg1_ok by blast
  have d: "TargetSize fakeManager [] hugeMin sys0 = None"
    using TargetSize_error_nil [of fakeManager "[]" hugeMin sys0, THEN conjunct2] hugeMin_panics
    by blast
  show ?thesis
    by (intro conjI) (rule ts, rule ms, rule e, rule d)
qed

theorem TargetSize_panics_counterexample:
  "validASP fakeManager hugeMinMetadata
 \<and> aspMetadata (vmProfile hugeMin) = Some hugeMinMetadata
 \<and> MinSize hugeMin = 9223372036854775807
 \<and> TargetSize fakeManager [] hugeMin sys0 = None"
proof -
  have a: "aspMetadata (vmProfile hugeMin) = Some hugeMinMetadata"
    by (simp add: hugeMin_def profileOf_def)
  have d: "TargetSize fakeManager [] hugeMin sys0 = None"
    using hugeMin_panics by (simp add: TargetSize_None)
  show ?thesis
    by (intro conjI) (rule valid_hugeMin, rule a, rule MinSize_hugeMin, rule d)
qed

lemma Atoi_big: "Atoi ''99999999999999999999x'' = (9223372036854775807, Some ErrRange)"
  by (simp add: Atoi_def ParseUint_def isDigit_def digitVal_def Let_def)

lemma Atoi_neg: "Atoi ''-9223372036854775809'' = (- 9223372036854775808, Some ErrRange)"
  by (simp add: Atoi_def ParseUint_def isDigit_def digitVal_def Let_def)

lemma Atoi_abc: "Atoi ''abc'' = (0, Some ErrSyntax)"
  by (simp add: Atoi_def ParseUint_def isDigit_def)

lemma Atoi_1x: "Atoi ''1x'' = (0, Some ErrSyntax)"
  by (simp add: Atoi_def ParseUint_def isDigit_def digitVal_def Let_def)

lemma Atoi_empty: "Atoi [] = (0, Some ErrSyntax)"
  by (simp add: Atoi_def)

lemma MaxSize_groupBigMax: "MaxSize groupBigMax = 9223372036854775807"
  by (simp add: MaxSize_def maxSize_def groupBigMax_def profileOf_def map_get_def
        autoScaleProfileMetadataMax_def Atoi_big)

lemma MinSize_groupBigMax: "MinSize groupBigMax = 0"
  by (simp add: MinSize_def minSize_def groupBigMax_def profileOf_def map_get_def
        autoScaleProfileMetadataMin_def Atoi_empty)

lemma MinSize_groupNegMax: "MinSize groupNegMax = 0"
  by (simp add: MinSize_def minSize_def groupNegMax_def profileOf_def map_get_def
        autoScaleProfileMetadataMin_def Atoi_empty)

lemma TargetSize_at_min:
  "MinSize g \<le> int (length (vms g)) \<Longrightarrow>
     TargetSize m sched g s = Some ((int (length (vms g)), None), g, s)"
  by (simp add: TargetSize_def Let_def)

lemma TargetSize_groupBigMax:
  "TargetSize fakeManager [] groupBigMax sys0 = Some ((0, None), groupBigMax, sys0)"
  using TargetSize_at_min [of groupBigMax fakeManager "[]" sys0]
  by (simp add: MinSize_groupBigMax) (simp add: groupBigMax_def)

lemma TargetSize_groupNegMax:
  "TargetSize fakeManager [] groupNegMax sys0 = Some ((0, None), groupNegMax, sys0)"
  using TargetSize_at_min [of groupNegMax fakeManager "[]" sys0]
  by (simp add: MinSize_groupNegMax) (simp add: groupNegMax_def)

lemma scaleUp_fake1: "map_option fst (scaleUp fakeScaler [] vmp 1 s) = Some None"
proof -
  have "fst (createVM fakeScaler d tg s0) = None" for d tg and s0 :: "unit sys"
    by (simp add: createVM_def invoke_def fakeScaler_def fakeClient_def Let_def)
  note n = this
  obtain name s0 where rn: "randomName (Id_vmProfile vmp) s = (name, s0)"
    by (cases "randomName (Id_vmProfile vmp) s")
  obtain r s1 where cv: "createVM fakeScaler ((createDeployVMParams vmp)\<lparr>dp_name := name\<rparr>)
      (createVMTagsParams vmp) s0 = (r, s1)"
    by (cases "createVM fakeScaler ((createDeployVMParams vmp)\<lparr>dp_name := name\<rparr>)
      (createVMTagsParams vmp) s0")
  with n [of "(createDeployVMParams vmp)\<lparr>dp_name := name\<rparr>" "createVMTagsParams vmp" s0]
  have r: "r = None" by simp
  show ?thesis
    by (simp add: scaleUp_single rn cv r)
qed

lemma refreshNodeGroupVms_fake: "fst (refreshNodeGroupVms fakeManager g s) = None"
  by (simp add: refreshNodeGroupVms_def Let_def invoke_def fakeManager_def fakeClient_def)

lemma manager_scaleUp_fake1: "map_option fst (manager_scaleUp fakeManager [] g 1 s) = Some None"
proof -
  have sc: "scaler fakeManager = fakeScaler" by (simp add: fakeManager_def)
  from scaleUp_fake1 [of "vmProfile g" s] obtain s1 where
    "scaleUp fakeScaler [] (vmProfile g) 1 s = Some (None, s1)" by auto
  then show ?thesis
    by (simp add: manager_scaleUp_def sc refreshNodeGroupVms_fake)
qed

theorem maxNodes_range_counterexample:
  "Atoi ''99999999999999999999x'' = (9223372036854775807, Some ErrRange)
 \<and> \<not> isDecimal ''99999999999999999999x''
 \<and> MaxSize groupBigMax = 9223372036854775807
 \<and> IncreaseSize fakeManager [] [] groupBigMax 1 sys0 = manager_scaleUp fakeManager [] groupBigMax 1 sys0
 \<and> map_option fst (IncreaseSize fakeManager [] [] groupBigMax 1 sys0) = Some None"
proof -
  have nd: "\<not> isDecimal ''99999999999999999999x''"
    by (simp add: isDecimal_def isDigit_def)
  have ia: "int_add 0 1 = 1" by (simp add: int_add_def)
  have inc: "IncreaseSize fakeManager [] [] groupBigMax 1 sys0 = manager_scaleUp fakeManager [] groupBigMax 1 sys0"
    by (simp add: IncreaseSize_def TargetSize_groupBigMax ia MaxSize_groupBigMax)
  have ok: "map_option fst (IncreaseSize fakeManager [] [] groupBigMax 1 sys0) = Some None"
    by (simp only: inc manager_scaleUp_fake1)
  show ?thesis
    by (intro conjI) (rule Atoi_big, rule nd, rule MaxSize_groupBigMax, rule inc, rule ok)
qed

theorem maxSize_minSize_parse_witness:
  "MaxSize groupBadMax = 0
 \<and> MinSize groupBadMax = 0
 \<and> Atoi ''abc'' = (0, Some ErrSyntax)
 \<and> IncreaseSize fakeManager [] [] groupBadMax 2 sys0
     = Some (Some ''size increase is too large. current: 0 desired: 2 max: 0'', groupBadMax, sys0)
 \<and> MaxSize groupBigMax = 9223372036854775807
 \<and> IncreaseSize fakeManager [] [] groupBigMax 1 sys0 = manager_scaleUp fakeManager [] groupBigMax 1 sys0
 \<and> MaxSize groupNegMax = - 9223372036854775808
 \<and> IncreaseSize fakeManager [] [] groupNegMax 1 sys0
     = Some (Some ''size increase is too large. current: 0 desired: 1 max: -9223372036854775808'',
             groupNegMax, sys0)
 \<and> IncreaseSize fakeManager [] [] hugeMin 1 sys0 = None"
proof -
  let ?md = "[''nodeGroupName'' \<mapsto> ''ng1'', ''maxNodes'' \<mapsto> ''abc'', ''minNodes'' \<mapsto> ''1x'']"
  let ?mb = "[''nodeGroupName'' \<mapsto> ''ng1'', ''maxNodes'' \<mapsto> ''99999999999999999999x'']"
  let ?mn = "[''nodeGroupName'' \<mapsto> ''ng1'', ''maxNodes'' \<mapsto> ''-9223372036854775809'']"
  note T = maxSize_minSize_parse [where p = "vmProfile groupBadMax" and g = groupBadMax and delta = 2
             and m = fakeManager and sched = "[]" and sched' = "[]" and s = sys0]
  note R = T [THEN conjunct2, THEN conjunct2, THEN conjunct2]
  note R7 = R [THEN conjunct2, THEN conjunct2, THEN conjunct2]
  have md: "aspMetadata (vmProfile groupBadMax) = Some ?md"
    by (simp add: groupBadMax_def profileOf_def)
  have hmax: "snd (Atoi (map_get ?md ''maxNodes'')) = Some ErrSyntax"
    by (simp add: map_get_def Atoi_abc)
  have hmin: "snd (Atoi (map_get ?md ''minNodes'')) = Some ErrSyntax"
    by (simp add: map_get_def Atoi_1x)
  have "maxSize (vmProfile groupBadMax) = 0"
    by (rule R [THEN conjunct1, rule_format, OF conjI [OF md hmax]])
  then have a: "MaxSize groupBadMax = 0" by (simp only: MaxSize_def)
  have "minSize (vmProfile groupBadMax) = 0"
    by (rule R [THEN conjunct2, THEN conjunct1, rule_format, OF conjI [OF md hmin]])
  then have b: "MinSize groupBadMax = 0" by (simp only: MinSize_def)
  have sh: "length ''abc'' \<le> 19 \<and> \<not> isDecimal ''abc''"
    by (simp add: isDecimal_def isDigit_def)
  have c: "Atoi ''abc'' = (0, Some ErrSyntax)"
    by (rule R [THEN conjunct2, THEN conjunct2, THEN conjunct1, rule_format, OF sh])
  have v: "vms groupBadMax = []" by (simp add: groupBadMax_def)
  have ts: "TargetSize fakeManager [] groupBadMax sys0 = Some ((0, None), groupBadMax, sys0)"
    using TargetSize_at_min [of groupBadMax fakeManager "[]" sys0] by (simp add: b v)
  have hyp: "(0::int) < 2 \<and> MaxSize groupBadMax \<le> 0
             \<and> TargetSize fakeManager [] groupBadMax sys0 = Some ((0, None), groupBadMax, sys0)
             \<and> (0::int) + 2 < 2 ^ 63"
    using a ts by simp
  have "IncreaseSize fakeManager [] [] groupBadMax 2 sys0 =
          Some (Some (''size increase is too large. current: '' @ fmt_int 0 @
                 '' desired: '' @ fmt_int (0 + 2) @ '' max: '' @ fmt_int (MaxSize groupBadMax)),
                groupBadMax, sys0)"
    by (rule R7 [THEN conjunct2, THEN conjunct2, THEN conjunct2, THEN conjunct1, rule_format, OF hyp])
  then have d: "IncreaseSize fakeManager [] [] groupBadMax 2 sys0
     = Some (Some ''size increase is too large. current: 0 desired: 2 max: 0'', groupBadMax, sys0)"
    by (simp add: a fmt_int_def)
  note U = maxSize_minSize_parse [where p = "vmProfile groupBigMax" and g = groupBigMax and delta = 1
             and m = fakeManager and sched = "[]" and sched' = "[]" and s = sys0]
  note U7 = U [THEN conjunct2, THEN conjunct2, THEN conjunct2, THEN conjunct2, THEN conjunct2, THEN conjunct2]
  have mb: "aspMetadata (vmProfile groupBigMax) = Some ?mb"
    by (simp add: groupBigMax_def profileOf_def)
  have hb: "snd (Atoi (map_get ?mb ''maxNodes'')) = Some ErrRange"
    by (simp add: map_get_def Atoi_big)
  have "maxSize (vmProfile groupBigMax)
          = (if take 1 (map_get ?mb ''maxNodes'') = ''-'' then - (2 ^ 63) else 2 ^ 63 - 1)"
    by (rule U7 [THEN conjunct1, rule_format, OF conjI [OF mb hb]])
  then have e: "MaxSize groupBigMax = 9223372036854775807"
    by (simp add: MaxSize_def map_get_def)
  have hypb: "(0::int) < 1 \<and> MaxSize groupBigMax = 2 ^ 63 - 1
             \<and> TargetSize fakeManager [] groupBigMax sys0 = Some ((0, None), groupBigMax, sys0)"
    using e TargetSize_groupBigMax by simp
  have f: "IncreaseSize fakeManager [] [] groupBigMax 1 sys0 = manager_scaleUp fakeManager [] groupBigMax 1 sys0"
    by (rule U7 [THEN conjunct2, THEN conjunct2, THEN conjunct2, THEN conjunct2, rule_format, OF hypb])
  note V = maxSize_minSize_parse [where p = "vmProfile groupNegMax" and g = groupNegMax and delta = 1
             and m = fakeManager and sched = "[]" and sched' = "[]" and s = sys0]
  note V7 = V [THEN conjunct2, THEN conjunct2, THEN conjunct2, THEN conjunct2, THEN conjunct2, THEN conjunct2]
  have mn: "aspMetadata (vmProfile groupNegMax) = Some ?mn"
    by (simp add: groupNegMax_def profileOf_def)
  have hn: "snd (Atoi (map_get ?mn ''maxNodes'')) = Some ErrRange"
    by (simp add: map_get_def Atoi_neg)
  have "maxSize (vmProfile groupNegMax)
          = (if take 1 (map_get ?mn ''maxNodes'') = ''-'' then - (2 ^ 63) else 2 ^ 63 - 1)"
    by (rule V7 [THEN conjunct1, rule_format, OF conjI [OF mn hn]])
  then have g: "MaxSize groupNegMax = - 9223372036854775808"
    by (simp add: MaxSize_def map_get_def)
  have hypn: "(0::int) < 1 \<and> MaxSize groupNegMax \<le> 0
             \<and> TargetSize fakeManager [] groupNegMax sys0 = Some ((0, None), groupNegMax, sys0)
             \<and> (0::int) + 1 < 2 ^ 63"
    using g TargetSize_groupNegMax by simp
  have "IncreaseSize fakeManager [] [] groupNegMax 1 sys0 =
          Some (Some (''size increase is too large. current: '' @ fmt_int 0 @
                 '' desired: '' @ fmt_int (0 + 1) @ '' max: '' @ fmt_int (MaxSize groupNegMax)),
                groupNegMax, sys0)"
    by (rule V7 [THEN conjunct2, THEN conjunct2, THEN conjunct2, THEN conjunct1, rule_format, OF hypn])
  then have h: "IncreaseSize fakeManager [] [] groupNegMax 1 sys0
     = Some (Some ''size increase is too large. current: 0 desired: 1 max: -9223372036854775808'',
             groupNegMax, sys0)"
    by (simp add: g fmt_int_def)
  note W = maxSize_minSize_parse [where p = "vmProfile hugeMin" and g = hugeMin and delta = 1
             and m = fakeManager and sched = "[]" and sched' = "[]" and s = sys0]
  have tn: "TargetSize fakeManager [] hugeMin sys0 = None"
    using hugeMin_panics by (simp add: TargetSize_None)
  have hypw: "(0::int) < 1 \<and> TargetSize fakeManager [] hugeMin sys0 = None"
    using tn by simp
  have i: "IncreaseSize fakeManager [] [] hugeMin 1 sys0 = None"
    by (rule W [THEN conjunct2, THEN conjunct2, THEN conjunct2, THEN conjunct2, THEN conjunct2,
                THEN conjunct2, THEN conjunct2, THEN conjunct2, THEN conjunct1, rule_format, OF hypw])
  show ?thesis
    by (intro conjI) (rule a, rule b, rule c, rule d, rule e, rule f, rule g, rule h, rule i)
qed

end
